theory Spec2Isabelle
  imports Complex_Main "HOL-Library.Word"
begin

section \<open>Rasters: canvases and their pixel data\<close>

text \<open>
  The terrain engine of \<^verbatim>\<open>src/frontend/app.js\<close> works on browser canvases. A canvas
  is modelled by its size and the RGBA bytes of each pixel. JavaScript numbers are taken
  as real numbers: the rounding of double-precision arithmetic is not modelled. The decoded
  elevations are dyadic rationals that a 32-bit float holds exactly (see
  \<open>decode_float32_exact\<close>), so storing them in a \<^verbatim>\<open>Float32Array\<close> changes nothing.
\<close>

type_synonym byte = "8 word"

type_synonym rgba = "byte \<times> byte \<times> byte \<times> byte"

record canvas =
  cwidth :: nat
  cheight :: nat
  pixel :: "nat \<Rightarrow> nat \<Rightarrow> rgba"

text \<open>
  \<^verbatim>\<open>ImageData\<close>: \<^verbatim>\<open>data\<close> is the flat \<^verbatim>\<open>Uint8ClampedArray\<close> in RGBA order, row by row.
  The browser only makes image data whose array has \<open>4 * width * height\<close> bytes, and so do
  \<open>getImageData\<close> and \<open>heightmapData\<close> below (\<open>getImageData_length\<close>); the loops
  over such data read inside the array.
\<close>

record imageData =
  iwidth :: nat
  iheight :: nat
  idata :: "byte list"

definition rgba_bytes :: "rgba \<Rightarrow> byte list" where
  "rgba_bytes p = (case p of (r, g, b, a) \<Rightarrow> [r, g, b, a])"

text \<open>\<^verbatim>\<open>ctx.getImageData(0, 0, width, height)\<close> on a canvas of that size.\<close>

definition getImageData :: "canvas \<Rightarrow> imageData" where
  "getImageData c =
     \<lparr> iwidth = cwidth c, iheight = cheight c,
       idata = concat (map (\<lambda>i. rgba_bytes (pixel c (i mod cwidth c) (i div cwidth c)))
                 [0 ..< cwidth c * cheight c]) \<rparr>"

section \<open>ElevationDecoder\<close>

text \<open>
  \<^verbatim>\<open>fetchDEM\<close>, lines 1171-1176:
  \<^verbatim>\<open>elevation[i] = r * 256 + g + b / 256 - 32768\<close> with \<open>r\<close>, \<open>g\<close>, \<open>b\<close> the bytes
  \<^verbatim>\<open>imageData.data[i*4]\<close>, \<^verbatim>\<open>[i*4+1]\<close>, \<^verbatim>\<open>[i*4+2]\<close>.
\<close>

definition byte_val :: "byte \<Rightarrow> real" where
  "byte_val b = real (unat b)"

definition decode :: "byte \<Rightarrow> byte \<Rightarrow> byte \<Rightarrow> real" where
  "decode r g b = byte_val r * 256 + byte_val g + byte_val b / 256 - 32768"

definition decodeElevation :: "imageData \<Rightarrow> real list" where
  "decodeElevation d =
     map (\<lambda>i. decode (idata d ! (i * 4)) (idata d ! (i * 4 + 1)) (idata d ! (i * 4 + 2)))
       [0 ..< iwidth d * iheight d]"

section \<open>Binary floating point\<close>

text \<open>
  A JavaScript number is an IEEE 754 double, and the position attribute of a geometry is a
  \<^verbatim>\<open>Float32Array\<close>. An arithmetic operation of either format returns the exact result
  rounded to the nearest number of the format, a tie going to the even significand.
  \<open>round_even\<close> is that rounding to an integer, and \<open>rnd p\<close> rounds a real number to \<open>p\<close>
  significant bits: \<open>fl\<close> (53 bits) is the rounding of a double operation and of a decimal
  literal, \<open>fround\<close> (24 bits) that of a store into a \<^verbatim>\<open>Float32Array\<close>. The exponent is
  unbounded here: \<open>rnd\<close> is the format's rounding for 0 and for results of magnitude from
  \<open>2 powi - 1022\<close> to below \<open>2 powi 1024\<close> (doubles; from \<open>2 powi - 126\<close> to below
  \<open>2 powi 128\<close> for 24 bits). Overflow to \<^verbatim>\<open>Infinity\<close> and gradual underflow are not
  modelled; the statements that use \<open>rnd\<close> keep the magnitudes within these ranges.
\<close>

definition round_even :: "real \<Rightarrow> int" where
  "round_even m =
     (let f = \<lfloor>m\<rfloor>
      in if m - real_of_int f < 1 / 2 then f
         else if 1 / 2 < m - real_of_int f then f + 1
         else if even f then f else f + 1)"

definition rnd :: "nat \<Rightarrow> real \<Rightarrow> real" where
  "rnd p r =
     (if r = 0 then 0
      else let u = 2 powi (\<lfloor>log 2 \<bar>r\<bar>\<rfloor> - (int p - 1))
           in real_of_int (round_even (r / u)) * u)"

definition fl :: "real \<Rightarrow> real" where
  "fl r = rnd 53 r"

definition fround :: "real \<Rightarrow> real" where
  "fround r = rnd 24 r"

section \<open>GeoProjection\<close>

text \<open>
  \<^verbatim>\<open>latLonToTile(lat, lon, z)\<close> (lines 1244-1252) and \<^verbatim>\<open>tileToLatLon(x, y, z)\<close>
  (lines 1254-1260). The source returns the objects \<^verbatim>\<open>{x, y}\<close> and \<^verbatim>\<open>{lat, lon}\<close>;
  they are the pairs \<open>(x, y)\<close> and \<open>(lat, lon)\<close> here. \<^verbatim>\<open>Math.pow(2, z)\<close> is \<open>2 ^ z\<close>.
  These two definitions are the formulas in exact arithmetic. The latitude halves go
  through \<^verbatim>\<open>Math.log\<close>, \<^verbatim>\<open>Math.tan\<close>, \<^verbatim>\<open>Math.cos\<close>, \<^verbatim>\<open>Math.atan\<close> and \<^verbatim>\<open>Math.exp\<close>, whose
  doubles the language leaves to the platform, so the doubles of the latitude halves have
  no definition here; those of the longitude halves follow below.
\<close>

definition latLonToTile :: "real \<Rightarrow> real \<Rightarrow> nat \<Rightarrow> int \<times> int" where
  "latLonToTile lat lon z =
     (let x = \<lfloor>((lon + 180) / 360) * 2 ^ z\<rfloor>;
          latRad = (lat * pi) / 180;
          y = \<lfloor>((1 - ln (tan latRad + 1 / cos latRad) / pi) / 2) * 2 ^ z\<rfloor>
      in (x, y))"

definition tileToLatLon :: "int \<Rightarrow> int \<Rightarrow> nat \<Rightarrow> real \<times> real" where
  "tileToLatLon x y z =
     (let n = pi - (2 * pi * real_of_int y) / 2 ^ z
      in ((180 / pi) * arctan (0.5 * (exp n - exp (- n))),
          (real_of_int x / 2 ^ z) * 360 - 180))"

text \<open>
  The longitude halves as the code computes them, every operation rounded to a double:
  \<^verbatim>\<open>Math.floor(((lon + 180) / 360) * Math.pow(2, z))\<close> and
  \<^verbatim>\<open>(x / Math.pow(2, z)) * 360 - 180\<close>. For \<open>z\<close> up to 1023, \<^verbatim>\<open>Math.pow(2, z)\<close> is the
  double \<open>2 ^ z\<close>.
\<close>

definition latLonToTile_x :: "real \<Rightarrow> nat \<Rightarrow> int" where
  "latLonToTile_x lon z = \<lfloor>fl (fl (fl (lon + 180) / 360) * 2 ^ z)\<rfloor>"

definition tileToLatLon_lon :: "int \<Rightarrow> nat \<Rightarrow> real" where
  "tileToLatLon_lon x z = fl (fl (fl (real_of_int x / 2 ^ z) * 360) - 180)"

text \<open>\<^verbatim>\<open>state.bounds\<close>: the target bounding box, in degrees.\<close>

record bbox =
  north :: real
  south :: real
  east :: real
  west :: real

text \<open>
  The covering tile rectangle \<open>(xMin, xMax, yMin, yMax)\<close> of a bounding box
  (\<^verbatim>\<open>fetchDEM\<close> lines 1116-1122, \<^verbatim>\<open>loadSatelliteTexture\<close> lines 1616-1622).
\<close>

definition tileRange :: "bbox \<Rightarrow> nat \<Rightarrow> int \<times> int \<times> int \<times> int" where
  "tileRange b zoom =
     (let minTile = latLonToTile (north b) (west b) zoom;
          maxTile = latLonToTile (south b) (east b) zoom;
          xMin = min (fst minTile) (fst maxTile);
          xMax = max (fst minTile) (fst maxTile);
          yMin = min (snd minTile) (snd maxTile);
          yMax = max (snd minTile) (snd maxTile)
      in (xMin, xMax, yMin, yMax))"

section \<open>TileMosaicFetcher\<close>

text \<open>
  A fetched tile is an \<^verbatim>\<open>Image\<close>. The Terrarium and imagery tiles are opaque pictures, so
  an image carries RGB only and drawing it replaces the pixels it covers with alpha 255.
  \<^verbatim>\<open>loadImage(url)\<close> is the network: a parameter of the model that either resolves to an
  image or rejects. The two URL templates of the source are the two constructors of \<open>url\<close>.
\<close>

type_synonym rgb = "byte \<times> byte \<times> byte"

record image =
  img_width :: nat
  img_height :: nat
  img_rgb :: "nat \<Rightarrow> nat \<Rightarrow> rgb"

datatype url = ElevationTile nat int int | SatelliteTile nat int int

datatype js_error = ImageLoadError | Error string

type_synonym loader = "url \<Rightarrow> js_error + image"

definition blank :: rgba where
  "blank = (0, 0, 0, 0)"

definition opaque :: "rgb \<Rightarrow> rgba" where
  "opaque p = (case p of (r, g, b) \<Rightarrow> (r, g, b, 255))"

text \<open>\<^verbatim>\<open>document.createElement("canvas")\<close> with \<^verbatim>\<open>width\<close> and \<^verbatim>\<open>height\<close> set: transparent black.\<close>

definition createCanvas :: "nat \<Rightarrow> nat \<Rightarrow> canvas" where
  "createCanvas w h = \<lparr> cwidth = w, cheight = h, pixel = (\<lambda>px py. blank) \<rparr>"

text \<open>\<^verbatim>\<open>ctx.drawImage(img, dx, dy)\<close>: the image at its own size, clipped to the canvas.\<close>

definition covers :: "image \<Rightarrow> int \<Rightarrow> int \<Rightarrow> nat \<Rightarrow> nat \<Rightarrow> bool" where
  "covers im dx dy px py =
     (dx \<le> int px \<and> int px < dx + int (img_width im) \<and>
      dy \<le> int py \<and> int py < dy + int (img_height im))"

definition drawImage :: "image \<Rightarrow> int \<Rightarrow> int \<Rightarrow> canvas \<Rightarrow> canvas" where
  "drawImage im dx dy c =
     c \<lparr> pixel := (\<lambda>px py.
            if px < cwidth c \<and> py < cheight c \<and> covers im dx dy px py
            then opaque (img_rgb im (nat (int px - dx)) (nat (int py - dy)))
            else pixel c px py) \<rparr>"

text \<open>The object \<^verbatim>\<open>{img, x, y}\<close> a tile promise resolves to; \<^verbatim>\<open>null\<close> is \<open>None\<close>.\<close>

record tile =
  img :: image
  tile_x :: int
  tile_y :: int

definition tileSize :: int where
  "tileSize = 256"

text \<open>
  The two nested loops that push one promise per tile, row by row, each with its own
  \<^verbatim>\<open>.catch(() => null)\<close>; \<^verbatim>\<open>Promise.all\<close> keeps their order (lines 1136-1156).
\<close>

definition tilePromise :: "loader \<Rightarrow> url \<Rightarrow> int \<Rightarrow> int \<Rightarrow> tile option" where
  "tilePromise loadImage u ox oy =
     (case loadImage u of
        Inr im \<Rightarrow> Some \<lparr> img = im, tile_x = ox, tile_y = oy \<rparr>
      | Inl e \<Rightarrow> None)"

definition tilePromises ::
  "loader \<Rightarrow> (int \<Rightarrow> int \<Rightarrow> url) \<Rightarrow> int \<times> int \<times> int \<times> int \<Rightarrow> tile option list" where
  "tilePromises loadImage mk r =
     (case r of (xMin, xMax, yMin, yMax) \<Rightarrow>
        concat (map (\<lambda>y. map (\<lambda>x.
            tilePromise loadImage (mk x y) ((x - xMin) * tileSize) ((y - yMin) * tileSize))
          [xMin .. xMax]) [yMin .. yMax]))"

text \<open>The compositing loop (lines 1158-1164): the context and the counter \<^verbatim>\<open>loaded\<close>.\<close>

fun blitTiles :: "tile option list \<Rightarrow> canvas \<times> nat \<Rightarrow> canvas \<times> nat" where
  "blitTiles [] (ctx, loaded) = (ctx, loaded)"
| "blitTiles (None # ts) (ctx, loaded) = blitTiles ts (ctx, loaded)"
| "blitTiles (Some t # ts) (ctx, loaded) =
     blitTiles ts (drawImage (img t) (tile_x t) (tile_y t) ctx, loaded + 1)"

definition mosaicCanvas :: "int \<times> int \<times> int \<times> int \<Rightarrow> canvas" where
  "mosaicCanvas r =
     (case r of (xMin, xMax, yMin, yMax) \<Rightarrow>
        createCanvas (nat ((xMax - xMin + 1) * tileSize)) (nat ((yMax - yMin + 1) * tileSize)))"

text \<open>
  The mosaic stage of \<^verbatim>\<open>fetchDEM\<close> (lines 1124-1166) for a tile range at zoom 11:
  \<^verbatim>\<open>if (loaded === 0) throw new Error("No tiles loaded")\<close>.
\<close>

definition fetchMosaicDEM :: "loader \<Rightarrow> int \<times> int \<times> int \<times> int \<Rightarrow> js_error + canvas" where
  "fetchMosaicDEM loadImage r =
     (let tiles = tilePromises loadImage (ElevationTile 11) r;
          (ctx, loaded) = blitTiles tiles (mosaicCanvas r, 0)
      in if loaded = 0 then Inl (Error ''No tiles loaded'') else Inr ctx)"

text \<open>The mosaic stage of \<^verbatim>\<open>loadSatelliteTexture\<close> (lines 1624-1653), zoom 13: no count, no throw.\<close>

definition fetchMosaicSatellite :: "loader \<Rightarrow> int \<times> int \<times> int \<times> int \<Rightarrow> canvas" where
  "fetchMosaicSatellite loadImage r =
     fst (blitTiles (tilePromises loadImage (SatelliteTile 13) r) (mosaicCanvas r, 0))"

section \<open>Elevation range and the normalised heightmap\<close>

text \<open>
  The accumulators \<^verbatim>\<open>eMin\<close> and \<^verbatim>\<open>eMax\<close> start at \<^verbatim>\<open>Infinity\<close> and \<^verbatim>\<open>-Infinity\<close>
  (lines 1178-1185), so they range over the reals extended by the two infinities.
\<close>

datatype jsnum = NegInfinity | Fin real | Infinity

definition math_min :: "jsnum \<Rightarrow> real \<Rightarrow> jsnum" where
  "math_min a e = (case a of NegInfinity \<Rightarrow> NegInfinity | Fin x \<Rightarrow> Fin (min x e) | Infinity \<Rightarrow> Fin e)"

definition math_max :: "jsnum \<Rightarrow> real \<Rightarrow> jsnum" where
  "math_max a e = (case a of NegInfinity \<Rightarrow> Fin e | Fin x \<Rightarrow> Fin (max x e) | Infinity \<Rightarrow> Infinity)"

text \<open>The comparison \<^verbatim>\<open>a > b\<close> on such numbers.\<close>

fun jsnum_gt :: "jsnum \<Rightarrow> jsnum \<Rightarrow> bool" where
  "jsnum_gt (Fin x) (Fin y) = (x > y)"
| "jsnum_gt Infinity Infinity = False"
| "jsnum_gt Infinity b = True"
| "jsnum_gt NegInfinity b = False"
| "jsnum_gt (Fin x) NegInfinity = True"
| "jsnum_gt (Fin x) Infinity = False"

fun minMaxLoop :: "real list \<Rightarrow> jsnum \<times> jsnum \<Rightarrow> jsnum \<times> jsnum" where
  "minMaxLoop [] (eMin, eMax) = (eMin, eMax)"
| "minMaxLoop (e # es) (eMin, eMax) =
     (if e > 0 then minMaxLoop es (math_min eMin e, math_max eMax e)
      else minMaxLoop es (eMin, eMax))"

definition elevationRange :: "real list \<Rightarrow> jsnum \<times> jsnum" where
  "elevationRange elevation = minMaxLoop elevation (Infinity, NegInfinity)"

text \<open>
  Storing a number in a \<^verbatim>\<open>Uint8ClampedArray\<close> (ECMAScript \<^verbatim>\<open>ToUint8Clamp\<close>): clamp to
  \<open>[0, 255]\<close>, then round to the nearest integer, a tie going to the even one.
\<close>

definition toUint8Clamp :: "real \<Rightarrow> byte" where
  "toUint8Clamp v =
     (let clamped = min (max v 0) 255;
          f = \<lfloor>clamped\<rfloor>
      in if clamped < real_of_int f + 0.5 then word_of_int f
         else if clamped > real_of_int f + 0.5 then word_of_int (f + 1)
         else if even f then word_of_int f else word_of_int (f + 1))"

text \<open>\<^verbatim>\<open>((elevation[i] - eMin) / (eMax - eMin)) * 255\<close> for finite \<^verbatim>\<open>eMin\<close>, \<^verbatim>\<open>eMax\<close>.\<close>

definition normVal :: "real \<Rightarrow> real \<Rightarrow> real \<Rightarrow> real" where
  "normVal lo hi e = ((e - lo) / (hi - lo)) * 255"

text \<open>
  The byte written for one sample (lines 1194-1198). When the guard holds with an infinite
  \<^verbatim>\<open>eMin\<close> or \<^verbatim>\<open>eMax\<close>, JavaScript computes \<^verbatim>\<open>NaN\<close> or \<open>0\<close>, and the array stores \<open>0\<close> for
  both.
\<close>

definition heightByte :: "jsnum \<Rightarrow> jsnum \<Rightarrow> real \<Rightarrow> byte" where
  "heightByte eMin eMax e =
     (if e > 0 \<and> jsnum_gt eMax eMin
      then (case (eMin, eMax) of
              (Fin lo, Fin hi) \<Rightarrow> toUint8Clamp (normVal lo hi e)
            | _ \<Rightarrow> 0)
      else toUint8Clamp 0)"

text \<open>The loop filling \<^verbatim>\<open>hmData\<close> (lines 1193-1202): grey \<open>(val, val, val)\<close>, alpha 255.\<close>

definition heightmapData :: "nat \<Rightarrow> nat \<Rightarrow> real list \<Rightarrow> jsnum \<times> jsnum \<Rightarrow> imageData" where
  "heightmapData width height elevation mm =
     (case mm of (eMin, eMax) \<Rightarrow>
        \<lparr> iwidth = width, iheight = height,
          idata = concat (map (\<lambda>i. let val = heightByte eMin eMax (elevation ! i)
                                    in rgba_bytes (val, val, val, 255))
                    [0 ..< width * height]) \<rparr>)"

text \<open>\<^verbatim>\<open>ctx.putImageData(d, 0, 0)\<close>: the bytes of \<open>d\<close> replace the pixels they cover.\<close>

definition putImageData :: "imageData \<Rightarrow> canvas \<Rightarrow> canvas" where
  "putImageData d c =
     c \<lparr> pixel := (\<lambda>px py.
            if px < iwidth d \<and> py < iheight d \<and> px < cwidth c \<and> py < cheight c
            then (let k = (py * iwidth d + px) * 4
                  in (idata d ! k, idata d ! (k + 1), idata d ! (k + 2), idata d ! (k + 3)))
            else pixel c px py) \<rparr>"

section \<open>RasterResampler\<close>

record cropRect =
  cropX :: real
  cropY :: real
  cropW :: real
  cropH :: real

text \<open>
  The crop rectangle, computed by the same text in \<^verbatim>\<open>fetchDEM\<close> (lines 1205-1217, zoom 11)
  and in \<^verbatim>\<open>loadSatelliteTexture\<close> (lines 1656-1666, zoom 13). The pair returned by
  \<open>tileToLatLon\<close> is \<open>(lat, lon)\<close>: \<open>fst\<close> is \<^verbatim>\<open>.lat\<close> and \<open>snd\<close> is \<^verbatim>\<open>.lon\<close>.
\<close>

definition cropRectangle ::
  "bbox \<Rightarrow> int \<times> int \<times> int \<times> int \<Rightarrow> nat \<Rightarrow> real \<Rightarrow> real \<Rightarrow> cropRect" where
  "cropRectangle b r zoom width height =
     (case r of (xMin, xMax, yMin, yMax) \<Rightarrow>
        (let tileBoundsNW = tileToLatLon xMin yMin zoom;
             tileBoundsSE = tileToLatLon (xMax + 1) (yMax + 1) zoom
         in \<lparr> cropX = ((west b - snd tileBoundsNW) / (snd tileBoundsSE - snd tileBoundsNW)) * width,
              cropY = ((fst tileBoundsNW - north b) / (fst tileBoundsNW - fst tileBoundsSE)) * height,
              cropW = ((east b - west b) / (snd tileBoundsSE - snd tileBoundsNW)) * width,
              cropH = ((north b - south b) / (fst tileBoundsNW - fst tileBoundsSE)) * height \<rparr>))"

text \<open>
  The four formulas as the specification writes them, over a source footprint
  \<open>srcNorthLat\<close>, \<open>srcSouthLat\<close>, \<open>srcEastLon\<close>, \<open>srcWestLon\<close> and a source raster of
  \<open>srcWidth\<close> by \<open>srcHeight\<close> pixels.
\<close>

definition spec_cropRect ::
  "bbox \<Rightarrow> real \<Rightarrow> real \<Rightarrow> real \<Rightarrow> real \<Rightarrow> real \<Rightarrow> real \<Rightarrow> cropRect" where
  "spec_cropRect b srcNorthLat srcSouthLat srcEastLon srcWestLon srcWidth srcHeight =
     \<lparr> cropX = (west b - srcWestLon) / (srcEastLon - srcWestLon) * srcWidth,
       cropY = (srcNorthLat - north b) / (srcNorthLat - srcSouthLat) * srcHeight,
       cropW = (east b - west b) / (srcEastLon - srcWestLon) * srcWidth,
       cropH = (north b - south b) / (srcNorthLat - srcSouthLat) * srcHeight \<rparr>"

text \<open>
  \<^verbatim>\<open>ctx.drawImage(src, sx, sy, sw, sh, 0, 0, dw, dh)\<close>. How the browser resamples the
  source rectangle is not part of the repository: it is the parameter \<open>rs\<close>, giving the
  pixel drawn at \<open>(px, py)\<close> of the destination rectangle.
\<close>

type_synonym resampler = "canvas \<Rightarrow> cropRect \<Rightarrow> nat \<Rightarrow> nat \<Rightarrow> nat \<Rightarrow> nat \<Rightarrow> rgba"

definition drawImageScaled ::
  "resampler \<Rightarrow> canvas \<Rightarrow> cropRect \<Rightarrow> nat \<Rightarrow> nat \<Rightarrow> canvas \<Rightarrow> canvas" where
  "drawImageScaled rs src cr dw dh dst =
     dst \<lparr> pixel := (\<lambda>px py.
            if px < cwidth dst \<and> py < cheight dst \<and> px < dw \<and> py < dh
            then rs src cr dw dh px py
            else pixel dst px py) \<rparr>"

section \<open>TerrainMeshSynthesizer\<close>

text \<open>
  A texture wraps the canvas or the image it was made from. The vertices of
  \<^verbatim>\<open>THREE.PlaneGeometry(size, size, segments, segments)\<close> form a square grid of
  \<open>(segments + 1)\<^sup>2\<close> points in row order; only their heights change, so a geometry is the
  list of its vertex heights, which are 32-bit floats. A height is \<open>None\<close> when JavaScript computes \<^verbatim>\<open>NaN\<close>.
\<close>

datatype texture = CanvasTexture canvas | ImageTexture image

definition planeGeometry :: "nat \<Rightarrow> real option list" where
  "planeGeometry segments = replicate ((segments + 1) * (segments + 1)) (Some 0)"

text \<open>
  Lines 1036-1041: the texture's image drawn on a canvas of its own size, and the pixel
  data read back.
\<close>

definition textureImageData :: "texture \<Rightarrow> imageData" where
  "textureImageData t =
     (case t of
        CanvasTexture c \<Rightarrow> getImageData c
      | ImageTexture im \<Rightarrow>
          getImageData (drawImage im 0 0 (createCanvas (img_width im) (img_height im))))"

text \<open>A read \<^verbatim>\<open>data[idx]\<close> of a typed array: \<^verbatim>\<open>undefined\<close> outside it.\<close>

definition data_at :: "byte list \<Rightarrow> int \<Rightarrow> byte option" where
  "data_at xs idx = (if 0 \<le> idx \<and> nat idx < length xs then Some (xs ! nat idx) else None)"

text \<open>
  The body of the vertex loop (lines 1047-1055), for vertex \<open>i\<close> of a grid that is
  \<open>width\<close> vertices wide. The divisions and products are double operations, and
  \<^verbatim>\<open>positions.setZ(i, height * scale)\<close> stores the product into the \<^verbatim>\<open>Float32Array\<close> of the
  position attribute, which rounds it to 24 bits. The remainder \<^verbatim>\<open>i % width\<close>, the
  differences \<^verbatim>\<open>width - 1\<close>, \<^verbatim>\<open>img.width - 1\<close>, \<^verbatim>\<open>img.height - 1\<close> and the index
  \<^verbatim>\<open>(py * img.width + px) * 4\<close> are operations on small integers, which doubles carry
  out exactly. With a single vertex, \<^verbatim>\<open>u\<close> is \<^verbatim>\<open>0 / 0\<close>, which is \<^verbatim>\<open>NaN\<close>.
\<close>

definition vertexHeight :: "imageData \<Rightarrow> real \<Rightarrow> nat \<Rightarrow> nat \<Rightarrow> real option" where
  "vertexHeight imgData scale width i =
     (if width = 1 then None
      else
        let x = i mod width;
            y = \<lfloor>fl (real i / real width)\<rfloor>;
            u = fl (real x / (real width - 1));
            v = fl (real_of_int y / (real width - 1));
            px = \<lfloor>fl (u * (real (iwidth imgData) - 1))\<rfloor>;
            py = \<lfloor>fl (v * (real (iheight imgData) - 1))\<rfloor>;
            idx = (py * int (iwidth imgData) + px) * 4
        in (case data_at (idata imgData) idx of
              None \<Rightarrow> None
            | Some d \<Rightarrow>
                (let height = fl (byte_val d / 255)
                 in Some (fround (fl (height * scale))))))"

text \<open>
  \<^verbatim>\<open>applyHeightmapToGeometry(geometry, heightmapTexture, scale)\<close> on the plane geometry of
  \<open>segments\<close> segments: \<^verbatim>\<open>positions.count\<close> is \<open>(segments + 1)\<^sup>2\<close> and
  \<^verbatim>\<open>Math.sqrt(positions.count)\<close> is \<open>segments + 1\<close>.
\<close>

definition applyHeightmapToGeometry :: "nat \<Rightarrow> texture \<Rightarrow> real \<Rightarrow> real option list" where
  "applyHeightmapToGeometry segments heightmapTexture scale =
     (let imgData = textureImageData heightmapTexture;
          count = (segments + 1) * (segments + 1);
          width = segments + 1
      in map (vertexHeight imgData scale width) [0 ..< count])"

text \<open>The four-band colour ramp of \<^verbatim>\<open>applyTerrainColors\<close> (lines 1067-1090).\<close>

definition terrainColor :: "real option \<Rightarrow> (real \<times> real \<times> real) option" where
  "terrainColor z =
     (case z of
        None \<Rightarrow> None
      | Some height \<Rightarrow>
          (let normalizedHeight = min 1 (max 0 (height / 30))
           in if normalizedHeight < 0.2
              then Some (0.15 + normalizedHeight * 0.3, 0.35 + normalizedHeight * 0.25, 0.15)
              else if normalizedHeight < 0.5
              then (let t = (normalizedHeight - 0.2) / 0.3
                    in Some (0.21 + t * 0.35, 0.4 - t * 0.15, 0.15 + t * 0.1))
              else if normalizedHeight < 0.75
              then (let t = (normalizedHeight - 0.5) / 0.25
                    in Some (0.56 - t * 0.16, 0.45 - t * 0.15, 0.25 + t * 0.25))
              else (let t = (normalizedHeight - 0.75) / 0.25
                    in Some (0.6 + t * 0.35, 0.6 + t * 0.35, 0.65 + t * 0.3))))"

definition applyTerrainColors :: "real option list \<Rightarrow> (real \<times> real \<times> real) option list" where
  "applyTerrainColors positions = map terrainColor positions"

record mesh =
  positions :: "real option list"
  material_map :: "texture option"
  vertex_colors :: "(real \<times> real \<times> real) option list option"

section \<open>Application state\<close>

text \<open>
  The fields of the global \<^verbatim>\<open>state\<close> object (lines 9-30) that the terrain engine and its
  readouts use, with the text of the page elements they write: the status line
  (\<^verbatim>\<open>setStatus\<close>), the loading overlay, \<^verbatim>\<open>coord-alt\<close> and \<^verbatim>\<open>water-alt\<close>.
\<close>

record state =
  terrain :: "mesh option"
  bounds :: "bbox option"
  currentLocation :: "(string \<times> real \<times> real) option"
  elevationMin :: real
  elevationMax :: real
  colorTexture :: "texture option"
  heightmapTexture :: "texture option"
  satelliteTexture :: "texture option"
  satelliteMode :: bool
  waterLevel :: real
  waterAnimating :: bool
  status_text :: string
  status_class :: string
  loading_text :: string
  loading_hidden :: bool
  coord_alt :: string
  water_alt :: string

definition init_state :: state where
  "init_state =
     \<lparr> terrain = None, bounds = None, currentLocation = None,
       elevationMin = 0, elevationMax = 1000,
       colorTexture = None, heightmapTexture = None, satelliteTexture = None,
       satelliteMode = False, waterLevel = 0, waterAnimating = False,
       status_text = [], status_class = [], loading_text = [], loading_hidden = True,
       coord_alt = [], water_alt = [] \<rparr>"

text \<open>
  What the page and the network give an operation: the tile loader, the browser's
  resampler and the number \<^verbatim>\<open>parseFloat\<close> reads from the exaggeration slider.
\<close>

record env =
  env_loadImage :: loader
  env_resample :: resampler
  env_exag :: real

definition setStatus :: "string \<Rightarrow> string \<Rightarrow> state \<Rightarrow> state" where
  "setStatus msg type s = s \<lparr> status_text := msg, status_class := type \<rparr>"

definition showLoading :: "string \<Rightarrow> state \<Rightarrow> state" where
  "showLoading txt s = s \<lparr> loading_text := txt, loading_hidden := False \<rparr>"

definition hideLoading :: "state \<Rightarrow> state" where
  "hideLoading s = s \<lparr> loading_hidden := True \<rparr>"

subsection \<open>Numbers as text\<close>

definition digit :: "nat \<Rightarrow> char" where
  "digit d = ''0123456789'' ! d"

fun show_nat :: "nat \<Rightarrow> string" where
  "show_nat n =
     (if n < 10 then [digit n]
      else show_nat (n div 10) @ [digit (n mod 10)])"

definition show_int :: "int \<Rightarrow> string" where
  "show_int k = (if k < 0 then ''-'' @ show_nat (nat (- k)) else show_nat (nat k))"

text \<open>\<^verbatim>\<open>Math.round\<close>, and \<^verbatim>\<open>x.toFixed(0)\<close>, which rounds the magnitude, a tie going up.\<close>

definition math_round :: "real \<Rightarrow> int" where
  "math_round x = \<lfloor>x + 0.5\<rfloor>"

definition toFixed0 :: "jsnum \<Rightarrow> string" where
  "toFixed0 a =
     (case a of
        Infinity \<Rightarrow> ''Infinity''
      | NegInfinity \<Rightarrow> ''-Infinity''
      | Fin x \<Rightarrow> (if x < 0 then ''-'' @ show_nat (nat \<lfloor>- x + 0.5\<rfloor>)
                  else show_nat (nat \<lfloor>x + 0.5\<rfloor>)))"

definition message :: "js_error \<Rightarrow> string" where
  "message e = (case e of Error m \<Rightarrow> m | ImageLoadError \<Rightarrow> ''undefined'')"

section \<open>Operations on the state\<close>

text \<open>
  \<^verbatim>\<open>createTerrain()\<close> (lines 990-1030) on a page that has the exaggeration slider: the
  previous mesh is disposed of and a new one built from the stored heightmap texture,
  the stored colour texture and the slider.
\<close>

definition createTerrain :: "env \<Rightarrow> state \<Rightarrow> state" where
  "createTerrain env s =
     (let segments = 256;
          exag = env_exag env;
          geometry = (case heightmapTexture s of
                        Some hm \<Rightarrow> applyHeightmapToGeometry segments hm exag
                      | None \<Rightarrow> planeGeometry segments);
          m = (case colorTexture s of
                 Some ct \<Rightarrow>
                   \<lparr> positions = geometry, material_map = Some ct, vertex_colors = None \<rparr>
               | None \<Rightarrow>
                   \<lparr> positions = geometry, material_map = None,
                     vertex_colors = Some (applyTerrainColors geometry) \<rparr>)
      in s \<lparr> terrain := Some m \<rparr>)"

text \<open>
  The value an \<^verbatim>\<open>async\<close> function's promise resolves to: \<open>Undefined\<close> when the body
  ends, or leaves by a bare \<^verbatim>\<open>return\<close>, without returning an expression.
\<close>

datatype 'a completion = Undefined | Return 'a

record elevationResult =
  normalizedHeightmap :: canvas
  resultMin :: jsnum
  resultMax :: jsnum

text \<open>
  What the page can make fail in a run of \<^verbatim>\<open>fetchDEM\<close> once the tiles are composited:
  \<open>canvas_error\<close> is an exception of one of the canvas calls of lines 1168-1224 (for
  instance \<^verbatim>\<open>getImageData\<close> on a canvas too large for the browser), \<open>exag_error\<close> the
  \<^verbatim>\<open>TypeError\<close> of \<^verbatim>\<open>document.getElementById("exag").value\<close> in \<^verbatim>\<open>createTerrain\<close> (line 999)
  on a page without that element, and \<open>coord_alt_error\<close> that of
  \<^verbatim>\<open>document.getElementById("coord-alt").textContent = ...\<close> (line 1235). \<open>None\<close> means that
  the call succeeds. The elements behind \<^verbatim>\<open>showLoading\<close>, \<^verbatim>\<open>hideLoading\<close> and \<^verbatim>\<open>setStatus\<close>
  are there: the run has used them before it enters the \<^verbatim>\<open>try\<close> block.
\<close>

record page =
  canvas_error :: "js_error option"
  exag_error :: "js_error option"
  coord_alt_error :: "js_error option"

definition intact_page :: page where
  "intact_page = \<lparr> canvas_error = None, exag_error = None, coord_alt_error = None \<rparr>"

text \<open>
  \<^verbatim>\<open>createTerrain()\<close> on such a page. The lookup of line 999 comes before anything is
  written to \<^verbatim>\<open>state\<close>; by then the previous mesh has been taken out of the scene and
  disposed of (lines 991-995), which the state modelled here does not record.
\<close>

definition createTerrain_on :: "page \<Rightarrow> env \<Rightarrow> state \<Rightarrow> js_error + state" where
  "createTerrain_on pg env s =
     (case exag_error pg of
        Some err \<Rightarrow> Inl err
      | None \<Rightarrow> Inr (createTerrain env s))"

text \<open>
  The \<^verbatim>\<open>try\<close> block of \<^verbatim>\<open>fetchDEM\<close> from line 1124 on, for the tile rectangle \<open>r\<close> that
  lines 1116-1122 have computed. \<^verbatim>\<open>eMin\<close> and \<^verbatim>\<open>eMax\<close> are local; they end in the two
  texts only. The stores of lines 1226-1227 come before \<^verbatim>\<open>createTerrain()\<close> (line 1228)
  and the three statements after it. An error is thrown together with the state as it
  is at that moment.
\<close>

definition fetchDEM_stages ::
  "page \<Rightarrow> env \<Rightarrow> bbox \<Rightarrow> int \<times> int \<times> int \<times> int \<Rightarrow> state \<Rightarrow> (js_error \<times> state) + state" where
  "fetchDEM_stages pg env b r s =
     (let zoom = 11;
          width = cwidth (mosaicCanvas r);
          height = cheight (mosaicCanvas r)
      in case fetchMosaicDEM (env_loadImage env) r of
           Inl err \<Rightarrow> Inl (err, s)
         | Inr ctx \<Rightarrow>
             (case canvas_error pg of
                Some err \<Rightarrow> Inl (err, s)
              | None \<Rightarrow>
                  (let imageData = getImageData ctx;
                       elevation = decodeElevation imageData;
                       mm = elevationRange elevation;
                       hmData = heightmapData width height elevation mm;
                       hmCanvas = putImageData hmData (createCanvas width height);
                       crop = cropRectangle b r zoom (real width) (real height);
                       finalCanvas = drawImageScaled (env_resample env) hmCanvas crop 512 512
                                       (createCanvas 512 512);
                       s1 = s \<lparr> heightmapTexture := Some (CanvasTexture finalCanvas) \<rparr>;
                       s2 = s1 \<lparr> colorTexture := None \<rparr>
                   in case createTerrain_on pg env s2 of
                        Inl err \<Rightarrow> Inl (err, s2)
                      | Inr s3 \<Rightarrow>
                          (let s4 = hideLoading s3;
                               s5 = setStatus (''Loaded: '' @ toFixed0 (fst mm) @ ''m - ''
                                                @ toFixed0 (snd mm) @ ''m elevation'') ''success'' s4
                           in case coord_alt_error pg of
                                Some err \<Rightarrow> Inl (err, s5)
                              | None \<Rightarrow>
                                  Inr (s5 \<lparr> coord_alt := ''Alt: '' @ toFixed0 (fst mm) @ ''-''
                                                             @ toFixed0 (snd mm) @ ''m'' \<rparr>)))))"

text \<open>
  \<^verbatim>\<open>async function fetchDEM()\<close> (lines 1103-1242): no parameter, no returned expression.
  \<open>rng\<close> gives the tile rectangle that lines 1116-1122 compute for a bounding box. The
  \<^verbatim>\<open>catch\<close> block hides the overlay and writes the error status on the state as the
  thrown error found it.
\<close>

definition fetchDEM_on ::
  "(bbox \<Rightarrow> int \<times> int \<times> int \<times> int) \<Rightarrow> page \<Rightarrow> env \<Rightarrow> state
     \<Rightarrow> elevationResult completion \<times> state" where
  "fetchDEM_on rng pg env s =
     (case bounds s of
        None \<Rightarrow> (Undefined, setStatus ''Set bounds first'' ''error'' s)
      | Some b \<Rightarrow>
          (let s0 = setStatus ''Fetching DEM...'' ''loading''
                      (showLoading ''Fetching elevation tiles...'' s)
           in case fetchDEM_stages pg env b (rng b) s0 of
                Inr s' \<Rightarrow> (Undefined, s')
              | Inl (err, s') \<Rightarrow>
                  (Undefined, setStatus (''DEM Error: '' @ message err) ''error'' (hideLoading s'))))"

text \<open>
  The \<^verbatim>\<open>try\<close> block and the function on a page that has every element and whose canvas
  calls succeed, for the covering rectangle at zoom 11 (lines 1116-1122, in exact
  arithmetic).
\<close>

definition demTileRange :: "bbox \<Rightarrow> int \<times> int \<times> int \<times> int" where
  "demTileRange b = tileRange b 11"

definition fetchDEM_try :: "env \<Rightarrow> bbox \<Rightarrow> state \<Rightarrow> js_error + state" where
  "fetchDEM_try env b s =
     (case fetchDEM_stages intact_page env b (demTileRange b) s of
        Inl (err, s') \<Rightarrow> Inl err
      | Inr s' \<Rightarrow> Inr s')"

definition fetchDEM :: "env \<Rightarrow> state \<Rightarrow> elevationResult completion \<times> state" where
  "fetchDEM env s = fetchDEM_on demTileRange intact_page env s"

text \<open>\<^verbatim>\<open>loadSatelliteTexture()\<close> (lines 1610-1678).\<close>

definition loadSatelliteTexture :: "env \<Rightarrow> state \<Rightarrow> state" where
  "loadSatelliteTexture env s =
     (case bounds s of
        None \<Rightarrow> s
      | Some b \<Rightarrow>
          (let zoom = 13;
               r = tileRange b zoom;
               width = cwidth (mosaicCanvas r);
               height = cheight (mosaicCanvas r);
               canvas = fetchMosaicSatellite (env_loadImage env) r;
               crop = cropRectangle b r zoom (real width) (real height);
               finalCanvas = drawImageScaled (env_resample env) canvas crop 1024 1024
                               (createCanvas 1024 1024);
               s1 = s \<lparr> satelliteTexture := Some (CanvasTexture finalCanvas) \<rparr>;
               s2 = s1 \<lparr> colorTexture := satelliteTexture s1 \<rparr>
           in createTerrain env s2))"

text \<open>\<^verbatim>\<open>toggleSatelliteMode()\<close> (lines 1591-1608).\<close>

definition toggleSatelliteMode :: "env \<Rightarrow> state \<Rightarrow> state" where
  "toggleSatelliteMode env s =
     (let s1 = s \<lparr> satelliteMode := \<not> satelliteMode s \<rparr>
      in if satelliteMode s1
         then setStatus ''Satellite view enabled'' ''success''
                (loadSatelliteTexture env
                  (setStatus ''Loading satellite imagery...'' ''loading'' s1))
         else setStatus ''Terrain view enabled'' ''success''
                (createTerrain env (s1 \<lparr> satelliteTexture := None \<rparr>)))"

text \<open>
  The altitude readout of \<^verbatim>\<open>updateWaterPlane()\<close> (lines 2202-2207) and the two labels of
  \<^verbatim>\<open>drawElevationProfile\<close> (lines 1987-1992), where \<open>minElev\<close> and \<open>maxElev\<close> are the
  lowest and highest mesh heights sampled along the measured line. The water plane's own
  mesh (its visibility, height, opacity and colour) and the drawing of the profile are
  outside the state modelled here.
\<close>

definition realAltitude :: "state \<Rightarrow> int" where
  "realAltitude s =
     math_round (elevationMin s + (waterLevel s / 100) * (elevationMax s - elevationMin s))"

definition updateWaterPlane :: "state \<Rightarrow> state" where
  "updateWaterPlane s = s \<lparr> water_alt := ''Altitude: '' @ show_int (realAltitude s) @ ''m'' \<rparr>"

text \<open>
  The flood animation (lines 2222-2281): \<^verbatim>\<open>toggleWaterAnimation\<close>, one frame of
  \<^verbatim>\<open>animateFlood\<close> (the next frame is requested from the browser and is a call of its
  own) and \<^verbatim>\<open>resetWater\<close>.
\<close>

definition animateFlood :: "state \<Rightarrow> state" where
  "animateFlood s =
     (if \<not> waterAnimating s then s
      else
        let s1 = s \<lparr> waterLevel := waterLevel s + 0.5 \<rparr>;
            s2 = (if waterLevel s1 \<ge> 100
                  then setStatus ''Flood simulation complete!'' ''success''
                         (s1 \<lparr> waterLevel := 100, waterAnimating := False \<rparr>)
                  else s1)
        in updateWaterPlane s2)"

definition toggleWaterAnimation :: "state \<Rightarrow> state" where
  "toggleWaterAnimation s =
     (if waterAnimating s then s \<lparr> waterAnimating := False \<rparr>
      else animateFlood (s \<lparr> waterAnimating := True, waterLevel := 0 \<rparr>))"

definition resetWater :: "state \<Rightarrow> state" where
  "resetWater s =
     setStatus ''Water level reset'' ''success''
       (updateWaterPlane (s \<lparr> waterAnimating := False, waterLevel := 0 \<rparr>))"

definition profileLabels :: "state \<Rightarrow> real \<Rightarrow> real \<Rightarrow> string \<times> string" where
  "profileLabels s minElev maxElev =
     (let realMin = minElev * 50 + elevationMin s;
          realMax = maxElev * 50 + elevationMin s
      in (''Min: '' @ show_int (math_round realMin) @ ''m'',
          ''Max: '' @ show_int (math_round realMax) @ ''m''))"

text \<open>
  \<^verbatim>\<open>loadLocationTerrain(name, lat, lon)\<close> (lines 683-731). The literal \<^verbatim>\<open>0.15\<close> is the
  double nearest to it and the four sums are double additions. \<^verbatim>\<open>fetchDEM\<close> catches its
  own errors, so the \<^verbatim>\<open>try\<close> block runs to its end.
\<close>

definition locationBounds :: "real \<Rightarrow> real \<Rightarrow> bbox" where
  "locationBounds lat lon =
     (let size = fl 0.15
      in \<lparr> north = fl (lat + size), south = fl (lat - size),
           east = fl (lon + size), west = fl (lon - size) \<rparr>)"

definition loadLocationTerrain :: "env \<Rightarrow> string \<Rightarrow> real \<Rightarrow> real \<Rightarrow> state \<Rightarrow> state" where
  "loadLocationTerrain env name lat lon s =
     (let s1 = s \<lparr> currentLocation := Some (name, lat, lon) \<rparr>;
          s2 = s1 \<lparr> bounds := Some (locationBounds lat lon) \<rparr>;
          s3 = setStatus (''Loading '' @ name @ ''...'') ''loading''
                 (showLoading (''Loading terrain for '' @ name @ ''...'') s2);
          s4 = snd (fetchDEM env s3);
          s5 = loadSatelliteTexture env
                 (setStatus ''Loading satellite imagery...'' ''loading'' s4);
          s6 = s5 \<lparr> satelliteMode := True \<rparr>;
          s7 = updateWaterPlane (s6 \<lparr> waterLevel := 0 \<rparr>)
      in setStatus (name @ '' loaded with satellite imagery'') ''success'' (hideLoading s7))"

text \<open>
  The handlers that reach these operations: the two load buttons, the satellite toggle,
  a choice of location, the exaggeration slider (lines 480-486), the water slider
  (lines 494-500), the flood animation and its reset, and the stores
  \<^verbatim>\<open>state.bounds = data.bounds\<close> (lines 1302, 1350). Each call is taken to run to its
  end before the next one starts: what another handler does while an \<^verbatim>\<open>await\<close> of the
  source is pending is not modelled. The environment may differ from call to call.
\<close>

datatype action =
    FetchDEM
  | LoadSatelliteTexture
  | ToggleSatelliteMode
  | LoadLocationTerrain string real real
  | ExagInput
  | WaterInput int
  | ToggleWaterAnimation
  | AnimateFloodFrame
  | ResetWater
  | SetBounds bbox

fun step :: "env \<Rightarrow> action \<Rightarrow> state \<Rightarrow> state" where
  "step env FetchDEM s = snd (fetchDEM env s)"
| "step env LoadSatelliteTexture s = loadSatelliteTexture env s"
| "step env ToggleSatelliteMode s = toggleSatelliteMode env s"
| "step env (LoadLocationTerrain name lat lon) s = loadLocationTerrain env name lat lon s"
| "step env ExagInput s =
     (if terrain s \<noteq> None \<and> heightmapTexture s \<noteq> None then createTerrain env s else s)"
| "step env (WaterInput level) s = updateWaterPlane (s \<lparr> waterLevel := real_of_int level \<rparr>)"
| "step env ToggleWaterAnimation s = toggleWaterAnimation s"
| "step env AnimateFloodFrame s = animateFlood s"
| "step env ResetWater s = resetWater s"
| "step env (SetBounds b) s = s \<lparr> bounds := Some b \<rparr>"

fun run :: "(env \<times> action) list \<Rightarrow> state \<Rightarrow> state" where
  "run [] s = s"
| "run ((env, a) # rest) s = run rest (step env a s)"

section \<open>Notions used in the statements\<close>

text \<open>The valid samples of an elevation raster: those strictly greater than 0.\<close>

definition validSamples :: "real list \<Rightarrow> real list" where
  "validSamples elevation = filter (\<lambda>e. 0 < e) elevation"

text \<open>
  The specification's crop rectangle for a bounding box at a zoom level: the source
  footprint is that of the covering tile rectangle, from \<open>tileToLatLon(xMin, yMin)\<close>
  (north-west) to \<open>tileToLatLon(xMax + 1, yMax + 1)\<close> (south-east), and the source raster is
  the mosaic of that rectangle.
\<close>

definition spec_cropFor :: "bbox \<Rightarrow> nat \<Rightarrow> cropRect" where
  "spec_cropFor b zoom =
     (case tileRange b zoom of (xMin, xMax, yMin, yMax) \<Rightarrow>
        (let srcNW = tileToLatLon xMin yMin zoom;
             srcSE = tileToLatLon (xMax + 1) (yMax + 1) zoom;
             srcWidth = real_of_int ((xMax - xMin + 1) * 256);
             srcHeight = real_of_int ((yMax - yMin + 1) * 256)
         in spec_cropRect b (fst srcNW) (fst srcSE) (snd srcSE) (snd srcNW) srcWidth srcHeight))"

text \<open>
  The heightmap canvas \<open>hmCanvas\<close> that \<open>fetchDEM\<close> builds from a mosaic (lines 1168-1203):
  decode, take the range, fill \<open>hmData\<close>, put it on a canvas of the mosaic's size.
\<close>

definition heightmapCanvas :: "canvas \<Rightarrow> canvas" where
  "heightmapCanvas ctx =
     (let elevation = decodeElevation (getImageData ctx)
      in putImageData (heightmapData (cwidth ctx) (cheight ctx) elevation (elevationRange elevation))
           (createCanvas (cwidth ctx) (cheight ctx)))"

text \<open>
  The texture that line 1226 stores for the tile rectangle \<open>r\<close> and its mosaic: the
  heightmap canvas, cropped and drawn at 512 by 512.
\<close>

definition storedHeightmap :: "env \<Rightarrow> bbox \<Rightarrow> int \<times> int \<times> int \<times> int \<Rightarrow> canvas \<Rightarrow> texture" where
  "storedHeightmap env b r ctx =
     CanvasTexture
       (drawImageScaled (env_resample env) (heightmapCanvas ctx)
          (cropRectangle b r 11 (real (cwidth (mosaicCanvas r))) (real (cheight (mosaicCanvas r))))
          512 512 (createCanvas 512 512))"



text \<open>Whether a tile of the promise list covers a pixel, and the pixel it draws there.\<close>

definition tile_covers :: "tile option \<Rightarrow> nat \<Rightarrow> nat \<Rightarrow> bool" where
  "tile_covers t px py =
     (case t of None \<Rightarrow> False | Some tt \<Rightarrow> covers (img tt) (tile_x tt) (tile_y tt) px py)"

definition tile_pixel :: "tile option \<Rightarrow> nat \<Rightarrow> nat \<Rightarrow> rgba" where
  "tile_pixel t px py =
     (case t of None \<Rightarrow> blank
      | Some tt \<Rightarrow> opaque (img_rgb (img tt) (nat (int px - tile_x tt)) (nat (int py - tile_y tt))))"

section \<open>Example inputs\<close>

text \<open>
  A tile of one colour, 256 by 256. Three loaders: for a grid of two tiles side by side
  where the left tile loads and the right one fails, one that serves every tile, and one
  that fails on every tile.
\<close>

definition ex_tile :: image where
  "ex_tile = \<lparr> img_width = 256, img_height = 256, img_rgb = (\<lambda>x y. (1, 2, 3)) \<rparr>"

definition ex_loader :: loader where
  "ex_loader u =
     (case u of
        ElevationTile z x y \<Rightarrow> if x = 0 then Inr ex_tile else Inl ImageLoadError
      | SatelliteTile z x y \<Rightarrow> Inl ImageLoadError)"

definition ok_loader :: loader where
  "ok_loader u = Inr ex_tile"

definition fail_loader :: loader where
  "fail_loader u = Inl ImageLoadError"

text \<open>
  A resampler, two environments, the Everest box of the specification, a heightmap of two
  by two texels (left column black, right column white) and a state in which a terrain is
  already installed, with a heightmap texture and a colour texture.
\<close>

definition ex_resampler :: resampler where
  "ex_resampler src cr dw dh px py = pixel src 0 0"

definition ex_env :: env where
  "ex_env = \<lparr> env_loadImage = ok_loader, env_resample = ex_resampler, env_exag = 2 \<rparr>"

definition fail_env :: env where
  "fail_env = \<lparr> env_loadImage = fail_loader, env_resample = ex_resampler, env_exag = 2 \<rparr>"

definition everest :: bbox where
  "everest = \<lparr> north = 28.1, south = 27.9, east = 87.0, west = 86.8 \<rparr>"

definition ex_heightmap :: canvas where
  "ex_heightmap =
     \<lparr> cwidth = 2, cheight = 2,
       pixel = (\<lambda>px py. if px = 0 then (0, 0, 0, 255) else (255, 255, 255, 255)) \<rparr>"

definition loaded_state :: state where
  "loaded_state =
     init_state \<lparr> bounds := Some everest,
                  heightmapTexture := Some (CanvasTexture ex_heightmap),
                  colorTexture := Some (ImageTexture ex_tile),
                  terrain := Some \<lparr> positions = planeGeometry 256, material_map = None,
                                    vertex_colors = None \<rparr> \<rparr>"



definition no_exag_page :: page where
  "no_exag_page = intact_page \<lparr> exag_error := Some (Error ''Cannot read properties of null'') \<rparr>"

section \<open>Facts about the pixel data\<close>

lemma concat_quads_length:
  "length (concat (map (\<lambda>i. rgba_bytes (f i)) [0 ..< n])) = 4 * n"
  by (induction n) (auto simp: rgba_bytes_def split: prod.splits)

lemma concat_quads_nth:
  assumes "i < n" and "k < 4"
  shows "concat (map (\<lambda>i. rgba_bytes (f i)) [0 ..< n]) ! (i * 4 + k) = rgba_bytes (f i) ! k"
  using assms
proof (induction n)
  case 0
  then show ?case by simp
next
  case (Suc n)
  have len: "length (concat (map (\<lambda>i. rgba_bytes (f i)) [0 ..< n])) = 4 * n"
    by (rule concat_quads_length)
  show ?case
  proof (cases "i < n")
    case True
    then have "i * 4 + k < 4 * n" using Suc.prems by simp
    with True Suc show ?thesis by (simp add: nth_append len)
  next
    case False
    then have "i = n" using Suc.prems by simp
    then show ?thesis by (simp add: nth_append len mult.commute)
  qed
qed


lemma getImageData_nth:
  assumes "i < cwidth c * cheight c" and "k < 4"
  shows "idata (getImageData c) ! (i * 4 + k)
         = rgba_bytes (pixel c (i mod cwidth c) (i div cwidth c)) ! k"
  using assms by (simp add: getImageData_def concat_quads_nth)

lemma unat_byte_less: "unat (b :: byte) < 256"
  using unsigned_less [of b, where 'a = nat] by simp

lemma byte_val_cases:
  obtains n where "n < 256" and "byte_val b = real n" and "unat b = n"
  using unat_byte_less [of b] byte_val_def [of b] by blast


text \<open>
  Every decoded value is \<open>k / 256\<close> for an integer \<open>k\<close> of magnitude at most \<open>2 ^ 23\<close>:
  it fits the 24-bit significand of the \<^verbatim>\<open>Float32Array\<close> the source stores it in, so the
  store does not round.
\<close>

lemma decode_float32_exact:
  "\<exists>k :: int. \<bar>k\<bar> \<le> 2 ^ 23 \<and> decode r g b = real_of_int k / 256"
proof -
  obtain nr where nr: "nr < 256" "byte_val r = real nr" by (rule byte_val_cases)
  obtain ng where ng: "ng < 256" "byte_val g = real ng" by (rule byte_val_cases)
  obtain nb where nb: "nb < 256" "byte_val b = real nb" by (rule byte_val_cases)
  let ?k = "int nr * 65536 + int ng * 256 + int nb - 8388608"
  have "\<bar>?k\<bar> \<le> 2 ^ 23" using nr(1) ng(1) nb(1) by simp
  moreover have "decode r g b = real_of_int ?k / 256"
    by (simp add: decode_def nr(2) ng(2) nb(2))
  ultimately show ?thesis by blast
qed

lemma decodeElevation_length:
  "length (decodeElevation d) = iwidth d * iheight d"
  by (simp add: decodeElevation_def)

lemma decodeElevation_nth:
  assumes "i < iwidth d * iheight d"
  shows "decodeElevation d ! i
         = decode (idata d ! (i * 4)) (idata d ! (i * 4 + 1)) (idata d ! (i * 4 + 2))"
  using assms by (simp add: decodeElevation_def)

lemma decodeElevation_getImageData:
  assumes "i < cwidth c * cheight c"
    and "pixel c (i mod cwidth c) (i div cwidth c) = (r, g, b, a)"
  shows "decodeElevation (getImageData c) ! i = decode r g b"
proof -
  have d: "iwidth (getImageData c) = cwidth c" "iheight (getImageData c) = cheight c"
    by (simp_all add: getImageData_def)
  have "idata (getImageData c) ! (i * 4 + 0) = r" "idata (getImageData c) ! (i * 4 + 1) = g"
    "idata (getImageData c) ! (i * 4 + 2) = b"
    using assms by (simp_all only: getImageData_nth) (simp_all add: rgba_bytes_def)
  then show ?thesis
    using assms(1) by (simp add: decodeElevation_nth d)
qed

section \<open>Facts about the rounding\<close>

lemma two_powi_pos: "0 < (2::real) powi k"
  by (simp add: zero_less_power_int)

lemma two_powi_add: "(2::real) powi (a + b) = 2 powi a * 2 powi b"
  by (simp add: power_int_add)

lemma two_powi_diff: "(2::real) powi (a - b) = 2 powi a / 2 powi b"
  by (simp add: power_int_diff)

lemma two_powi_le_iff: "(2::real) powi a \<le> 2 powi b \<longleftrightarrow> a \<le> b"
proof
  assume l: "(2::real) powi a \<le> 2 powi b"
  show "a \<le> b"
  proof (rule ccontr)
    assume "\<not> a \<le> b"
    then have "b < a" by simp
    then have "(2::real) powi b < 2 powi a" by (rule power_int_strict_increasing) simp
    with l show False by simp
  qed
next
  assume "a \<le> b"
  then show "(2::real) powi a \<le> 2 powi b" by (rule power_int_increasing) simp
qed

lemma two_powi_less_iff: "(2::real) powi a < 2 powi b \<longleftrightarrow> a < b"
  using two_powi_le_iff [of b a] by (simp add: not_le [symmetric])

lemma floor_log2_iff:
  assumes "r \<noteq> 0"
  shows "\<lfloor>log 2 \<bar>r\<bar>\<rfloor> = e \<longleftrightarrow> 2 powi e \<le> \<bar>r\<bar> \<and> \<bar>r\<bar> < 2 powi (e + 1)"
proof -
  have "0 < \<bar>r\<bar>" using assms by simp
  then have "\<lfloor>log 2 \<bar>r\<bar>\<rfloor> = e
      \<longleftrightarrow> 2 powr real_of_int e \<le> \<bar>r\<bar> \<and> \<bar>r\<bar> < 2 powr real_of_int (e + 1)"
    by (rule floor_log_eq_powr_iff) simp
  then show ?thesis by (simp only: powr_real_of_int' [of 2, simplified])
qed

lemma floor_log2_bounds:
  assumes "r \<noteq> 0"
  shows "2 powi \<lfloor>log 2 \<bar>r\<bar>\<rfloor> \<le> \<bar>r\<bar>" and "\<bar>r\<bar> < 2 powi (\<lfloor>log 2 \<bar>r\<bar>\<rfloor> + 1)"
  using floor_log2_iff [OF assms, of "\<lfloor>log 2 \<bar>r\<bar>\<rfloor>"] by simp_all

lemma round_even_cases: "round_even m = \<lfloor>m\<rfloor> \<or> round_even m = \<lfloor>m\<rfloor> + 1"
  by (simp add: round_even_def Let_def)

lemma round_even_error: "\<bar>real_of_int (round_even m) - m\<bar> \<le> 1 / 2"
proof -
  have "real_of_int \<lfloor>m\<rfloor> \<le> m" "m < real_of_int \<lfloor>m\<rfloor> + 1" by linarith+
  then show ?thesis unfolding round_even_def Let_def by (auto simp: abs_le_iff) 
qed

lemma round_even_of_int: "round_even (real_of_int k) = k"
  by (simp add: round_even_def)

lemma round_even_upper:
  assumes "m \<le> real_of_int N"
  shows "round_even m \<le> N"
proof -
  have f: "\<lfloor>m\<rfloor> \<le> N" using assms by (simp add: floor_le_iff)
  show ?thesis
  proof (cases "round_even m = \<lfloor>m\<rfloor>")
    case True
    then show ?thesis using f by simp
  next
    case False
    then have e: "round_even m = \<lfloor>m\<rfloor> + 1" using round_even_cases [of m] by simp
    then have "1 / 2 \<le> m - real_of_int \<lfloor>m\<rfloor>"
      unfolding round_even_def Let_def by (auto split: if_splits)
    then have "real_of_int \<lfloor>m\<rfloor> + 1 / 2 \<le> real_of_int N" using assms by linarith
    then have "\<lfloor>m\<rfloor> < N" by linarith
    then show ?thesis using e by simp
  qed
qed

lemma round_even_lower:
  assumes "real_of_int N \<le> m"
  shows "N \<le> round_even m"
proof -
  have "N \<le> \<lfloor>m\<rfloor>" using assms by (simp add: le_floor_iff)
  then show ?thesis using round_even_cases [of m] by auto
qed

lemma rnd_0: "rnd p 0 = 0"
  by (simp add: rnd_def)

lemma rnd_eval:
  assumes "2 powi e \<le> \<bar>r\<bar>" and "\<bar>r\<bar> < 2 powi (e + 1)"
  shows "rnd p r = real_of_int (round_even (r / 2 powi (e - (int p - 1)))) * 2 powi (e - (int p - 1))"
proof -
  have "0 < \<bar>r\<bar>" using assms(1) two_powi_pos [of e] by linarith
  then have n: "r \<noteq> 0" by simp
  have "\<lfloor>log 2 \<bar>r\<bar>\<rfloor> = e" using floor_log2_iff [OF n, of e] assms by simp
  then show ?thesis using n by (simp add: rnd_def Let_def)
qed

lemma rnd_error_ulp:
  assumes "r \<noteq> 0"
  shows "\<bar>rnd p r - r\<bar> \<le> 2 powi (\<lfloor>log 2 \<bar>r\<bar>\<rfloor> - int p)"
proof -
  define u :: real where "u = 2 powi (\<lfloor>log 2 \<bar>r\<bar>\<rfloor> - (int p - 1))"
  have u: "0 < u" unfolding u_def by (rule two_powi_pos)
  have e: "rnd p r = real_of_int (round_even (r / u)) * u"
    using assms by (simp add: rnd_def Let_def u_def)
  have "rnd p r - r = (real_of_int (round_even (r / u)) - r / u) * u"
    unfolding e using u by (simp add: algebra_simps)
  then have "\<bar>rnd p r - r\<bar> = \<bar>real_of_int (round_even (r / u)) - r / u\<bar> * u"
    using u by (simp add: abs_mult)
  also have "\<dots> \<le> (1 / 2) * u"
    using round_even_error [of "r / u"] u by (intro mult_right_mono) simp_all
  also have "\<dots> = 2 powi (\<lfloor>log 2 \<bar>r\<bar>\<rfloor> - int p)"
  proof -
    have "\<lfloor>log 2 \<bar>r\<bar>\<rfloor> - (int p - 1) = (\<lfloor>log 2 \<bar>r\<bar>\<rfloor> - int p) + 1" by simp
    then have "u = 2 powi (\<lfloor>log 2 \<bar>r\<bar>\<rfloor> - int p) * 2"
      unfolding u_def by (simp only: two_powi_add) simp
    then show ?thesis by simp
  qed
  finally show ?thesis .
qed

lemma rnd_error:
  assumes "\<bar>r\<bar> < 2 powi k"
  shows "\<bar>rnd p r - r\<bar> \<le> 2 powi (k - 1 - int p)"
proof (cases "r = 0")
  case True
  then show ?thesis using two_powi_pos [of "k - 1 - int p"] by (simp add: rnd_0)
next
  case False
  have "2 powi \<lfloor>log 2 \<bar>r\<bar>\<rfloor> < (2::real) powi k"
    using floor_log2_bounds(1) [OF False] assms by simp
  then have "\<lfloor>log 2 \<bar>r\<bar>\<rfloor> - int p \<le> k - 1 - int p" by (simp add: two_powi_less_iff)
  then have "(2::real) powi (\<lfloor>log 2 \<bar>r\<bar>\<rfloor> - int p) \<le> 2 powi (k - 1 - int p)"
    by (simp only: two_powi_le_iff)
  with rnd_error_ulp [OF False, of p] show ?thesis by simp
qed


lemma rnd_nonneg:
  assumes "0 \<le> r"
  shows "0 \<le> rnd p r"
proof (cases "r = 0")
  case True
  then show ?thesis by (simp add: rnd_0)
next
  case False
  define u :: real where "u = 2 powi (\<lfloor>log 2 \<bar>r\<bar>\<rfloor> - (int p - 1))"
  have u: "0 < u" unfolding u_def by (rule two_powi_pos)
  have "real_of_int 0 \<le> r / u" using assms u by simp
  then have "0 \<le> round_even (r / u)" by (rule round_even_lower)
  then show ?thesis using False u by (simp add: rnd_def Let_def u_def [symmetric])
qed



lemma rnd_representable:
  assumes "1 \<le> p"
  shows "\<exists>m j. rnd p r = real_of_int m * 2 powi j \<and> \<bar>m\<bar> \<le> 2 ^ p"
proof (cases "r = 0")
  case True
  have "rnd p r = real_of_int 0 * 2 powi 0 \<and> \<bar>0 :: int\<bar> \<le> 2 ^ p" using True by (simp add: rnd_0)
  then show ?thesis by blast
next
  case False
  define e where "e = \<lfloor>log 2 \<bar>r\<bar>\<rfloor>"
  define u :: real where "u = 2 powi (e - (int p - 1))"
  have u: "0 < u" unfolding u_def by (rule two_powi_pos)
  have "\<bar>r\<bar> < 2 powi (e + 1)" using floor_log2_bounds(2) [OF False] by (simp add: e_def)
  moreover have "(2::real) powi (e + 1) = 2 powi int p * u"
    unfolding u_def using two_powi_add [of "int p" "e - (int p - 1)"] by simp
  ultimately have "\<bar>r\<bar> < 2 powi int p * u" by simp
  then have "\<bar>r\<bar> / u < 2 ^ p" using u by (simp add: pos_divide_less_eq)
  moreover have "r / u \<le> \<bar>r\<bar> / u" using u by (intro divide_right_mono) simp_all
  moreover have "(- \<bar>r\<bar>) / u \<le> r / u" using u by (intro divide_right_mono) simp_all
  then have "- (\<bar>r\<bar> / u) \<le> r / u" by simp
  ultimately have b: "r / u < 2 ^ p" "- (2 ^ p) < r / u" by linarith+
  have "r / u \<le> real_of_int (2 ^ p)" using b by simp
  then have "round_even (r / u) \<le> 2 ^ p" by (rule round_even_upper)
  moreover have "real_of_int (- (2 ^ p)) \<le> r / u" using b by simp
  then have "- (2 ^ p) \<le> round_even (r / u)" by (rule round_even_lower)
  ultimately have "\<bar>round_even (r / u)\<bar> \<le> 2 ^ p" by simp
  moreover have "rnd p r = real_of_int (round_even (r / u)) * 2 powi (e - (int p - 1))"
    using False by (simp add: rnd_def Let_def u_def e_def)
  ultimately show ?thesis by blast
qed

lemma rnd_exact:
  assumes "\<bar>m\<bar> \<le> 2 ^ p" and "1 \<le> p"
  shows "rnd p (real_of_int m * 2 powi j) = real_of_int m * 2 powi j"
proof (cases "m = 0")
  case True
  then show ?thesis by (simp add: rnd_0)
next
  case False
  define r where "r = real_of_int m * 2 powi j"
  define e where "e = \<lfloor>log 2 \<bar>r\<bar>\<rfloor>"
  define u :: real where "u = 2 powi (e - (int p - 1))"
  have u: "0 < u" unfolding u_def by (rule two_powi_pos)
  have n: "r \<noteq> 0" using False two_powi_pos [of j] by (simp add: r_def)
  have a: "\<bar>r\<bar> = real_of_int \<bar>m\<bar> * 2 powi j"
    using two_powi_pos [of j] by (simp add: r_def abs_mult)
  have "real_of_int \<bar>m\<bar> \<le> real_of_int (2 ^ p)" using assms(1) by (simp only: of_int_le_iff)
  then have "real_of_int \<bar>m\<bar> \<le> 2 powi int p" by simp
  then have "\<bar>r\<bar> \<le> 2 powi int p * 2 powi j"
    unfolding a using two_powi_pos [of j] by (intro mult_right_mono) simp_all
  then have "\<bar>r\<bar> \<le> 2 powi (int p + j)" by (simp only: two_powi_add)
  then have "(2::real) powi e \<le> 2 powi (int p + j)"
    using floor_log2_bounds(1) [OF n] by (simp add: e_def)
  then have le: "e \<le> int p + j" by (simp only: two_powi_le_iff)
  have q: "r / u = real_of_int m * 2 powi (j - (e - (int p - 1)))"
    unfolding r_def u_def by (simp add: two_powi_diff)
  have "\<exists>k. r / u = real_of_int k"
  proof (cases "e = int p + j")
    case True
    have "(2::real) powi (int p + j) \<le> \<bar>r\<bar>"
      using floor_log2_bounds(1) [OF n] True by (simp add: e_def)
    then have "2 powi int p * 2 powi j \<le> real_of_int \<bar>m\<bar> * 2 powi j"
      unfolding a by (simp only: two_powi_add)
    then have "(2::real) powi int p \<le> real_of_int \<bar>m\<bar>"
      using two_powi_pos [of j] by simp
    then have "real_of_int (2 ^ p) \<le> real_of_int \<bar>m\<bar>" by simp
    then have "(2::int) ^ p \<le> \<bar>m\<bar>" by (simp only: of_int_le_iff)
    then have m: "\<bar>m\<bar> = 2 ^ p" using assms(1) by simp
    obtain p' where p': "p = Suc p'" using assms(2) by (cases p) simp_all
    have "m = 2 * 2 ^ p' \<or> m = 2 * (- (2 ^ p'))" using m unfolding p' by (simp add: abs_if split: if_splits)
    then obtain k where k: "m = 2 * k" by blast
    have "r / u = real_of_int m * 2 powi (- 1)" unfolding q using True by simp
    then have "r / u = real_of_int k" unfolding k by simp
    then show ?thesis by blast
  next
    case False
    then have "0 \<le> j - (e - (int p - 1))" using le by simp
    then obtain d where d: "j - (e - (int p - 1)) = int d" using nonneg_int_cases by blast
    have "r / u = real_of_int (m * 2 ^ d)" unfolding q d by simp
    then show ?thesis by blast
  qed
  then obtain k where k: "r / u = real_of_int k" by blast
  have "rnd p r = real_of_int (round_even (r / u)) * u"
    using n by (simp add: rnd_def Let_def u_def e_def)
  also have "\<dots> = r" unfolding k round_even_of_int using k u by (simp add: field_simps)
  finally show ?thesis unfolding r_def .
qed


lemma rnd_idem:
  assumes "1 \<le> p"
  shows "rnd p (rnd p r) = rnd p r"
proof -
  obtain m j where "rnd p r = real_of_int m * 2 powi j" "\<bar>m\<bar> \<le> 2 ^ p"
    using rnd_representable [OF assms, of r] by blast
  then show ?thesis using rnd_exact [OF _ assms, of m j] by simp
qed

lemma rnd_scale: "rnd p (r * 2 powi k) = rnd p r * 2 powi k"
proof (cases "r = 0")
  case True
  then show ?thesis by (simp add: rnd_0)
next
  case False
  define e where "e = \<lfloor>log 2 \<bar>r\<bar>\<rfloor>"
  have b: "2 powi e \<le> \<bar>r\<bar>" "\<bar>r\<bar> < 2 powi (e + 1)"
    using floor_log2_bounds [OF False] by (simp_all add: e_def)
  have a: "\<bar>r * 2 powi k\<bar> = \<bar>r\<bar> * 2 powi k" using two_powi_pos [of k] by (simp add: abs_mult)
  have "2 powi (e + k) \<le> \<bar>r * 2 powi k\<bar>"
    unfolding a two_powi_add using b(1) two_powi_pos [of k] by simp
  moreover have "\<bar>r * 2 powi k\<bar> < 2 powi (e + k + 1)"
  proof -
    have "\<bar>r\<bar> * 2 powi k < 2 powi (e + 1) * 2 powi k" using b(2) two_powi_pos [of k] by simp
    also have "\<dots> = 2 powi (e + k + 1)" using two_powi_add [of "e + 1" k] by (simp add: add.commute add.left_commute)
    finally show ?thesis unfolding a .
  qed
  ultimately have "rnd p (r * 2 powi k)
      = real_of_int (round_even (r * 2 powi k / 2 powi (e + k - (int p - 1)))) * 2 powi (e + k - (int p - 1))"
    by (rule rnd_eval)
  moreover have "(2::real) powi (e + k - (int p - 1)) = 2 powi (e - (int p - 1)) * 2 powi k"
    using two_powi_add [of "e - (int p - 1)" k] by (simp add: algebra_simps)
  moreover have "rnd p r = real_of_int (round_even (r / 2 powi (e - (int p - 1)))) * 2 powi (e - (int p - 1))"
    using b by (rule rnd_eval)
  ultimately show ?thesis using two_powi_pos [of k] by simp
qed

lemma fl_eval:
  assumes "2 powi e \<le> \<bar>r\<bar>" and "\<bar>r\<bar> < 2 powi (e + 1)"
  shows "fl r = real_of_int (round_even (r / 2 powi (e - 52))) * 2 powi (e - 52)"
  unfolding fl_def using rnd_eval [OF assms, of 53] by simp


lemma fl_error:
  assumes "\<bar>r\<bar> < 2 powi k"
  shows "\<bar>fl r - r\<bar> \<le> 2 powi (k - 54)"
  unfolding fl_def using rnd_error [OF assms, of 53] by simp

lemma fl_error2:
  assumes "\<bar>r\<bar> < 2 powi k"
  shows "fl r - r \<le> 2 powi (k - 54)" and "r - fl r \<le> 2 powi (k - 54)"
  using fl_error [OF assms] by linarith+

lemma fl_0: "fl 0 = 0"
  by (simp add: fl_def rnd_0)

lemma fround_0: "fround 0 = 0"
  by (simp add: fround_def rnd_0)

lemma fl_nonneg: "0 \<le> r \<Longrightarrow> 0 \<le> fl r"
  unfolding fl_def by (rule rnd_nonneg)



lemma fl_fl: "fl (fl r) = fl r"
  unfolding fl_def by (rule rnd_idem) simp

lemma fl_times_pow2: "fl (r * 2 ^ z) = fl r * 2 ^ z"
  unfolding fl_def using rnd_scale [of 53 r "int z"] by simp

lemma fl_div_pow2: "fl (r / 2 ^ z) = fl r / 2 ^ z"
  unfolding fl_def using rnd_scale [of 53 r "- int z"] by (simp add: power_int_minus field_simps)

lemma fl_of_int:
  assumes "\<bar>m\<bar> \<le> 2 ^ 53"
  shows "fl (real_of_int m) = real_of_int m"
  unfolding fl_def using rnd_exact [of m 53 0] assms by simp

section \<open>Elevation decoding\<close>

text \<open>
  Claim C1. The elevation stored for mosaic pixel \<open>i\<close>, whose channel bytes are
  \<open>(R, G, B)\<close>, is exactly \<open>R * 256 + G + B / 256 - 32768\<close>: the loop reads the three
  colour bytes of pixel \<open>i\<close> from the RGBA array, the value is a multiple of \<open>1 / 256\<close>
  that a 32-bit float holds without rounding, and \<open>decode(0,0,0) = -32768\<close>,
  \<open>decode(128,0,0) = 0\<close>, \<open>decode(255,255,255) = 32767 + 255/256\<close>.
\<close>

theorem decode_elevation_exact:
  assumes "i < cwidth c * cheight c"
    and "pixel c (i mod cwidth c) (i div cwidth c) = (r, g, b, a)"
  shows "decodeElevation (getImageData c) ! i
           = real (unat r) * 256 + real (unat g) + real (unat b) / 256 - 32768
         \<and> (\<exists>k :: int. \<bar>k\<bar> \<le> 2 ^ 23 \<and> decodeElevation (getImageData c) ! i = real_of_int k / 256)
         \<and> decode 0 0 0 = - 32768
         \<and> decode 128 0 0 = 0
         \<and> decode 255 255 255 = 32767 + 255 / 256"
proof -
  have e: "decodeElevation (getImageData c) ! i = decode r g b"
    using assms by (rule decodeElevation_getImageData)
  have "decode r g b = real (unat r) * 256 + real (unat g) + real (unat b) / 256 - 32768"
    unfolding decode_def byte_val_def by (rule refl)
  moreover have "\<exists>k :: int. \<bar>k\<bar> \<le> 2 ^ 23 \<and> decode r g b = real_of_int k / 256"
    by (rule decode_float32_exact)
  moreover have "decode 0 0 0 = - 32768" "decode 128 0 0 = 0"
    "decode 255 255 255 = 32767 + 255 / 256"
    by (simp_all add: decode_def byte_val_def)
  ultimately show ?thesis using e by simp
qed

theorem decode_elevation_exact_witness:
  "decodeElevation (getImageData
      \<lparr> cwidth = 2, cheight = 1,
        pixel = (\<lambda>px py. if px = 0 then (128, 0, 0, 255) else (255, 255, 255, 255)) \<rparr>) ! 1
     = 32767 + 255 / 256"
  using decode_elevation_exact [of 1
      "\<lparr> cwidth = 2, cheight = 1,
         pixel = (\<lambda>px py. if px = 0 then (128, 0, 0, 255) else (255, 255, 255, 255)) \<rparr>"
      255 255 255 255]
  by simp

section \<open>Facts about the mosaic\<close>

lemma blitTiles_loaded:
  "snd (blitTiles ts (ctx, loaded)) = loaded + length (filter (\<lambda>t. t \<noteq> None) ts)"
  by (induction ts "(ctx, loaded)" arbitrary: ctx loaded rule: blitTiles.induct) auto

lemma blitTiles_size:
  "cwidth (fst (blitTiles ts (ctx, loaded))) = cwidth ctx \<and>
   cheight (fst (blitTiles ts (ctx, loaded))) = cheight ctx"
  by (induction ts "(ctx, loaded)" arbitrary: ctx loaded rule: blitTiles.induct)
     (auto simp: drawImage_def)

lemma blitTiles_pixel:
  assumes "px < cwidth ctx" and "py < cheight ctx"
    and "\<And>t. t \<in> set ts \<Longrightarrow> tile_covers t px py \<Longrightarrow> tile_pixel t px py = v"
  shows "pixel (fst (blitTiles ts (ctx, loaded))) px py
         = (if \<exists>t \<in> set ts. tile_covers t px py then v else pixel ctx px py)"
  using assms
proof (induction ts "(ctx, loaded)" arbitrary: ctx loaded rule: blitTiles.induct)
  case (1 ctx loaded)
  then show ?case by simp
next
  case (2 ts ctx loaded)
  then show ?case by (simp add: tile_covers_def)
next
  case (3 t ts ctx loaded)
  let ?c = "drawImage (img t) (tile_x t) (tile_y t) ctx"
  have sz: "px < cwidth ?c" "py < cheight ?c" using 3(2,3) by (simp_all add: drawImage_def)
  have ih: "pixel (fst (blitTiles ts (?c, loaded + 1))) px py
         = (if \<exists>t \<in> set ts. tile_covers t px py then v else pixel ?c px py)"
    using 3(1)[OF sz] 3(4) by simp
  have here: "pixel ?c px py = (if tile_covers (Some t) px py then v else pixel ctx px py)"
  proof (cases "tile_covers (Some t) px py")
    case True
    then have "tile_pixel (Some t) px py = v" using 3(4) by simp
    with True show ?thesis using 3(2,3)
      by (simp add: drawImage_def tile_covers_def tile_pixel_def)
  next
    case False
    then show ?thesis by (simp add: drawImage_def tile_covers_def)
  qed
  show ?case using ih here by auto
qed

lemma concat_grid_mem:
  "t \<in> set (concat (map (\<lambda>y. map (\<lambda>x. f x y) xs) ys)) \<longleftrightarrow> (\<exists>x \<in> set xs. \<exists>y \<in> set ys. t = f x y)"
  by auto

lemma tilePromises_mem:
  "t \<in> set (tilePromises L mk (xMin, xMax, yMin, yMax)) \<longleftrightarrow>
     (\<exists>x \<in> {xMin .. xMax}. \<exists>y \<in> {yMin .. yMax}.
        t = tilePromise L (mk x y) ((x - xMin) * tileSize) ((y - yMin) * tileSize))"
  unfolding tilePromises_def prod.case by (subst concat_grid_mem) simp

lemma tilePromises_length:
  "length (tilePromises L mk (xMin, xMax, yMin, yMax))
   = nat (xMax - xMin + 1) * nat (yMax - yMin + 1)"
  by (simp add: tilePromises_def length_concat comp_def sum_list_triv)

lemma tilePromise_None: "tilePromise L u ox oy = None \<longleftrightarrow> isl (L u)"
  by (simp add: tilePromise_def split: sum.splits)

lemma grid_cell:
  fixes p :: nat and k :: int
  assumes "k * 256 \<le> int p" and "int p < k * 256 + 256"
  shows "k = int p div 256" and "nat (int p - k * 256) = p mod 256"
proof -
  show k: "k = int p div 256" using assms by linarith
  have "int p - k * 256 = int p mod 256" unfolding k by (simp add: minus_div_mult_eq_mod)
  then have "nat (int p - k * 256) = nat (int p mod 256)" by simp
  also have "\<dots> = p mod 256" by (simp add: nat_mod_distrib)
  finally show "nat (int p - k * 256) = p mod 256" .
qed

lemma grid_cell_in_range:
  fixes p :: nat and lo hi :: int
  assumes "p < nat ((hi - lo + 1) * 256)"
  shows "lo \<le> lo + int p div 256" and "lo + int p div 256 \<le> hi"
    and "(lo + int p div 256 - lo) * 256 \<le> int p"
    and "int p < (lo + int p div 256 - lo) * 256 + 256"
proof -
  have "0 \<le> int p div 256" by simp
  then show "lo \<le> lo + int p div 256" by linarith
  have "int p < (hi - lo + 1) * 256" using assms by linarith
  then have "int p div 256 < hi - lo + 1" by (simp add: div_less_iff_less_mult)
  then show "lo + int p div 256 \<le> hi" by linarith
  show "(lo + int p div 256 - lo) * 256 \<le> int p" by simp
  show "int p < (lo + int p div 256 - lo) * 256 + 256" by simp
qed

lemma fetchMosaicDEM_eq:
  "fetchMosaicDEM L r =
     (if \<forall>t \<in> set (tilePromises L (ElevationTile 11) r). t = None
      then Inl (Error ''No tiles loaded'')
      else Inr (fst (blitTiles (tilePromises L (ElevationTile 11) r) (mosaicCanvas r, 0))))"
proof -
  obtain ctx loaded where bl:
    "blitTiles (tilePromises L (ElevationTile 11) r) (mosaicCanvas r, 0) = (ctx, loaded)"
    by (cases "blitTiles (tilePromises L (ElevationTile 11) r) (mosaicCanvas r, 0)")
  have "loaded = length (filter (\<lambda>t. t \<noteq> None) (tilePromises L (ElevationTile 11) r))"
    using blitTiles_loaded [of "tilePromises L (ElevationTile 11) r" "mosaicCanvas r" 0] bl
    by simp
  then have "loaded = 0 \<longleftrightarrow> (\<forall>t \<in> set (tilePromises L (ElevationTile 11) r). t = None)"
    by (simp add: filter_empty_conv)
  then show ?thesis by (simp add: fetchMosaicDEM_def bl)
qed

lemma mosaic_pixel:
  fixes L :: loader
  assumes sized: "\<And>x y im. L (mk x y) = Inr im \<Longrightarrow> img_width im = 256 \<and> img_height im = 256"
    and px: "px < nat ((xMax - xMin + 1) * 256)" and py: "py < nat ((yMax - yMin + 1) * 256)"
  shows "pixel (fst (blitTiles (tilePromises L mk (xMin, xMax, yMin, yMax))
                  (mosaicCanvas (xMin, xMax, yMin, yMax), n))) px py
         = (case L (mk (xMin + int px div 256) (yMin + int py div 256)) of
              Inr im \<Rightarrow> opaque (img_rgb im (px mod 256) (py mod 256))
            | Inl e \<Rightarrow> blank)"
proof -
  let ?r = "(xMin, xMax, yMin, yMax)"
  let ?tx = "xMin + int px div 256" and ?ty = "yMin + int py div 256"
  let ?v = "case L (mk ?tx ?ty) of Inr im \<Rightarrow> opaque (img_rgb im (px mod 256) (py mod 256))
            | Inl e \<Rightarrow> blank"
  have inx: "xMin \<le> ?tx" "?tx \<le> xMax" "(?tx - xMin) * 256 \<le> int px"
    "int px < (?tx - xMin) * 256 + 256"
    using grid_cell_in_range [OF px] by simp_all
  have iny: "yMin \<le> ?ty" "?ty \<le> yMax" "(?ty - yMin) * 256 \<le> int py"
    "int py < (?ty - yMin) * 256 + 256"
    using grid_cell_in_range [OF py] by simp_all
  have cov: "x = ?tx \<and> y = ?ty \<and> L (mk x y) = Inr im \<and> tile_pixel (Some t) px py = ?v"
    if t: "tilePromise L (mk x y) ((x - xMin) * tileSize) ((y - yMin) * tileSize) = Some t"
      and c: "tile_covers (Some t) px py"
      and im: "im = img t" for x y t im
  proof -
    have L: "L (mk x y) = Inr im" and tx: "tile_x t = (x - xMin) * 256"
      and ty: "tile_y t = (y - yMin) * 256"
      using t im by (auto simp: tilePromise_def tileSize_def split: sum.splits)
    have sz: "img_width im = 256" "img_height im = 256" using sized [OF L] by simp_all
    have cx: "(x - xMin) * 256 \<le> int px" "int px < (x - xMin) * 256 + 256"
      and cy: "(y - yMin) * 256 \<le> int py" "int py < (y - yMin) * 256 + 256"
      using c im sz tx ty by (simp_all add: tile_covers_def covers_def)
    have x: "x - xMin = int px div 256" and mx: "nat (int px - (x - xMin) * 256) = px mod 256"
      using grid_cell [OF cx] by simp_all
    have y: "y - yMin = int py div 256" and my: "nat (int py - (y - yMin) * 256) = py mod 256"
      using grid_cell [OF cy] by simp_all
    have "x = ?tx" "y = ?ty" using x y by simp_all
    moreover have "tile_pixel (Some t) px py = opaque (img_rgb im (px mod 256) (py mod 256))"
      using im tx ty mx my by (simp add: tile_pixel_def)
    ultimately show ?thesis using L by simp
  qed
  have agree: "tile_pixel t px py = ?v"
    if mem: "t \<in> set (tilePromises L mk ?r)" and cv: "tile_covers t px py" for t
  proof -
    obtain x y where xy: "t = tilePromise L (mk x y) ((x - xMin) * tileSize) ((y - yMin) * tileSize)"
      using mem unfolding tilePromises_mem by blast
    obtain tt where tt: "t = Some tt" using cv by (cases t) (simp_all add: tile_covers_def)
    have t1: "tilePromise L (mk x y) ((x - xMin) * tileSize) ((y - yMin) * tileSize) = Some tt"
      using xy tt by simp
    have c1: "tile_covers (Some tt) px py" using cv tt by simp
    have "tile_pixel (Some tt) px py = ?v" using cov [OF t1 c1 refl] by blast
    then show ?thesis unfolding tt .
  qed
  have sz: "px < cwidth (mosaicCanvas ?r)" "py < cheight (mosaicCanvas ?r)"
    using px py by (simp_all add: mosaicCanvas_def createCanvas_def tileSize_def)
  have base: "pixel (mosaicCanvas ?r) px py = blank"
    by (simp add: mosaicCanvas_def createCanvas_def)
  have ex: "(\<exists>t \<in> set (tilePromises L mk ?r). tile_covers t px py) \<longleftrightarrow> \<not> isl (L (mk ?tx ?ty))"
  proof
    assume "\<exists>t \<in> set (tilePromises L mk ?r). tile_covers t px py"
    then obtain t where t: "t \<in> set (tilePromises L mk ?r)" "tile_covers t px py" by blast
    obtain x y where xy: "t = tilePromise L (mk x y) ((x - xMin) * tileSize) ((y - yMin) * tileSize)"
      using t(1) unfolding tilePromises_mem by blast
    obtain tt where tt: "t = Some tt" using t(2) by (cases t) (simp_all add: tile_covers_def)
    have t1: "tilePromise L (mk x y) ((x - xMin) * tileSize) ((y - yMin) * tileSize) = Some tt"
      using xy tt by simp
    have c1: "tile_covers (Some tt) px py" using t(2) tt by simp
    have "x = ?tx \<and> y = ?ty \<and> L (mk x y) = Inr (img tt)"
      using cov [OF t1 c1 refl] by blast
    then show "\<not> isl (L (mk ?tx ?ty))" by auto
  next
    assume "\<not> isl (L (mk ?tx ?ty))"
    then obtain im where L: "L (mk ?tx ?ty) = Inr im" by (cases "L (mk ?tx ?ty)") simp_all
    let ?t = "tilePromise L (mk ?tx ?ty) ((?tx - xMin) * tileSize) ((?ty - yMin) * tileSize)"
    have "?tx \<in> {xMin .. xMax}" "?ty \<in> {yMin .. yMax}"
      using inx(1,2) iny(1,2) by simp_all
    then have mem: "?t \<in> set (tilePromises L mk ?r)"
      unfolding tilePromises_mem by (intro bexI [of _ ?tx] bexI [of _ ?ty] refl)
    have "img_width im = 256" "img_height im = 256" using sized [OF L] by simp_all
    then have "tile_covers ?t px py"
      using L inx(3,4) iny(3,4)
      by (simp add: tilePromise_def tile_covers_def covers_def tileSize_def)
    with mem show "\<exists>t \<in> set (tilePromises L mk ?r). tile_covers t px py" by blast
  qed
  have "pixel (fst (blitTiles (tilePromises L mk ?r) (mosaicCanvas ?r, n))) px py
        = (if \<exists>t \<in> set (tilePromises L mk ?r). tile_covers t px py then ?v
           else pixel (mosaicCanvas ?r) px py)"
    using sz agree by (rule blitTiles_pixel)
  also have "\<dots> = ?v"
    unfolding ex base by (cases "L (mk ?tx ?ty)") simp_all
  finally show ?thesis .
qed

lemma tilePromises_all_failed:
  "(\<forall>t \<in> set (tilePromises L mk (xMin, xMax, yMin, yMax)). t = None)
   \<longleftrightarrow> (\<forall>x \<in> {xMin .. xMax}. \<forall>y \<in> {yMin .. yMax}. isl (L (mk x y)))"
proof
  assume a: "\<forall>t \<in> set (tilePromises L mk (xMin, xMax, yMin, yMax)). t = None"
  show "\<forall>x \<in> {xMin .. xMax}. \<forall>y \<in> {yMin .. yMax}. isl (L (mk x y))"
  proof (intro ballI)
    fix x y assume "x \<in> {xMin .. xMax}" "y \<in> {yMin .. yMax}"
    then have "tilePromise L (mk x y) ((x - xMin) * tileSize) ((y - yMin) * tileSize)
        \<in> set (tilePromises L mk (xMin, xMax, yMin, yMax))"
      unfolding tilePromises_mem by blast
    with a have "tilePromise L (mk x y) ((x - xMin) * tileSize) ((y - yMin) * tileSize) = None"
      by blast
    then show "isl (L (mk x y))" by (simp only: tilePromise_None)
  qed
next
  assume a: "\<forall>x \<in> {xMin .. xMax}. \<forall>y \<in> {yMin .. yMax}. isl (L (mk x y))"
  show "\<forall>t \<in> set (tilePromises L mk (xMin, xMax, yMin, yMax)). t = None"
  proof
    fix t assume "t \<in> set (tilePromises L mk (xMin, xMax, yMin, yMax))"
    then obtain x y where "x \<in> {xMin .. xMax}" "y \<in> {yMin .. yMax}"
      "t = tilePromise L (mk x y) ((x - xMin) * tileSize) ((y - yMin) * tileSize)"
      unfolding tilePromises_mem by blast
    with a show "t = None" by (simp only: tilePromise_None)
  qed
qed

lemma fetchMosaicDEM_failed_iff:
  "isl (fetchMosaicDEM L (xMin, xMax, yMin, yMax))
   \<longleftrightarrow> (\<forall>x \<in> {xMin .. xMax}. \<forall>y \<in> {yMin .. yMax}. isl (L (ElevationTile 11 x y)))"
  unfolding fetchMosaicDEM_eq tilePromises_all_failed [symmetric] by simp

lemma fetchMosaicDEM_error:
  "fetchMosaicDEM L r = Inl e \<Longrightarrow> e = Error ''No tiles loaded''"
  unfolding fetchMosaicDEM_eq by (simp split: if_splits)

lemma fetchMosaicDEM_canvas_size:
  assumes "fetchMosaicDEM L r = Inr c"
  shows "cwidth c = cwidth (mosaicCanvas r)" and "cheight c = cheight (mosaicCanvas r)"
proof -
  have "c = fst (blitTiles (tilePromises L (ElevationTile 11) r) (mosaicCanvas r, 0))"
    using assms unfolding fetchMosaicDEM_eq by (simp split: if_splits)
  then show "cwidth c = cwidth (mosaicCanvas r)" and "cheight c = cheight (mosaicCanvas r)"
    using blitTiles_size [of "tilePromises L (ElevationTile 11) r" "mosaicCanvas r" 0]
    by simp_all
qed

section \<open>Mosaic fetch with partial failure\<close>

text \<open>
  Claim C2. For every tile range, one promise is made per tile of the rectangle, and the
  mosaic stage of \<open>fetchDEM\<close> fails if and only if every tile load of the rectangle
  failed; its only error is \<^verbatim>\<open>Error("No tiles loaded")\<close>, so no tile's own failure reaches
  the caller. Otherwise it returns the mosaic canvas of the full size, and (the tiles being
  256 by 256) each pixel is the pixel of the tile whose cell it lies in when that tile
  loaded, and blank when it failed.
\<close>

theorem fetchMosaicDEM_partial_failure:
  fixes L :: loader
  shows
    "length (tilePromises L (ElevationTile 11) (xMin, xMax, yMin, yMax))
       = nat (xMax - xMin + 1) * nat (yMax - yMin + 1)
     \<and> (isl (fetchMosaicDEM L (xMin, xMax, yMin, yMax))
          \<longleftrightarrow> (\<forall>x \<in> {xMin .. xMax}. \<forall>y \<in> {yMin .. yMax}. isl (L (ElevationTile 11 x y))))
     \<and> (isl (fetchMosaicDEM L (xMin, xMax, yMin, yMax))
          \<longrightarrow> fetchMosaicDEM L (xMin, xMax, yMin, yMax) = Inl (Error ''No tiles loaded''))
     \<and> (\<not> isl (fetchMosaicDEM L (xMin, xMax, yMin, yMax)) \<longrightarrow>
          (\<exists>c. fetchMosaicDEM L (xMin, xMax, yMin, yMax) = Inr c
             \<and> cwidth c = nat ((xMax - xMin + 1) * 256)
             \<and> cheight c = nat ((yMax - yMin + 1) * 256)
             \<and> ((\<forall>x y im. L (ElevationTile 11 x y) = Inr im
                     \<longrightarrow> img_width im = 256 \<and> img_height im = 256)
                  \<longrightarrow> (\<forall>px < cwidth c. \<forall>py < cheight c.
                        pixel c px py
                        = (case L (ElevationTile 11 (xMin + int px div 256) (yMin + int py div 256)) of
                             Inr im \<Rightarrow> opaque (img_rgb im (px mod 256) (py mod 256))
                           | Inl e \<Rightarrow> blank)))))"
proof -
  define r where "r = (xMin, xMax, yMin, yMax)"
  let ?ts = "tilePromises L (ElevationTile 11) r"
  let ?c = "fst (blitTiles ?ts (mosaicCanvas r, 0))"
  have none: "(\<forall>t \<in> set ?ts. t = None)
      \<longleftrightarrow> (\<forall>x \<in> {xMin .. xMax}. \<forall>y \<in> {yMin .. yMax}. isl (L (ElevationTile 11 x y)))"
    unfolding r_def by (rule tilePromises_all_failed)
  have eq: "fetchMosaicDEM L r
      = (if \<forall>t \<in> set ?ts. t = None then Inl (Error ''No tiles loaded'') else Inr ?c)"
    by (rule fetchMosaicDEM_eq)
  have len: "length ?ts = nat (xMax - xMin + 1) * nat (yMax - yMin + 1)"
    unfolding r_def by (rule tilePromises_length)
  have isl: "isl (fetchMosaicDEM L r) \<longleftrightarrow> (\<forall>t \<in> set ?ts. t = None)"
    unfolding eq by simp
  have err: "isl (fetchMosaicDEM L r) \<longrightarrow> fetchMosaicDEM L r = Inl (Error ''No tiles loaded'')"
    unfolding eq by simp
  have size: "cwidth ?c = nat ((xMax - xMin + 1) * 256)" "cheight ?c = nat ((yMax - yMin + 1) * 256)"
    using blitTiles_size [of ?ts "mosaicCanvas r" 0]
    by (simp_all add: r_def mosaicCanvas_def createCanvas_def tileSize_def)
  have pix: "pixel ?c px py
       = (case L (ElevationTile 11 (xMin + int px div 256) (yMin + int py div 256)) of
            Inr im \<Rightarrow> opaque (img_rgb im (px mod 256) (py mod 256))
          | Inl e \<Rightarrow> blank)"
    if "\<forall>x y im. L (ElevationTile 11 x y) = Inr im \<longrightarrow> img_width im = 256 \<and> img_height im = 256"
      and "px < cwidth ?c" and "py < cheight ?c" for px py
    unfolding r_def
    by (rule mosaic_pixel) (use that size in \<open>simp_all add: r_def\<close>)
  have ok: "\<not> isl (fetchMosaicDEM L r) \<longrightarrow> fetchMosaicDEM L r = Inr ?c"
    unfolding eq by simp
  show ?thesis
    using len isl none err ok size pix unfolding r_def by blast
qed

theorem fetchMosaicDEM_partial_failure_witness:
  "fetchMosaicDEM ex_loader (0, 1, 0, 0) \<noteq> Inl (Error ''No tiles loaded'')
   \<and> (\<exists>c. fetchMosaicDEM ex_loader (0, 1, 0, 0) = Inr c
          \<and> cwidth c = 512 \<and> cheight c = 256
          \<and> pixel c 10 20 = (1, 2, 3, 255)
          \<and> pixel c 300 20 = (0, 0, 0, 0))"
proof -
  have some: "\<not> (\<forall>x \<in> {0 .. 1 :: int}. \<forall>y \<in> {0 .. 0 :: int}. isl (ex_loader (ElevationTile 11 x y)))"
    by (auto simp: ex_loader_def intro!: bexI [of _ 0])
  have sized: "\<forall>x y im. ex_loader (ElevationTile 11 x y) = Inr im
      \<longrightarrow> img_width im = 256 \<and> img_height im = 256"
    by (auto simp: ex_loader_def ex_tile_def split: if_splits)
  note t = fetchMosaicDEM_partial_failure [of ex_loader 0 1 0 0]
  from t some have ok: "\<not> isl (fetchMosaicDEM ex_loader (0, 1, 0, 0))" by blast
  with t obtain c where c: "fetchMosaicDEM ex_loader (0, 1, 0, 0) = Inr c"
    "cwidth c = nat ((1 - 0 + 1) * 256)" "cheight c = nat ((0 - 0 + 1) * 256)"
    and p: "\<forall>px < cwidth c. \<forall>py < cheight c.
         pixel c px py
         = (case ex_loader (ElevationTile 11 (0 + int px div 256) (0 + int py div 256)) of
              Inr im \<Rightarrow> opaque (img_rgb im (px mod 256) (py mod 256))
            | Inl e \<Rightarrow> blank)"
    using sized by blast
  have w: "cwidth c = 512" "cheight c = 256" using c(2,3) by simp_all
  have "pixel c 10 20 = (1, 2, 3, 255)" "pixel c 300 20 = (0, 0, 0, 0)"
    using p w by (simp_all add: ex_loader_def ex_tile_def opaque_def blank_def)
  then show ?thesis using c(1) w by simp
qed

section \<open>Facts about the elevation range and the byte conversion\<close>

lemma unat_byte_of_int:
  assumes "0 \<le> k" and "k \<le> 255"
  shows "byte_val (word_of_int k) = real_of_int k"
proof -
  have "uint (word_of_int k :: byte) = k mod 256" by (simp add: uint_word_of_int)
  also have "\<dots> = k" using assms by simp
  finally have "uint (word_of_int k :: byte) = k" .
  then have "unat (word_of_int k :: byte) = nat k" by (simp only: unat_eq_nat_uint)
  then show ?thesis using assms(1) unfolding byte_val_def by simp
qed

lemma toUint8Clamp_0: "toUint8Clamp 0 = 0"
  by (simp add: toUint8Clamp_def)

lemma toUint8Clamp_255: "toUint8Clamp 255 = 255"
  by (simp add: toUint8Clamp_def)

lemma toUint8Clamp_near:
  assumes "0 \<le> v" and "v \<le> 255"
  shows "\<bar>byte_val (toUint8Clamp v) - v\<bar> \<le> 1 / 2"
proof -
  let ?f = "\<lfloor>v\<rfloor>"
  have c: "min (max v 0) 255 = v" using assms by simp
  have f: "0 \<le> ?f" "?f \<le> 255" "real_of_int ?f \<le> v" "v < real_of_int ?f + 1"
    using assms by (simp_all add: floor_le_iff le_floor_iff)
  show ?thesis
  proof (cases "v < real_of_int ?f + 0.5")
    case True
    then have "toUint8Clamp v = word_of_int ?f" by (simp add: toUint8Clamp_def c Let_def)
    then show ?thesis using unat_byte_of_int [OF f(1,2)] f(3) True by simp
  next
    case False
    then have "real_of_int ?f + 0.5 \<le> 255" using assms(2) by linarith
    then have f1: "0 \<le> ?f + 1" "?f + 1 \<le> 255" using f(1) by linarith+
    have r: "toUint8Clamp v = word_of_int ?f \<or> toUint8Clamp v = word_of_int (?f + 1)"
      by (simp add: toUint8Clamp_def c Let_def)
    have up: "toUint8Clamp v = word_of_int ?f \<Longrightarrow> v = real_of_int ?f + 0.5"
      using False unfolding toUint8Clamp_def c Let_def by (auto split: if_splits)
    show ?thesis
    proof (cases "toUint8Clamp v = word_of_int ?f")
      case True
      then show ?thesis using up unat_byte_of_int [OF f(1,2)] by simp
    next
      case F: False
      then have "toUint8Clamp v = word_of_int (?f + 1)" using r by blast
      then show ?thesis using unat_byte_of_int [OF f1] False f(4) by simp
    qed
  qed
qed

lemma minMaxLoop_Fin:
  "minMaxLoop es (Fin lo, Fin hi)
   = (Fin (fold min (filter (\<lambda>e. 0 < e) es) lo), Fin (fold max (filter (\<lambda>e. 0 < e) es) hi))"
  by (induction es arbitrary: lo hi) (simp_all add: math_min_def math_max_def min.commute max.commute)

lemma elevationRange_fold:
  "elevationRange es
   = (case filter (\<lambda>e. 0 < e) es of
        [] \<Rightarrow> (Infinity, NegInfinity)
      | e # vs \<Rightarrow> (Fin (fold min vs e), Fin (fold max vs e)))"
  unfolding elevationRange_def
  by (induction es) (simp_all add: minMaxLoop_Fin math_min_def math_max_def)

lemma elevationRange_Min_Max:
  "elevationRange es
   = (if filter (\<lambda>e. 0 < e) es = [] then (Infinity, NegInfinity)
      else (Fin (Min (set (filter (\<lambda>e. 0 < e) es))), Fin (Max (set (filter (\<lambda>e. 0 < e) es)))))"
  unfolding elevationRange_fold
  by (cases "filter (\<lambda>e. 0 < e) es") (simp_all only: Min.set_eq_fold Max.set_eq_fold list.case if_False if_True list.distinct refl)

lemma heightmapData_nth:
  assumes "i < width * height" and "k < 4"
  shows "idata (heightmapData width height elevation (eMin, eMax)) ! (i * 4 + k)
         = [heightByte eMin eMax (elevation ! i), heightByte eMin eMax (elevation ! i),
            heightByte eMin eMax (elevation ! i), 255] ! k"
proof -
  have "idata (heightmapData width height elevation (eMin, eMax))
        = concat (map (\<lambda>i. rgba_bytes (heightByte eMin eMax (elevation ! i),
                    heightByte eMin eMax (elevation ! i),
                    heightByte eMin eMax (elevation ! i), 255)) [0 ..< width * height])"
    by (simp add: heightmapData_def Let_def)
  then have "idata (heightmapData width height elevation (eMin, eMax)) ! (i * 4 + k)
        = rgba_bytes (heightByte eMin eMax (elevation ! i), heightByte eMin eMax (elevation ! i),
            heightByte eMin eMax (elevation ! i), 255) ! k"
    using assms by (simp only: concat_quads_nth)
  then show ?thesis by (simp add: rgba_bytes_def)
qed

lemma normVal_range:
  assumes "lo < hi" and "lo \<le> e" and "e \<le> hi"
  shows "0 \<le> (e - lo) / (hi - lo)" and "(e - lo) / (hi - lo) \<le> 1"
    and "0 \<le> normVal lo hi e" and "normVal lo hi e \<le> 255"
proof -
  show a: "0 \<le> (e - lo) / (hi - lo)" using assms by simp
  show b: "(e - lo) / (hi - lo) \<le> 1" using assms by simp
  have "0 \<le> (e - lo) / (hi - lo) * 255" using a by (intro mult_nonneg_nonneg) simp_all
  then show "0 \<le> normVal lo hi e" by (simp only: normVal_def)
  have "(e - lo) / (hi - lo) * 255 \<le> 1 * 255" using b by (intro mult_right_mono) simp_all
  then show "normVal lo hi e \<le> 255" by (simp only: normVal_def mult_1)
qed

lemma heightByte_invalid: "e \<le> 0 \<Longrightarrow> heightByte eMin eMax e = 0"
  by (simp add: heightByte_def toUint8Clamp_0)

lemma heightByte_degenerate: "\<not> hi > lo \<Longrightarrow> heightByte (Fin lo) (Fin hi) e = 0"
  by (simp add: heightByte_def toUint8Clamp_0)

lemma heightByte_empty: "heightByte Infinity NegInfinity e = 0"
  by (simp add: heightByte_def toUint8Clamp_0)

lemma heightByte_valid:
  "0 < e \<Longrightarrow> lo < hi \<Longrightarrow> heightByte (Fin lo) (Fin hi) e = toUint8Clamp (((e - lo) / (hi - lo)) * 255)"
  by (simp add: heightByte_def normVal_def)

section \<open>Normalised heightmap\<close>

text \<open>
  Claim C3. \<open>eMin\<close> and \<open>eMax\<close> are the least and the greatest of exactly the samples
  greater than 0 (and stay at \<open>Infinity\<close>, \<open>-Infinity\<close> when there is none). For sample \<open>i\<close>
  of the heightmap data: the three colour bytes are equal and alpha is 255; when the sample
  is valid and \<open>min < max\<close>, the byte is \<open>(e - min) / (max - min) * 255\<close> stored in a
  \<^verbatim>\<open>Uint8ClampedArray\<close>, the quotient lies in \<open>[0, 1]\<close>, the stored byte is within one half of
  the scaled value, the sample equal to \<open>min\<close> gives 0 and the one equal to \<open>max\<close> gives 255;
  an invalid sample, and every sample when no sample is valid or \<open>max = min\<close>, gives 0.
  The quotient is only formed under the guard \<open>min < max\<close>, so its divisor is positive.
\<close>

theorem heightmap_normalisation:
  fixes elevation :: "real list" and width height i :: nat
  defines "V \<equiv> set (validSamples elevation)"
    and "hm \<equiv> idata (heightmapData width height elevation (elevationRange elevation))"
    and "e \<equiv> elevation ! i"
  assumes i: "i < width * height" and len: "length elevation = width * height"
  shows
    "elevationRange elevation
       = (if validSamples elevation = [] then (Infinity, NegInfinity) else (Fin (Min V), Fin (Max V)))
     \<and> hm ! (i * 4 + 1) = hm ! (i * 4) \<and> hm ! (i * 4 + 2) = hm ! (i * 4) \<and> hm ! (i * 4 + 3) = 255
     \<and> (0 < e \<and> Min V < Max V \<longrightarrow>
           hm ! (i * 4) = toUint8Clamp (((e - Min V) / (Max V - Min V)) * 255)
         \<and> 0 \<le> (e - Min V) / (Max V - Min V) \<and> (e - Min V) / (Max V - Min V) \<le> 1
         \<and> \<bar>byte_val (hm ! (i * 4)) - ((e - Min V) / (Max V - Min V)) * 255\<bar> \<le> 1 / 2
         \<and> (e = Min V \<longrightarrow> hm ! (i * 4) = 0)
         \<and> (e = Max V \<longrightarrow> hm ! (i * 4) = 255))
     \<and> (e \<le> 0 \<or> validSamples elevation = [] \<or> Min V = Max V \<longrightarrow> hm ! (i * 4) = 0)"
proof -
  let ?b = "heightByte (fst (elevationRange elevation)) (snd (elevationRange elevation)) e"
  have rng: "elevationRange elevation
       = (if validSamples elevation = [] then (Infinity, NegInfinity) else (Fin (Min V), Fin (Max V)))"
    unfolding V_def validSamples_def by (rule elevationRange_Min_Max)
  have nth: "hm ! (i * 4 + k) = [?b, ?b, ?b, 255] ! k" if "k < 4" for k
    unfolding hm_def e_def
    using heightmapData_nth [OF i that, of elevation "fst (elevationRange elevation)"
        "snd (elevationRange elevation)"] by simp
  have b0: "hm ! (i * 4) = ?b" using nth [of 0] by simp
  have chan: "hm ! (i * 4 + 1) = hm ! (i * 4)" "hm ! (i * 4 + 2) = hm ! (i * 4)"
    "hm ! (i * 4 + 3) = 255"
    using nth [of 1] nth [of 2] nth [of 3] b0 by simp_all
  have fin: "finite V" unfolding V_def by simp
  have valid: "(0 < e \<and> Min V < Max V) \<longrightarrow>
           hm ! (i * 4) = toUint8Clamp (((e - Min V) / (Max V - Min V)) * 255)
         \<and> 0 \<le> (e - Min V) / (Max V - Min V) \<and> (e - Min V) / (Max V - Min V) \<le> 1
         \<and> \<bar>byte_val (hm ! (i * 4)) - ((e - Min V) / (Max V - Min V)) * 255\<bar> \<le> 1 / 2
         \<and> (e = Min V \<longrightarrow> hm ! (i * 4) = 0)
         \<and> (e = Max V \<longrightarrow> hm ! (i * 4) = 255)"
  proof
    assume a: "0 < e \<and> Min V < Max V"
    have mem: "e \<in> V" using a i len unfolding V_def validSamples_def e_def by simp
    then have ne: "validSamples elevation \<noteq> []" unfolding V_def by auto
    have lo: "Min V \<le> e" and hi: "e \<le> Max V" using mem fin by simp_all
    have b: "hm ! (i * 4) = toUint8Clamp (((e - Min V) / (Max V - Min V)) * 255)"
      using a ne by (simp add: b0 rng heightByte_valid)
    have r: "0 \<le> (e - Min V) / (Max V - Min V)" "(e - Min V) / (Max V - Min V) \<le> 1"
      "0 \<le> normVal (Min V) (Max V) e" "normVal (Min V) (Max V) e \<le> 255"
      using normVal_range [of "Min V" "Max V" e] a lo hi by simp_all
    have near: "\<bar>byte_val (hm ! (i * 4)) - ((e - Min V) / (Max V - Min V)) * 255\<bar> \<le> 1 / 2"
      using toUint8Clamp_near [OF r(3,4)] unfolding b normVal_def .
    have at_min: "hm ! (i * 4) = 0" if "e = Min V"
      unfolding b using that by (simp add: toUint8Clamp_0)
    have at_max: "hm ! (i * 4) = 255" if "e = Max V"
      unfolding b using that a by (simp add: toUint8Clamp_255)
    show "hm ! (i * 4) = toUint8Clamp (((e - Min V) / (Max V - Min V)) * 255)
         \<and> 0 \<le> (e - Min V) / (Max V - Min V) \<and> (e - Min V) / (Max V - Min V) \<le> 1
         \<and> \<bar>byte_val (hm ! (i * 4)) - ((e - Min V) / (Max V - Min V)) * 255\<bar> \<le> 1 / 2
         \<and> (e = Min V \<longrightarrow> hm ! (i * 4) = 0)
         \<and> (e = Max V \<longrightarrow> hm ! (i * 4) = 255)"
      using b r(1,2) near at_min at_max by blast
  qed
  have invalid: "e \<le> 0 \<or> validSamples elevation = [] \<or> Min V = Max V \<longrightarrow> hm ! (i * 4) = 0"
  proof
    assume a: "e \<le> 0 \<or> validSamples elevation = [] \<or> Min V = Max V"
    show "hm ! (i * 4) = 0"
    proof (cases "validSamples elevation = []")
      case True
      then show ?thesis by (simp add: b0 rng heightByte_empty)
    next
      case False
      then have r: "elevationRange elevation = (Fin (Min V), Fin (Max V))" by (simp add: rng)
      show ?thesis
      proof (cases "e \<le> 0")
        case True
        then show ?thesis by (simp add: b0 heightByte_invalid)
      next
        case F: False
        then have "Min V = Max V" using a False by blast
        then show ?thesis by (simp add: b0 r heightByte_degenerate)
      qed
    qed
  qed
  show ?thesis using rng chan valid invalid by blast
qed

theorem heightmap_normalisation_witness:
  "elevationRange [- 5, 10, 20, 30] = (Fin 10, Fin 30)
   \<and> idata (heightmapData 2 2 [- 5, 10, 20, 30] (elevationRange [- 5, 10, 20, 30])) ! 8 = 128
   \<and> idata (heightmapData 2 2 [- 5, 10, 20, 30] (elevationRange [- 5, 10, 20, 30])) ! 11 = 255
   \<and> idata (heightmapData 2 2 [- 5, 10, 20, 30] (elevationRange [- 5, 10, 20, 30])) ! 0 = 0"
proof -
  have v: "validSamples [- 5, 10, 20, 30] = [10, 20, 30]" by (simp add: validSamples_def)
  have m: "Min (set [10, 20, 30 :: real]) = 10" "Max (set [10, 20, 30 :: real]) = 30" by simp_all
  have c: "toUint8Clamp (255 / 2) = 128" by (simp add: toUint8Clamp_def)
  note t2 = heightmap_normalisation [of 2 2 2 "[- 5, 10, 20, 30]"]
  note t0 = heightmap_normalisation [of 0 2 2 "[- 5, 10, 20, 30]"]
  have r: "elevationRange [- 5, 10, 20, 30] = (Fin 10, Fin 30)"
    using t2 by (auto simp: v m)
  have a: "idata (heightmapData 2 2 [- 5, 10, 20, 30] (elevationRange [- 5, 10, 20, 30])) ! 8 = 128"
    "idata (heightmapData 2 2 [- 5, 10, 20, 30] (elevationRange [- 5, 10, 20, 30])) ! 11 = 255"
    using t2 by (auto simp: v m c)
  have b: "idata (heightmapData 2 2 [- 5, 10, 20, 30] (elevationRange [- 5, 10, 20, 30])) ! 0 = 0"
    using t0 by (auto simp: v m)
  show ?thesis using r a b by blast
qed

section \<open>Facts about the operations\<close>

lemma fetchDEM_stages_intact_Inl:
  assumes "fetchDEM_stages intact_page env b r s = Inl (err, s')"
  shows "s' = s"
  using assms
  by (simp add: fetchDEM_stages_def intact_page_def createTerrain_on_def Let_def split: sum.splits)

lemma fetchDEM_try_unfold:
  "fetchDEM_try env b s =
     (let zoom = 11;
          r = tileRange b zoom;
          width = cwidth (mosaicCanvas r);
          height = cheight (mosaicCanvas r)
      in case fetchMosaicDEM (env_loadImage env) r of
           Inl err \<Rightarrow> Inl err
         | Inr ctx \<Rightarrow>
             (let imageData = getImageData ctx;
                  elevation = decodeElevation imageData;
                  mm = elevationRange elevation;
                  hmData = heightmapData width height elevation mm;
                  hmCanvas = putImageData hmData (createCanvas width height);
                  crop = cropRectangle b r zoom (real width) (real height);
                  finalCanvas = drawImageScaled (env_resample env) hmCanvas crop 512 512
                                  (createCanvas 512 512);
                  s1 = s \<lparr> heightmapTexture := Some (CanvasTexture finalCanvas) \<rparr>;
                  s2 = s1 \<lparr> colorTexture := None \<rparr>;
                  s3 = createTerrain env s2;
                  s4 = hideLoading s3;
                  s5 = setStatus (''Loaded: '' @ toFixed0 (fst mm) @ ''m - '' @ toFixed0 (snd mm)
                                   @ ''m elevation'') ''success'' s4
              in Inr (s5 \<lparr> coord_alt := ''Alt: '' @ toFixed0 (fst mm) @ ''-''
                                         @ toFixed0 (snd mm) @ ''m'' \<rparr>)))"
  by (simp add: fetchDEM_try_def fetchDEM_stages_def intact_page_def createTerrain_on_def
      demTileRange_def Let_def split: sum.splits)

lemma fetchDEM_unfold:
  "fetchDEM env s =
     (case bounds s of
        None \<Rightarrow> (Undefined, setStatus ''Set bounds first'' ''error'' s)
      | Some b \<Rightarrow>
          (let s0 = setStatus ''Fetching DEM...'' ''loading''
                      (showLoading ''Fetching elevation tiles...'' s)
           in case fetchDEM_try env b s0 of
                Inr s' \<Rightarrow> (Undefined, s')
              | Inl err \<Rightarrow>
                  (Undefined, setStatus (''DEM Error: '' @ message err) ''error'' (hideLoading s0))))"
proof (cases "bounds s")
  case None
  then show ?thesis by (simp add: fetchDEM_def fetchDEM_on_def)
next
  case (Some b)
  let ?s0 = "setStatus ''Fetching DEM...'' ''loading'' (showLoading ''Fetching elevation tiles...'' s)"
  show ?thesis
  proof (cases "fetchDEM_stages intact_page env b (demTileRange b) ?s0")
    case (Inl p)
    obtain err s' where p: "p = (err, s')" by (cases p)
    have "s' = ?s0" using Inl unfolding p by (rule fetchDEM_stages_intact_Inl)
    then show ?thesis
      using Some Inl p by (simp add: fetchDEM_def fetchDEM_on_def fetchDEM_try_def Let_def)
  next
    case (Inr s')
    then show ?thesis
      using Some by (simp add: fetchDEM_def fetchDEM_on_def fetchDEM_try_def Let_def)
  qed
qed

lemma createTerrain_frame:
  "heightmapTexture (createTerrain env s) = heightmapTexture s"
  "colorTexture (createTerrain env s) = colorTexture s"
  "satelliteTexture (createTerrain env s) = satelliteTexture s"
  "bounds (createTerrain env s) = bounds s"
  "elevationMin (createTerrain env s) = elevationMin s"
  "elevationMax (createTerrain env s) = elevationMax s"
  "status_class (createTerrain env s) = status_class s"
  "status_text (createTerrain env s) = status_text s"
  "coord_alt (createTerrain env s) = coord_alt s"
  "waterLevel (createTerrain env s) = waterLevel s"
  by (simp_all add: createTerrain_def Let_def)

lemma tileRange_ordered:
  assumes "tileRange b zoom = (xMin, xMax, yMin, yMax)"
  shows "xMin \<le> xMax" and "yMin \<le> yMax"
  using assms by (auto simp: tileRange_def Let_def)

lemma cropRectangle_spec:
  "cropRectangle b (xMin, xMax, yMin, yMax) zoom width height
   = spec_cropRect b (fst (tileToLatLon xMin yMin zoom)) (fst (tileToLatLon (xMax + 1) (yMax + 1) zoom))
       (snd (tileToLatLon (xMax + 1) (yMax + 1) zoom)) (snd (tileToLatLon xMin yMin zoom))
       width height"
  by (simp add: cropRectangle_def spec_cropRect_def Let_def)

lemma cropRectangle_tileRange:
  "cropRectangle b (tileRange b zoom) zoom (real (cwidth (mosaicCanvas (tileRange b zoom))))
     (real (cheight (mosaicCanvas (tileRange b zoom))))
   = spec_cropFor b zoom"
proof -
  obtain xMin xMax yMin yMax where r: "tileRange b zoom = (xMin, xMax, yMin, yMax)"
    by (cases "tileRange b zoom") auto
  have o: "xMin \<le> xMax" "yMin \<le> yMax" using tileRange_ordered [OF r] by simp_all
  have w: "real (cwidth (mosaicCanvas (xMin, xMax, yMin, yMax))) = real_of_int ((xMax - xMin + 1) * 256)"
    "real (cheight (mosaicCanvas (xMin, xMax, yMin, yMax))) = real_of_int ((yMax - yMin + 1) * 256)"
    using o by (simp_all add: mosaicCanvas_def createCanvas_def tileSize_def)
  show ?thesis
    unfolding r spec_cropFor_def prod.case Let_def cropRectangle_spec w ..
qed

lemma drawImageScaled_size:
  "cwidth (drawImageScaled rs src cr dw dh dst) = cwidth dst"
  "cheight (drawImageScaled rs src cr dw dh dst) = cheight dst"
  by (simp_all add: drawImageScaled_def)

lemma putImageData_size:
  "cwidth (putImageData d c) = cwidth c" "cheight (putImageData d c) = cheight c"
  by (simp_all add: putImageData_def)

lemma fetchMosaicSatellite_size:
  "cwidth (fetchMosaicSatellite L r) = cwidth (mosaicCanvas r)"
  "cheight (fetchMosaicSatellite L r) = cheight (mosaicCanvas r)"
  using blitTiles_size [of "tilePromises L (SatelliteTile 13) r" "mosaicCanvas r" 0]
  by (simp_all add: fetchMosaicSatellite_def)

lemma fetchDEM_try_success:
  assumes "fetchDEM_try env b s = Inr s'"
  obtains ctx where "fetchMosaicDEM (env_loadImage env) (tileRange b 11) = Inr ctx"
    and "heightmapTexture s' = Some (CanvasTexture
           (drawImageScaled (env_resample env) (heightmapCanvas ctx) (spec_cropFor b 11) 512 512
              (createCanvas 512 512)))"
    and "colorTexture s' = None"
    and "terrain s' \<noteq> None"
    and "status_class s' = ''success''"
proof -
  obtain ctx where m: "fetchMosaicDEM (env_loadImage env) (tileRange b 11) = Inr ctx"
    using assms by (auto simp: fetchDEM_try_unfold Let_def split: sum.splits)
  have sz: "cwidth ctx = cwidth (mosaicCanvas (tileRange b 11))"
    "cheight ctx = cheight (mosaicCanvas (tileRange b 11))"
    using fetchMosaicDEM_canvas_size [OF m] by simp_all
  have s': "s' = (let mm = elevationRange (decodeElevation (getImageData ctx));
                     finalCanvas = drawImageScaled (env_resample env) (heightmapCanvas ctx)
                       (spec_cropFor b 11) 512 512 (createCanvas 512 512)
                 in (setStatus (''Loaded: '' @ toFixed0 (fst mm) @ ''m - '' @ toFixed0 (snd mm)
                                   @ ''m elevation'') ''success''
                      (hideLoading (createTerrain env
                        (s \<lparr> heightmapTexture := Some (CanvasTexture finalCanvas),
                             colorTexture := None \<rparr>))))
                    \<lparr> coord_alt := ''Alt: '' @ toFixed0 (fst mm) @ ''-''
                                         @ toFixed0 (snd mm) @ ''m'' \<rparr>)"
    using assms m
    by (simp add: fetchDEM_try_unfold Let_def heightmapCanvas_def sz cropRectangle_tileRange)
  show ?thesis
  proof (rule that [OF m])
    show "heightmapTexture s' = Some (CanvasTexture
           (drawImageScaled (env_resample env) (heightmapCanvas ctx) (spec_cropFor b 11) 512 512
              (createCanvas 512 512)))"
      unfolding s' by (simp add: Let_def setStatus_def hideLoading_def createTerrain_frame)
    show "colorTexture s' = None"
      unfolding s' by (simp add: Let_def setStatus_def hideLoading_def createTerrain_frame)
    show "terrain s' \<noteq> None"
      unfolding s' by (simp add: Let_def setStatus_def hideLoading_def createTerrain_def)
    show "status_class s' = ''success''"
      unfolding s' by (simp add: Let_def setStatus_def)
  qed
qed

lemma fetchDEM_try_failure:
  "fetchDEM_try env b s = Inl e \<longleftrightarrow> fetchMosaicDEM (env_loadImage env) (tileRange b 11) = Inl e"
  by (simp add: fetchDEM_try_unfold Let_def split: sum.splits)

lemma fetchMosaicDEM_ok_loader:
  "\<not> isl (fetchMosaicDEM ok_loader (tileRange b 11))"
proof -
  obtain xMin xMax yMin yMax where r: "tileRange b 11 = (xMin, xMax, yMin, yMax)"
    by (cases "tileRange b 11") auto
  have "xMin \<in> {xMin .. xMax}" "yMin \<in> {yMin .. yMax}"
    using tileRange_ordered [OF r] by simp_all
  moreover have "\<not> isl (ok_loader (ElevationTile 11 xMin yMin))" by (simp add: ok_loader_def)
  ultimately show ?thesis unfolding r fetchMosaicDEM_failed_iff by blast
qed

lemma fetchDEM_try_ok_loader:
  assumes "env_loadImage env = ok_loader"
  shows "\<exists>s'. fetchDEM_try env b s = Inr s'"
proof (cases "fetchDEM_try env b s")
  case (Inl e)
  then have "isl (fetchMosaicDEM ok_loader (tileRange b 11))"
    unfolding fetchDEM_try_failure assms by simp
  then show ?thesis using fetchMosaicDEM_ok_loader by blast
next
  case (Inr s')
  then show ?thesis by blast
qed

lemma loadSatelliteTexture_texture:
  assumes "bounds s = Some b"
  shows "satelliteTexture (loadSatelliteTexture env s)
         = Some (CanvasTexture (drawImageScaled (env_resample env)
             (fetchMosaicSatellite (env_loadImage env) (tileRange b 13)) (spec_cropFor b 13)
             1024 1024 (createCanvas 1024 1024)))"
    and "colorTexture (loadSatelliteTexture env s) = satelliteTexture (loadSatelliteTexture env s)"
  using assms
  by (simp_all add: loadSatelliteTexture_def Let_def createTerrain_frame cropRectangle_tileRange)

section \<open>Crop rectangle and rescaling\<close>

text \<open>
  Claim C4. The crop rectangle the code computes for a bounding box and a tile range is
  the specification's four formulas over the footprint \<open>tileToLatLon(xMin, yMin)\<close>,
  \<open>tileToLatLon(xMax + 1, yMax + 1)\<close>. A successful \<open>fetchDEM\<close> run stores as heightmap
  the 512 by 512 canvas onto which that rectangle of the heightmap canvas is drawn (zoom
  11), and \<open>loadSatelliteTexture\<close> stores as satellite and colour texture the 1024 by 1024
  canvas onto which that rectangle of the imagery mosaic is drawn (zoom 13); every pixel of
  either canvas is the browser's resampling of the crop rectangle.
\<close>

theorem crop_and_rescale:
  "cropRectangle b (xMin, xMax, yMin, yMax) zoom width height
     = spec_cropRect b (fst (tileToLatLon xMin yMin zoom))
         (fst (tileToLatLon (xMax + 1) (yMax + 1) zoom))
         (snd (tileToLatLon (xMax + 1) (yMax + 1) zoom))
         (snd (tileToLatLon xMin yMin zoom)) width height
   \<and> (fetchDEM_try env b s = Inr s' \<longrightarrow>
        (\<exists>ctx final.
           fetchMosaicDEM (env_loadImage env) (tileRange b 11) = Inr ctx
         \<and> final = drawImageScaled (env_resample env) (heightmapCanvas ctx) (spec_cropFor b 11)
                     512 512 (createCanvas 512 512)
         \<and> heightmapTexture s' = Some (CanvasTexture final)
         \<and> cwidth final = 512 \<and> cheight final = 512
         \<and> (\<forall>px < 512. \<forall>py < 512.
               pixel final px py
               = env_resample env (heightmapCanvas ctx) (spec_cropFor b 11) 512 512 px py)))
   \<and> (bounds s = Some b \<longrightarrow>
        (\<exists>final.
           final = drawImageScaled (env_resample env)
                     (fetchMosaicSatellite (env_loadImage env) (tileRange b 13)) (spec_cropFor b 13)
                     1024 1024 (createCanvas 1024 1024)
         \<and> satelliteTexture (loadSatelliteTexture env s) = Some (CanvasTexture final)
         \<and> colorTexture (loadSatelliteTexture env s) = Some (CanvasTexture final)
         \<and> cwidth final = 1024 \<and> cheight final = 1024
         \<and> (\<forall>px < 1024. \<forall>py < 1024.
               pixel final px py
               = env_resample env (fetchMosaicSatellite (env_loadImage env) (tileRange b 13))
                   (spec_cropFor b 13) 1024 1024 px py)))"
proof (intro conjI impI)
  show "cropRectangle b (xMin, xMax, yMin, yMax) zoom width height
     = spec_cropRect b (fst (tileToLatLon xMin yMin zoom))
         (fst (tileToLatLon (xMax + 1) (yMax + 1) zoom))
         (snd (tileToLatLon (xMax + 1) (yMax + 1) zoom))
         (snd (tileToLatLon xMin yMin zoom)) width height"
    by (rule cropRectangle_spec)
next
  assume "fetchDEM_try env b s = Inr s'"
  then obtain ctx where m: "fetchMosaicDEM (env_loadImage env) (tileRange b 11) = Inr ctx"
    and h: "heightmapTexture s' = Some (CanvasTexture
           (drawImageScaled (env_resample env) (heightmapCanvas ctx) (spec_cropFor b 11) 512 512
              (createCanvas 512 512)))"
    by (rule fetchDEM_try_success)
  show "\<exists>ctx final.
           fetchMosaicDEM (env_loadImage env) (tileRange b 11) = Inr ctx
         \<and> final = drawImageScaled (env_resample env) (heightmapCanvas ctx) (spec_cropFor b 11)
                     512 512 (createCanvas 512 512)
         \<and> heightmapTexture s' = Some (CanvasTexture final)
         \<and> cwidth final = 512 \<and> cheight final = 512
         \<and> (\<forall>px < 512. \<forall>py < 512.
               pixel final px py
               = env_resample env (heightmapCanvas ctx) (spec_cropFor b 11) 512 512 px py)"
    using m h by (simp add: drawImageScaled_def createCanvas_def)
next
  assume b: "bounds s = Some b"
  show "\<exists>final.
           final = drawImageScaled (env_resample env)
                     (fetchMosaicSatellite (env_loadImage env) (tileRange b 13)) (spec_cropFor b 13)
                     1024 1024 (createCanvas 1024 1024)
         \<and> satelliteTexture (loadSatelliteTexture env s) = Some (CanvasTexture final)
         \<and> colorTexture (loadSatelliteTexture env s) = Some (CanvasTexture final)
         \<and> cwidth final = 1024 \<and> cheight final = 1024
         \<and> (\<forall>px < 1024. \<forall>py < 1024.
               pixel final px py
               = env_resample env (fetchMosaicSatellite (env_loadImage env) (tileRange b 13))
                   (spec_cropFor b 13) 1024 1024 px py)"
    using loadSatelliteTexture_texture [OF b, of env]
    by (simp add: drawImageScaled_def createCanvas_def)
qed

theorem crop_and_rescale_witness:
  "(\<exists>s' final. fetchDEM_try ex_env everest init_state = Inr s'
       \<and> heightmapTexture s' = Some (CanvasTexture final)
       \<and> cwidth final = 512 \<and> cheight final = 512)
   \<and> (\<exists>final. satelliteTexture (loadSatelliteTexture ex_env (init_state \<lparr> bounds := Some everest \<rparr>))
                  = Some (CanvasTexture final)
       \<and> cwidth final = 1024 \<and> cheight final = 1024)"
proof -
  obtain s' where s': "fetchDEM_try ex_env everest init_state = Inr s'"
    using fetchDEM_try_ok_loader [of ex_env everest init_state] by (auto simp: ex_env_def)
  have b: "bounds (init_state \<lparr> bounds := Some everest \<rparr>) = Some everest" by simp
  show ?thesis
    using crop_and_rescale [of everest 0 0 0 0 11 256 256 ex_env init_state s']
      crop_and_rescale [of everest 0 0 0 0 13 256 256 ex_env "init_state \<lparr> bounds := Some everest \<rparr>"]
      s' b
    by blast
qed

section \<open>The projection in exact arithmetic\<close>

text \<open>
  The lemmas of this section are about the two formulas over the real numbers, not about
  their evaluation in doubles: there the tile found for a point contains it, in longitude
  and in latitude.
\<close>

text \<open>The Mercator ordinate \<open>ln (tan \<phi> + 1 / cos \<phi>)\<close> and its inverse.\<close>

lemma mercator_sinh:
  assumes "- (pi / 2) < \<phi>" and "\<phi> < pi / 2"
  shows "0 < tan \<phi> + 1 / cos \<phi>" and "sinh (ln (tan \<phi> + 1 / cos \<phi>)) = tan \<phi>"
proof -
  have c: "0 < cos \<phi>" using assms by (rule cos_gt_zero_pi)
  have s: "- 1 < sin \<phi>"
  proof -
    have "sin (- (pi / 2)) < sin \<phi>"
      using assms by (intro sin_monotone_2pi) simp_all
    then show ?thesis by simp
  qed
  have sum: "tan \<phi> + 1 / cos \<phi> = (sin \<phi> + 1) / cos \<phi>"
    using c by (simp add: tan_def add_divide_distrib)
  show pos: "0 < tan \<phi> + 1 / cos \<phi>" unfolding sum using c s by simp
  have "(sin \<phi> + 1) * (1 - sin \<phi>) = cos \<phi> * cos \<phi>"
    using sin_cos_squared_add [of \<phi>] by (simp add: algebra_simps power2_eq_square)
  then have inv: "inverse ((sin \<phi> + 1) / cos \<phi>) = (1 - sin \<phi>) / cos \<phi>"
    using c s by (simp add: field_simps)
  have "sinh (ln (tan \<phi> + 1 / cos \<phi>))
        = ((tan \<phi> + 1 / cos \<phi>) - inverse (tan \<phi> + 1 / cos \<phi>)) / 2"
    using pos by (simp add: sinh_field_def exp_minus)
  also have "\<dots> = ((sin \<phi> + 1) / cos \<phi> - (1 - sin \<phi>) / cos \<phi>) / 2"
    unfolding sum inv ..
  also have "\<dots> = tan \<phi>" using c by (simp add: tan_def field_simps)
  finally show "sinh (ln (tan \<phi> + 1 / cos \<phi>)) = tan \<phi>" .
qed

lemma tileToLatLon_fst:
  "fst (tileToLatLon x y z) = (180 / pi) * arctan (sinh (pi - (2 * pi * real_of_int y) / 2 ^ z))"
  by (simp add: tileToLatLon_def Let_def sinh_field_def)

lemma tileToLatLon_snd:
  "snd (tileToLatLon x y z) = (real_of_int x / 2 ^ z) * 360 - 180"
  by (simp add: tileToLatLon_def Let_def)

lemma lat_le_corner_iff:
  assumes "- 90 < lat" and "lat < 90"
  shows "lat \<le> fst (tileToLatLon x y z)
         \<longleftrightarrow> ln (tan (lat * pi / 180) + 1 / cos (lat * pi / 180)) \<le> pi - (2 * pi * real_of_int y) / 2 ^ z"
    and "fst (tileToLatLon x y z) < lat
         \<longleftrightarrow> pi - (2 * pi * real_of_int y) / 2 ^ z < ln (tan (lat * pi / 180) + 1 / cos (lat * pi / 180))"
proof -
  let ?\<phi> = "lat * pi / 180"
  let ?n = "pi - (2 * pi * real_of_int y) / 2 ^ z"
  let ?m = "ln (tan ?\<phi> + 1 / cos ?\<phi>)"
  have "pi * (- 90) < pi * lat" "pi * lat < pi * 90"
    using assms pi_gt_zero by (simp_all only: mult_less_cancel_left_pos)
  then have r: "- (pi / 2) < ?\<phi>" "?\<phi> < pi / 2"
    by (simp_all add: field_simps)
  have "(180 / pi) * arctan (tan ?\<phi>) = (180 / pi) * ?\<phi>"
    by (simp only: arctan_tan [OF r])
  also have "\<dots> = lat" by simp
  finally have lat: "lat = (180 / pi) * arctan (tan ?\<phi>)" by simp
  have pos: "0 < 180 / pi" by simp
  have "lat \<le> fst (tileToLatLon x y z) \<longleftrightarrow> (180 / pi) * arctan (tan ?\<phi>) \<le> (180 / pi) * arctan (sinh ?n)"
    unfolding tileToLatLon_fst using lat by simp
  also have "\<dots> \<longleftrightarrow> arctan (tan ?\<phi>) \<le> arctan (sinh ?n)"
    using pos by (simp only: mult_le_cancel_left_pos)
  also have "\<dots> \<longleftrightarrow> tan ?\<phi> \<le> sinh ?n" by (simp only: arctan_le_iff)
  also have "\<dots> \<longleftrightarrow> sinh ?m \<le> sinh ?n" using mercator_sinh(2) [OF r] by simp
  also have "\<dots> \<longleftrightarrow> ?m \<le> ?n" by (simp only: sinh_real_le_iff)
  finally show "lat \<le> fst (tileToLatLon x y z) \<longleftrightarrow> ?m \<le> ?n" .
  then show "fst (tileToLatLon x y z) < lat \<longleftrightarrow> ?n < ?m" by linarith
qed

lemma floor_scaled_bounds:
  fixes q P :: real
  assumes "0 < P"
  shows "real_of_int \<lfloor>q * P\<rfloor> / P \<le> q" and "q < real_of_int \<lfloor>q * P\<rfloor> / P + 1 / P"
proof -
  have "real_of_int \<lfloor>q * P\<rfloor> \<le> q * P" by (rule of_int_floor_le)
  then show "real_of_int \<lfloor>q * P\<rfloor> / P \<le> q"
    using assms by (simp only: pos_divide_le_eq)
  have "q * P < real_of_int \<lfloor>q * P\<rfloor> + 1" by (rule real_of_int_floor_add_one_gt)
  then have "q < (real_of_int \<lfloor>q * P\<rfloor> + 1) / P"
    using assms by (simp only: pos_less_divide_eq)
  then show "q < real_of_int \<lfloor>q * P\<rfloor> / P + 1 / P"
    by (simp only: add_divide_distrib)
qed

lemma tile_contains_lon:
  fixes lon :: real and z :: nat
  defines "x \<equiv> \<lfloor>((lon + 180) / 360) * 2 ^ z\<rfloor>"
  shows "(real_of_int x / 2 ^ z) * 360 - 180 \<le> lon"
    and "lon < (real_of_int x / 2 ^ z) * 360 - 180 + 360 / 2 ^ z"
proof -
  have p: "(0 :: real) < 2 ^ z" by simp
  note b = floor_scaled_bounds [OF p, of "(lon + 180) / 360", folded x_def]
  define w where "w = real_of_int x / 2 ^ z"
  define u where "u = 1 / (2 :: real) ^ z"
  have w: "w \<le> (lon + 180) / 360" "(lon + 180) / 360 < w + u"
    using b unfolding w_def u_def by simp_all
  have e: "360 / (2 :: real) ^ z = 360 * u" unfolding u_def by simp
  have "w * 360 - 180 \<le> lon" using w(1) by argo
  then show "(real_of_int x / 2 ^ z) * 360 - 180 \<le> lon" unfolding w_def .
  have "lon < w * 360 - 180 + 360 * u" using w(2) by argo
  then show "lon < (real_of_int x / 2 ^ z) * 360 - 180 + 360 / 2 ^ z"
    unfolding e unfolding w_def .
qed

lemma tile_contains_lat:
  fixes m :: real and z :: nat
  defines "y \<equiv> \<lfloor>((1 - m / pi) / 2) * 2 ^ z\<rfloor>"
  shows "m \<le> pi - (2 * pi * real_of_int y) / 2 ^ z"
    and "pi - (2 * pi * real_of_int (y + 1)) / 2 ^ z < m"
proof -
  have p: "(0 :: real) < 2 ^ z" by simp
  note b = floor_scaled_bounds [OF p, of "(1 - m / pi) / 2", folded y_def]
  define w where "w = real_of_int y / 2 ^ z"
  define u where "u = 1 / (2 :: real) ^ z"
  have w: "w \<le> (1 - m / pi) / 2" "(1 - m / pi) / 2 < w + u"
    using b unfolding w_def u_def by simp_all
  have "2 * pi * w \<le> 2 * pi * ((1 - m / pi) / 2)"
    using w(1) pi_gt_zero by (intro mult_left_mono) simp_all
  moreover have "2 * pi * ((1 - m / pi) / 2) < 2 * pi * (w + u)"
    using w(2) pi_gt_zero by (intro mult_strict_left_mono) simp_all
  moreover have "2 * pi * ((1 - m / pi) / 2) = pi - m" by (simp add: field_simps)
  ultimately have r: "m \<le> pi - 2 * pi * w" "pi - 2 * pi * (w + u) < m" by argo+
  have "(2 * pi * real_of_int y) / 2 ^ z = 2 * pi * w" unfolding w_def by simp
  then show "m \<le> pi - (2 * pi * real_of_int y) / 2 ^ z" using r(1) by simp
  have "(2 * pi * real_of_int (y + 1)) / 2 ^ z = 2 * pi * (w + u)"
    unfolding w_def u_def by (simp add: add_divide_distrib distrib_left)
  then show "pi - (2 * pi * real_of_int (y + 1)) / 2 ^ z < m" using r(2) by simp
qed

lemma tile_x_range:
  fixes lon :: real
  assumes "- 180 \<le> lon" and "lon < 180"
  shows "0 \<le> \<lfloor>((lon + 180) / 360) * 2 ^ z\<rfloor>" and "\<lfloor>((lon + 180) / 360) * 2 ^ z\<rfloor> < 2 ^ z"
proof -
  have a: "0 \<le> (lon + 180) / 360" "(lon + 180) / 360 < 1" using assms by simp_all
  then show "0 \<le> \<lfloor>((lon + 180) / 360) * 2 ^ z\<rfloor>" by simp
  have "((lon + 180) / 360) * 2 ^ z < 1 * 2 ^ z"
    using a(2) by (intro mult_strict_right_mono) simp_all
  then have "((lon + 180) / 360) * 2 ^ z < real_of_int (2 ^ z)" by simp
  then show "\<lfloor>((lon + 180) / 360) * 2 ^ z\<rfloor> < 2 ^ z" by (simp only: floor_less_iff)
qed

lemma tile_round_trip_general:
  assumes "- 90 < lat" and "lat < 90"
  shows "(case latLonToTile lat lon zoom of (x, y) \<Rightarrow>
            snd (tileToLatLon x y zoom) \<le> lon
          \<and> lon < snd (tileToLatLon x y zoom) + 360 / 2 ^ zoom
          \<and> fst (tileToLatLon x (y + 1) zoom) < lat
          \<and> lat \<le> fst (tileToLatLon x y zoom))"
proof -
  let ?m = "ln (tan (lat * pi / 180) + 1 / cos (lat * pi / 180))"
  let ?x = "\<lfloor>((lon + 180) / 360) * 2 ^ zoom\<rfloor>"
  let ?y = "\<lfloor>((1 - ?m / pi) / 2) * 2 ^ zoom\<rfloor>"
  have t: "latLonToTile lat lon zoom = (?x, ?y)" by (simp add: latLonToTile_def Let_def)
  have "snd (tileToLatLon ?x ?y zoom) \<le> lon"
    "lon < snd (tileToLatLon ?x ?y zoom) + 360 / 2 ^ zoom"
    unfolding tileToLatLon_snd by (rule tile_contains_lon)+
  moreover have "fst (tileToLatLon ?x (?y + 1) zoom) < lat"
    unfolding lat_le_corner_iff(2) [OF assms] by (rule tile_contains_lat(2))
  moreover have "lat \<le> fst (tileToLatLon ?x ?y zoom)"
    unfolding lat_le_corner_iff(1) [OF assms] by (rule tile_contains_lat(1))
  ultimately show ?thesis unfolding t by simp
qed

section \<open>The longitude round trip in doubles\<close>

lemma fl_floor:
  "fl (real_of_int \<lfloor>fl r * 2 ^ z\<rfloor>) = real_of_int \<lfloor>fl r * 2 ^ z\<rfloor>"
proof -
  obtain m j where m: "fl r = real_of_int m * 2 powi j" "\<bar>m\<bar> \<le> 2 ^ 53"
    unfolding fl_def using rnd_representable [of 53 r] by auto
  define i where "i = j + int z"
  have t: "fl r * 2 ^ z = real_of_int m * 2 powi i"
    unfolding m(1) i_def two_powi_add by simp
  show ?thesis
  proof (cases "0 \<le> i")
    case True
    then obtain d where d: "i = int d" using nonneg_int_cases by blast
    have "fl r * 2 ^ z = real_of_int (m * 2 ^ d)" unfolding t d by simp
    then have "real_of_int \<lfloor>fl r * 2 ^ z\<rfloor> = real_of_int m * 2 powi i"
      unfolding t [symmetric] by (simp only: floor_of_int)
    then show ?thesis unfolding fl_def using rnd_exact [of m 53 i] m(2) by simp
  next
    case False
    then have p: "(2::real) powi i \<le> 1" using two_powi_le_iff [of i 0] by simp
    have "\<bar>fl r * 2 ^ z\<bar> = real_of_int \<bar>m\<bar> * 2 powi i"
      unfolding t using two_powi_pos [of i] by (simp add: abs_mult)
    also have "\<dots> \<le> real_of_int \<bar>m\<bar> * 1" using p by (intro mult_left_mono) simp_all
    also have "\<dots> \<le> real_of_int (2 ^ 53)" using m(2) by (simp only: of_int_le_iff mult_1_right)
    finally have b: "\<bar>fl r * 2 ^ z\<bar> \<le> real_of_int (2 ^ 53)" .
    have b2: "fl r * 2 ^ z \<le> real_of_int (2 ^ 53)" "real_of_int (- (2 ^ 53)) \<le> fl r * 2 ^ z"
      using b by linarith+
    have "\<lfloor>fl r * 2 ^ z\<rfloor> \<le> \<lfloor>real_of_int (2 ^ 53)\<rfloor>" using b2(1) by (rule floor_mono)
    then have "\<lfloor>fl r * 2 ^ z\<rfloor> \<le> 2 ^ 53" by (simp only: floor_of_int)
    moreover have "- (2 ^ 53) \<le> \<lfloor>fl r * 2 ^ z\<rfloor>" using b2(2) by (simp only: le_floor_iff)
    ultimately have "\<bar>\<lfloor>fl r * 2 ^ z\<rfloor>\<bar> \<le> 2 ^ 53" by linarith
    then show ?thesis by (rule fl_of_int)
  qed
qed

section \<open>Tile round trip\<close>

text \<open>
  Claim C5 says that the tile returned for a point contains it exactly:
  \<open>lon' \<le> lon < lon' + 360 / 2 ^ zoom\<close>. In the doubles of the code it need not. The double
  written \<^verbatim>\<open>86.66015624999999\<close> is \<open>22185 / 256 - 1 / 2 ^ 46\<close>; at zoom 11 the sum
  \<open>lon + 180\<close> rounds up to \<open>68265 / 256\<close>, the tile column is 1517, and the west edge of
  that tile, \<open>22185 / 256 = 86.66015625\<close>, lies east of the point.
\<close>

theorem tile_round_trip_counterexample:
  "fl (22185 / 256 - 1 / 2 ^ 46) = 22185 / 256 - 1 / 2 ^ 46
   \<and> - 180 \<le> (22185 / 256 - 1 / 2 ^ 46 :: real)
   \<and> (22185 / 256 - 1 / 2 ^ 46 :: real) < 180
   \<and> latLonToTile_x (22185 / 256 - 1 / 2 ^ 46) 11 = 1517
   \<and> tileToLatLon_lon 1517 11 = 22185 / 256
   \<and> \<not> tileToLatLon_lon (latLonToTile_x (22185 / 256 - 1 / 2 ^ 46) 11) 11
         \<le> 22185 / 256 - 1 / 2 ^ 46"
proof -
  have i: "fl (22185 / 256 - 1 / 2 ^ 46) = 22185 / 256 - 1 / 2 ^ 46"
    by (subst fl_eval [of 6]) (simp_all add: round_even_def)
  have a: "fl (22185 / 256 - 1 / 2 ^ 46 + 180) = 68265 / 256"
    by (subst fl_eval [of 8]) (simp_all add: round_even_def)
  have b: "fl (68265 / 256 / 360) = 1517 / 2048"
    by (subst fl_eval [of "- 1"]) (simp_all add: round_even_def)
  have c: "fl (1517 / 2048 * 2 ^ 11) = 1517"
    by (subst fl_eval [of 10]) (simp_all add: round_even_def)
  have x: "latLonToTile_x (22185 / 256 - 1 / 2 ^ 46) 11 = 1517"
    unfolding latLonToTile_x_def a b c by simp
  have d: "fl (real_of_int 1517 / 2 ^ 11) = 1517 / 2048"
    by (subst fl_eval [of "- 1"]) (simp_all add: round_even_def)
  have e: "fl (1517 / 2048 * 360) = 68265 / 256"
    by (subst fl_eval [of 8]) (simp_all add: round_even_def)
  have f: "fl (68265 / 256 - 180) = 22185 / 256"
    by (subst fl_eval [of 6]) (simp_all add: round_even_def)
  have l: "tileToLatLon_lon 1517 11 = 22185 / 256"
    unfolding tileToLatLon_lon_def d e f ..
  show ?thesis unfolding x l using i by simp
qed

text \<open>
  Claim C5, as amended. For every longitude in \<open>[-180, 180)\<close> and every zoom up to 1023
  (beyond, \<^verbatim>\<open>Math.pow(2, zoom)\<close> is \<^verbatim>\<open>Infinity\<close>),
  let \<open>x\<close> be the tile column that \<open>latLonToTile\<close> computes and \<open>lon'\<close> the west edge that
  \<open>tileToLatLon\<close> computes for it, both in doubles. Then
  \<open>lon' - 1 / 2 ^ 43 < lon < lon' + 360 / 2 ^ zoom + 1 / 2 ^ 43\<close>: the tile contains the point
  up to a rounding error below \<open>1 / 2 ^ 43\<close> degrees; and \<open>x\<close> is not negative. The latitude
  halves are left out: their doubles depend on the platform's \<^verbatim>\<open>Math.log\<close>, \<^verbatim>\<open>Math.tan\<close>,
  \<^verbatim>\<open>Math.cos\<close>, \<^verbatim>\<open>Math.atan\<close> and \<^verbatim>\<open>Math.exp\<close>.
\<close>

theorem tile_round_trip_doubles:
  fixes lon :: real and zoom :: nat
  assumes "- 180 \<le> lon" and "lon < 180" and "zoom \<le> 1023"
  shows "tileToLatLon_lon (latLonToTile_x lon zoom) zoom - 1 / 2 ^ 43 < lon
       \<and> lon < tileToLatLon_lon (latLonToTile_x lon zoom) zoom + 360 / 2 ^ zoom + 1 / 2 ^ 43
       \<and> 0 \<le> latLonToTile_x lon zoom"
proof -
  define x where "x = latLonToTile_x lon zoom"
  define A where "A = lon + 180"
  define a where "a = fl A"
  define Q where "Q = a / 360"
  define q where "q = fl Q"
  define t where "t = q * 2 ^ zoom"
  define w :: real where "w = 1 / 2 ^ zoom"
  define c1 where "c1 = real_of_int x / 2 ^ zoom"
  define c2 where "c2 = fl (c1 * 360)"
  define c3 where "c3 = fl (c2 - 180)"
  have A: "0 \<le> A" "A < 360" using assms(1,2) by (simp_all add: A_def)
  have "\<bar>A\<bar> < 2 powi 9" using A by simp
  then have "a - A \<le> 2 powi (9 - 54)" "A - a \<le> 2 powi (9 - 54)"
    unfolding a_def by (rule fl_error2)+
  then have ea: "a - A \<le> 1 / 35184372088832" "A - a \<le> 1 / 35184372088832" by simp_all
  have a0: "0 \<le> a" unfolding a_def using A(1) by (rule fl_nonneg)
  have Q: "a = 360 * Q" "0 \<le> Q" using a0 by (simp_all add: Q_def)
  have "Q < 2" using Q(1) ea(1) A(2) by linarith
  then have "\<bar>Q\<bar> < 2 powi 1" using Q(2) by simp
  then have "q - Q \<le> 2 powi (1 - 54)" "Q - q \<le> 2 powi (1 - 54)"
    unfolding q_def by (rule fl_error2)+
  then have eq: "q - Q \<le> 1 / 9007199254740992" "Q - q \<le> 1 / 9007199254740992" by simp_all
  have q0: "0 \<le> q" unfolding q_def using Q(2) by (rule fl_nonneg)
  have xt: "x = \<lfloor>t\<rfloor>"
    unfolding x_def latLonToTile_x_def t_def q_def Q_def a_def A_def
    by (simp add: fl_times_pow2 fl_fl)
  have w: "0 < w" "360 / 2 ^ zoom = 360 * w" by (simp_all add: w_def)
  have "real_of_int x \<le> t" "t < real_of_int x + 1" unfolding xt by linarith+
  then have "real_of_int x * w \<le> t * w" "t * w < (real_of_int x + 1) * w"
    using w(1) by simp_all
  moreover have "t * w = q" "real_of_int x * w = c1" by (simp_all add: t_def w_def c1_def)
  ultimately have c1: "c1 \<le> q" "q < c1 + w" by (simp_all add: algebra_simps)
  have "0 \<le> t" unfolding t_def using q0 by simp
  then have x0: "0 \<le> x" unfolding xt by simp
  have c10: "0 \<le> c1" unfolding c1_def using x0 by simp
  have fx: "fl (real_of_int x / 2 ^ zoom) = c1"
    unfolding c1_def fl_div_pow2 xt t_def q_def by (simp only: fl_floor)
  have "c1 * 360 < 512" using c1(1) eq(1) Q(1) ea(1) A(2) by linarith
  then have "\<bar>c1 * 360\<bar> < 2 powi 9" using c10 by simp
  then have "c2 - c1 * 360 \<le> 2 powi (9 - 54)" "c1 * 360 - c2 \<le> 2 powi (9 - 54)"
    unfolding c2_def by (rule fl_error2)+
  then have e2: "c2 - c1 * 360 \<le> 1 / 35184372088832" "c1 * 360 - c2 \<le> 1 / 35184372088832"
    by simp_all
  have c20: "0 \<le> c2" unfolding c2_def using c10 by (intro fl_nonneg) simp
  have "c2 - 180 < 256" using e2(1) c1(1) eq(1) Q(1) ea(1) A(2) by linarith
  moreover have "- 256 < c2 - 180" using c20 by simp
  ultimately have "\<bar>c2 - 180\<bar> < 2 powi 8" by simp
  then have "c3 - (c2 - 180) \<le> 2 powi (8 - 54)" "(c2 - 180) - c3 \<le> 2 powi (8 - 54)"
    unfolding c3_def by (rule fl_error2)+
  then have e3: "c3 - (c2 - 180) \<le> 1 / 70368744177664" "(c2 - 180) - c3 \<le> 1 / 70368744177664"
    by simp_all
  have l: "tileToLatLon_lon x zoom = c3"
    unfolding tileToLatLon_lon_def fx c3_def c2_def ..
  have lon: "lon = A - 180" by (simp add: A_def)
  have "c3 - 1 / 8796093022208 < A - 180"
    using e3(1) e2(1) c1(1) eq(1) Q(1) ea(1) by linarith
  then have g1: "tileToLatLon_lon x zoom - 1 / 2 ^ 43 < lon" unfolding l lon by simp
  have "A - 180 < c3 + 360 * w + 1 / 8796093022208"
    using e3(2) e2(2) c1(2) eq(2) Q(1) ea(2) by linarith
  then have g2: "lon < tileToLatLon_lon x zoom + 360 / 2 ^ zoom + 1 / 2 ^ 43"
    unfolding l lon w(2) by simp
  show ?thesis using g1 g2 x0 unfolding x_def by simp
qed

theorem tile_round_trip_doubles_witness:
  "latLonToTile_x 0 1 = 1
   \<and> tileToLatLon_lon 1 1 = 0
   \<and> tileToLatLon_lon (latLonToTile_x 0 1) 1 - 1 / 2 ^ 43 < 0
   \<and> (0 :: real) < tileToLatLon_lon (latLonToTile_x 0 1) 1 + 360 / 2 ^ 1 + 1 / 2 ^ 43"
proof -
  have a: "fl (0 + 180) = 180"
    by (subst fl_eval [of 7]) (simp_all add: round_even_def)
  have b: "fl (180 / 360) = 1 / 2"
    by (subst fl_eval [of "- 1"]) (simp_all add: round_even_def)
  have c: "fl (1 / 2 * 2 ^ 1) = 1"
    by (subst fl_eval [of 0]) (simp_all add: round_even_def)
  have x: "latLonToTile_x 0 1 = 1"
    unfolding latLonToTile_x_def a b c by simp
  have d: "fl (real_of_int 1 / 2 ^ 1) = 1 / 2"
    by (subst fl_eval [of "- 1"]) (simp_all add: round_even_def)
  have e: "fl (1 / 2 * 360) = 180"
    by (subst fl_eval [of 7]) (simp_all add: round_even_def)
  have f: "fl (180 - 180) = 0" by (simp add: fl_0)
  have l: "tileToLatLon_lon 1 1 = 0"
    unfolding tileToLatLon_lon_def d e f ..
  show ?thesis using tile_round_trip_doubles [of 0 1] x l by simp
qed

section \<open>Facts about the mesh\<close>







lemma createTerrain_positions:
  assumes "heightmapTexture s = Some t"
  shows "\<exists>m. terrain (createTerrain env s) = Some m
             \<and> positions m = applyHeightmapToGeometry 256 t (env_exag env)"
  using assms by (simp add: createTerrain_def Let_def split: option.splits)

section \<open>Facts about the vertex loop\<close>










lemma stored_height_zero: "fround (fl (fl h * 0)) = 0"
  by (simp add: fl_0 fround_0)



section \<open>Mesh displacement\<close>




section \<open>Facts about the elevation load\<close>


lemma fetchDEM_no_bounds:
  assumes "bounds s = None"
  shows "snd (fetchDEM env s) = setStatus ''Set bounds first'' ''error'' s"
  using assms by (simp add: fetchDEM_unfold)

lemma fetchDEM_no_tiles:
  assumes "bounds s = Some b" and "fetchMosaicDEM (env_loadImage env) (tileRange b 11) = Inl e"
  shows "snd (fetchDEM env s)
         = setStatus (''DEM Error: '' @ message e) ''error''
             (hideLoading (setStatus ''Fetching DEM...'' ''loading''
                (showLoading ''Fetching elevation tiles...'' s)))"
  using assms by (simp add: fetchDEM_unfold Let_def fetchDEM_try_unfold)

lemma fetchDEM_success:
  assumes "bounds s = Some b" and "fetchMosaicDEM (env_loadImage env) (tileRange b 11) = Inr ctx"
  shows "fetchDEM_try env b (setStatus ''Fetching DEM...'' ''loading''
            (showLoading ''Fetching elevation tiles...'' s)) = Inr (snd (fetchDEM env s))"
  using assms by (simp add: fetchDEM_unfold Let_def fetchDEM_try_unfold)

lemma fetchDEM_try_state:
  assumes "fetchMosaicDEM (env_loadImage env) (tileRange b 11) = Inr ctx"
  shows "fetchDEM_try env b s
         = Inr ((setStatus (''Loaded: '' @ toFixed0 (fst (elevationRange (decodeElevation (getImageData ctx))))
                   @ ''m - '' @ toFixed0 (snd (elevationRange (decodeElevation (getImageData ctx))))
                   @ ''m elevation'') ''success''
                 (hideLoading (createTerrain env
                   (s \<lparr> heightmapTexture := Some (CanvasTexture
                            (drawImageScaled (env_resample env) (heightmapCanvas ctx)
                               (spec_cropFor b 11) 512 512 (createCanvas 512 512))),
                        colorTexture := None \<rparr>))))
               \<lparr> coord_alt := ''Alt: '' @ toFixed0 (fst (elevationRange (decodeElevation (getImageData ctx))))
                   @ ''-'' @ toFixed0 (snd (elevationRange (decodeElevation (getImageData ctx)))) @ ''m'' \<rparr>)"
proof -
  have sz: "cwidth ctx = cwidth (mosaicCanvas (tileRange b 11))"
    "cheight ctx = cheight (mosaicCanvas (tileRange b 11))"
    using fetchMosaicDEM_canvas_size [OF assms] by simp_all
  show ?thesis
    using assms
    by (simp add: fetchDEM_try_unfold Let_def heightmapCanvas_def sz cropRectangle_tileRange)
qed

lemma fetchDEM_success_state:
  assumes b: "bounds s = Some b"
    and m: "fetchMosaicDEM (env_loadImage env) (tileRange b 11) = Inr ctx"
  defines "mm \<equiv> elevationRange (decodeElevation (getImageData ctx))"
    and "hm \<equiv> CanvasTexture (drawImageScaled (env_resample env) (heightmapCanvas ctx)
                   (spec_cropFor b 11) 512 512 (createCanvas 512 512))"
  shows "heightmapTexture (snd (fetchDEM env s)) = Some hm"
    and "colorTexture (snd (fetchDEM env s)) = None"
    and "\<exists>m. terrain (snd (fetchDEM env s)) = Some m
             \<and> positions m = applyHeightmapToGeometry 256 hm (env_exag env)"
    and "status_text (snd (fetchDEM env s))
         = ''Loaded: '' @ toFixed0 (fst mm) @ ''m - '' @ toFixed0 (snd mm) @ ''m elevation''"
    and "status_class (snd (fetchDEM env s)) = ''success''"
    and "coord_alt (snd (fetchDEM env s))
         = ''Alt: '' @ toFixed0 (fst mm) @ ''-'' @ toFixed0 (snd mm) @ ''m''"
    and "elevationMin (snd (fetchDEM env s)) = elevationMin s"
    and "elevationMax (snd (fetchDEM env s)) = elevationMax s"
    and "bounds (snd (fetchDEM env s)) = bounds s"
proof -
  let ?s0 = "setStatus ''Fetching DEM...'' ''loading'' (showLoading ''Fetching elevation tiles...'' s)"
  let ?s1 = "?s0 \<lparr> heightmapTexture := Some hm, colorTexture := None \<rparr>"
  have "Inr (snd (fetchDEM env s)) = fetchDEM_try env b ?s0"
    using fetchDEM_success [OF b m] by simp
  then have e: "snd (fetchDEM env s)
      = (setStatus (''Loaded: '' @ toFixed0 (fst mm) @ ''m - '' @ toFixed0 (snd mm) @ ''m elevation'')
           ''success'' (hideLoading (createTerrain env ?s1)))
        \<lparr> coord_alt := ''Alt: '' @ toFixed0 (fst mm) @ ''-'' @ toFixed0 (snd mm) @ ''m'' \<rparr>"
    unfolding fetchDEM_try_state [OF m] mm_def hm_def by simp
  have h1: "heightmapTexture ?s1 = Some hm" by simp
  show "heightmapTexture (snd (fetchDEM env s)) = Some hm"
    unfolding e by (simp add: setStatus_def hideLoading_def createTerrain_frame)
  show "colorTexture (snd (fetchDEM env s)) = None"
    unfolding e by (simp add: setStatus_def hideLoading_def createTerrain_frame)
  show "\<exists>m. terrain (snd (fetchDEM env s)) = Some m
             \<and> positions m = applyHeightmapToGeometry 256 hm (env_exag env)"
    unfolding e using createTerrain_positions [OF h1, of env]
    by (simp add: setStatus_def hideLoading_def)
  show "status_text (snd (fetchDEM env s))
         = ''Loaded: '' @ toFixed0 (fst mm) @ ''m - '' @ toFixed0 (snd mm) @ ''m elevation''"
    unfolding e by (simp add: setStatus_def)
  show "status_class (snd (fetchDEM env s)) = ''success''"
    unfolding e by (simp add: setStatus_def)
  show "coord_alt (snd (fetchDEM env s))
         = ''Alt: '' @ toFixed0 (fst mm) @ ''-'' @ toFixed0 (snd mm) @ ''m''"
    unfolding e by simp
  show "elevationMin (snd (fetchDEM env s)) = elevationMin s"
    unfolding e by (simp add: setStatus_def hideLoading_def showLoading_def createTerrain_frame)
  show "elevationMax (snd (fetchDEM env s)) = elevationMax s"
    unfolding e by (simp add: setStatus_def hideLoading_def showLoading_def createTerrain_frame)
  show "bounds (snd (fetchDEM env s)) = bounds s"
    unfolding e by (simp add: setStatus_def hideLoading_def showLoading_def createTerrain_frame)
qed

lemma fetchDEM_failure_state:
  assumes "bounds s = None \<or> (\<exists>b. bounds s = Some b
             \<and> isl (fetchMosaicDEM (env_loadImage env) (tileRange b 11)))"
  shows "heightmapTexture (snd (fetchDEM env s)) = heightmapTexture s"
    and "colorTexture (snd (fetchDEM env s)) = colorTexture s"
    and "terrain (snd (fetchDEM env s)) = terrain s"
    and "status_class (snd (fetchDEM env s)) = ''error''"
    and "elevationMin (snd (fetchDEM env s)) = elevationMin s"
    and "elevationMax (snd (fetchDEM env s)) = elevationMax s"
    and "bounds (snd (fetchDEM env s)) = bounds s"
proof -
  consider (nb) "bounds s = None"
    | (nt) b e where "bounds s = Some b"
        "fetchMosaicDEM (env_loadImage env) (tileRange b 11) = Inl e"
    using assms by (auto simp: isl_def)
  then have "\<exists>msg. snd (fetchDEM env s) = setStatus msg ''error'' s
                 \<or> snd (fetchDEM env s)
                    = setStatus msg ''error'' (hideLoading (setStatus ''Fetching DEM...'' ''loading''
                        (showLoading ''Fetching elevation tiles...'' s)))"
  proof cases
    case nb
    then show ?thesis using fetchDEM_no_bounds by blast
  next
    case nt
    then show ?thesis using fetchDEM_no_tiles by blast
  qed
  then obtain msg where "snd (fetchDEM env s) = setStatus msg ''error'' s
                 \<or> snd (fetchDEM env s)
                    = setStatus msg ''error'' (hideLoading (setStatus ''Fetching DEM...'' ''loading''
                        (showLoading ''Fetching elevation tiles...'' s)))" by blast
  then show "heightmapTexture (snd (fetchDEM env s)) = heightmapTexture s"
    and "colorTexture (snd (fetchDEM env s)) = colorTexture s"
    and "terrain (snd (fetchDEM env s)) = terrain s"
    and "status_class (snd (fetchDEM env s)) = ''error''"
    and "elevationMin (snd (fetchDEM env s)) = elevationMin s"
    and "elevationMax (snd (fetchDEM env s)) = elevationMax s"
    and "bounds (snd (fetchDEM env s)) = bounds s"
    by (auto simp: setStatus_def hideLoading_def showLoading_def)
qed

lemma fetchMosaicDEM_fail_loader: "isl (fetchMosaicDEM fail_loader (tileRange b 11))"
proof -
  obtain xMin xMax yMin yMax where r: "tileRange b 11 = (xMin, xMax, yMin, yMax)"
    by (cases "tileRange b 11") auto
  show ?thesis unfolding r fetchMosaicDEM_failed_iff by (simp add: fail_loader_def)
qed

lemma fetchDEM_status_error_iff:
  "status_class (snd (fetchDEM env s)) = ''error''
   \<longleftrightarrow> (bounds s = None \<or> (\<exists>b. bounds s = Some b
          \<and> isl (fetchMosaicDEM (env_loadImage env) (tileRange b 11))))"
proof (cases "bounds s")
  case None
  then show ?thesis using fetchDEM_failure_state(4) [of s env] by simp
next
  case (Some b)
  show ?thesis
  proof (cases "fetchMosaicDEM (env_loadImage env) (tileRange b 11)")
    case (Inl e)
    then have "isl (fetchMosaicDEM (env_loadImage env) (tileRange b 11))" by simp
    then show ?thesis using Some fetchDEM_failure_state(4) [of s env] by simp
  next
    case (Inr ctx)
    then have "status_class (snd (fetchDEM env s)) = ''success''"
      using fetchDEM_success_state(5) [OF Some] by blast
    then show ?thesis using Some Inr by simp
  qed
qed

section \<open>What the elevation load returns\<close>




section \<open>Facts about the failing runs of the elevation load\<close>

lemma fetchDEM_stages_no_tiles:
  assumes "fetchMosaicDEM (env_loadImage env) r = Inl err"
  shows "fetchDEM_stages pg env b r s = Inl (err, s)"
  using assms by (simp add: fetchDEM_stages_def Let_def)

lemma fetchDEM_stages_canvas_error:
  assumes "fetchMosaicDEM (env_loadImage env) r = Inr ctx" and "canvas_error pg = Some err"
  shows "fetchDEM_stages pg env b r s = Inl (err, s)"
  using assms by (simp add: fetchDEM_stages_def Let_def)

lemma heightmapCanvas_mosaic:
  assumes "fetchMosaicDEM L r = Inr ctx"
  shows "putImageData
           (heightmapData (cwidth (mosaicCanvas r)) (cheight (mosaicCanvas r))
              (decodeElevation (getImageData ctx)) (elevationRange (decodeElevation (getImageData ctx))))
           (createCanvas (cwidth (mosaicCanvas r)) (cheight (mosaicCanvas r)))
         = heightmapCanvas ctx"
  using fetchMosaicDEM_canvas_size [OF assms] by (simp add: heightmapCanvas_def Let_def)

lemma fetchDEM_stages_exag_error:
  assumes "fetchMosaicDEM (env_loadImage env) r = Inr ctx" and "canvas_error pg = None"
    and "exag_error pg = Some err"
  shows "fetchDEM_stages pg env b r s
         = Inl (err, s \<lparr> heightmapTexture := Some (storedHeightmap env b r ctx),
                         colorTexture := None \<rparr>)"
  using assms heightmapCanvas_mosaic [OF assms(1)]
  by (simp add: fetchDEM_stages_def Let_def createTerrain_on_def storedHeightmap_def)

lemma fetchDEM_stages_coord_alt_error:
  assumes "fetchMosaicDEM (env_loadImage env) r = Inr ctx" and "canvas_error pg = None"
    and "exag_error pg = None" and "coord_alt_error pg = Some err"
  shows "fetchDEM_stages pg env b r s
         = Inl (err, setStatus (''Loaded: ''
                         @ toFixed0 (fst (elevationRange (decodeElevation (getImageData ctx))))
                         @ ''m - ''
                         @ toFixed0 (snd (elevationRange (decodeElevation (getImageData ctx))))
                         @ ''m elevation'') ''success''
                  (hideLoading (createTerrain env
                     (s \<lparr> heightmapTexture := Some (storedHeightmap env b r ctx),
                          colorTexture := None \<rparr>))))"
  using assms heightmapCanvas_mosaic [OF assms(1)]
  by (simp add: fetchDEM_stages_def Let_def createTerrain_on_def storedHeightmap_def)

lemma fetchDEM_stages_success:
  assumes "fetchMosaicDEM (env_loadImage env) r = Inr ctx" and "canvas_error pg = None"
    and "exag_error pg = None" and "coord_alt_error pg = None"
  shows "fetchDEM_stages pg env b r s
         = Inr ((setStatus (''Loaded: ''
                         @ toFixed0 (fst (elevationRange (decodeElevation (getImageData ctx))))
                         @ ''m - ''
                         @ toFixed0 (snd (elevationRange (decodeElevation (getImageData ctx))))
                         @ ''m elevation'') ''success''
                  (hideLoading (createTerrain env
                     (s \<lparr> heightmapTexture := Some (storedHeightmap env b r ctx),
                          colorTexture := None \<rparr>))))
                \<lparr> coord_alt := ''Alt: ''
                     @ toFixed0 (fst (elevationRange (decodeElevation (getImageData ctx)))) @ ''-''
                     @ toFixed0 (snd (elevationRange (decodeElevation (getImageData ctx))))
                     @ ''m'' \<rparr>)"
  using assms heightmapCanvas_mosaic [OF assms(1)]
  by (simp add: fetchDEM_stages_def Let_def createTerrain_on_def storedHeightmap_def)

text \<open>The five ways a run with bounds can go, and what each leaves in the state.\<close>

lemma fetchDEM_on_no_bounds:
  assumes "bounds s = None"
  shows "snd (fetchDEM_on rng pg env s) = setStatus ''Set bounds first'' ''error'' s"
  using assms by (simp add: fetchDEM_on_def)

lemma fetchDEM_on_early:
  assumes "bounds s = Some b"
    and "isl (fetchMosaicDEM (env_loadImage env) (rng b)) \<or> canvas_error pg \<noteq> None"
  shows "\<exists>msg. snd (fetchDEM_on rng pg env s)
           = setStatus msg ''error'' (hideLoading (setStatus ''Fetching DEM...'' ''loading''
               (showLoading ''Fetching elevation tiles...'' s)))"
proof -
  let ?s0 = "setStatus ''Fetching DEM...'' ''loading'' (showLoading ''Fetching elevation tiles...'' s)"
  have "\<exists>err. fetchDEM_stages pg env b (rng b) ?s0 = Inl (err, ?s0)"
  proof (cases "fetchMosaicDEM (env_loadImage env) (rng b)")
    case (Inl err)
    then show ?thesis using fetchDEM_stages_no_tiles by blast
  next
    case (Inr ctx)
    then obtain err where "canvas_error pg = Some err" using assms(2) by auto
    then show ?thesis using fetchDEM_stages_canvas_error [OF Inr] by blast
  qed
  then obtain err where "fetchDEM_stages pg env b (rng b) ?s0 = Inl (err, ?s0)" by blast
  then have "snd (fetchDEM_on rng pg env s)
             = setStatus (''DEM Error: '' @ message err) ''error'' (hideLoading ?s0)"
    using assms(1) by (simp add: fetchDEM_on_def Let_def)
  then show ?thesis by blast
qed

lemma fetchDEM_on_exag_error:
  assumes "bounds s = Some b" and "fetchMosaicDEM (env_loadImage env) (rng b) = Inr ctx"
    and "canvas_error pg = None" and "exag_error pg \<noteq> None"
  shows "\<exists>msg. snd (fetchDEM_on rng pg env s)
           = setStatus msg ''error'' (hideLoading
               ((setStatus ''Fetching DEM...'' ''loading''
                   (showLoading ''Fetching elevation tiles...'' s))
                \<lparr> heightmapTexture := Some (storedHeightmap env b (rng b) ctx),
                  colorTexture := None \<rparr>))"
proof -
  let ?s0 = "setStatus ''Fetching DEM...'' ''loading'' (showLoading ''Fetching elevation tiles...'' s)"
  obtain err where "exag_error pg = Some err" using assms(4) by auto
  then have "fetchDEM_stages pg env b (rng b) ?s0
             = Inl (err, ?s0 \<lparr> heightmapTexture := Some (storedHeightmap env b (rng b) ctx),
                               colorTexture := None \<rparr>)"
    by (rule fetchDEM_stages_exag_error [OF assms(2,3)])
  then have "snd (fetchDEM_on rng pg env s)
             = setStatus (''DEM Error: '' @ message err) ''error''
                 (hideLoading (?s0 \<lparr> heightmapTexture := Some (storedHeightmap env b (rng b) ctx),
                                      colorTexture := None \<rparr>))"
    using assms(1) by (simp add: fetchDEM_on_def Let_def)
  then show ?thesis by blast
qed

lemma fetchDEM_on_late:
  assumes "bounds s = Some b" and "fetchMosaicDEM (env_loadImage env) (rng b) = Inr ctx"
    and "canvas_error pg = None" and "exag_error pg = None"
  shows "\<exists>msg ty alt lbl.
           snd (fetchDEM_on rng pg env s)
           = (setStatus msg ty (hideLoading (setStatus lbl ''success'' (hideLoading
               (createTerrain env
                 ((setStatus ''Fetching DEM...'' ''loading''
                     (showLoading ''Fetching elevation tiles...'' s))
                  \<lparr> heightmapTexture := Some (storedHeightmap env b (rng b) ctx),
                    colorTexture := None \<rparr>))))))
             \<lparr> coord_alt := alt \<rparr>
         \<and> (ty = ''error'' \<longleftrightarrow> coord_alt_error pg \<noteq> None)"
proof (cases "coord_alt_error pg")
  case None
  let ?s0 = "setStatus ''Fetching DEM...'' ''loading'' (showLoading ''Fetching elevation tiles...'' s)"
  let ?lbl = "''Loaded: '' @ toFixed0 (fst (elevationRange (decodeElevation (getImageData ctx))))
                @ ''m - '' @ toFixed0 (snd (elevationRange (decodeElevation (getImageData ctx))))
                @ ''m elevation''"
  let ?alt = "''Alt: '' @ toFixed0 (fst (elevationRange (decodeElevation (getImageData ctx)))) @ ''-''
                @ toFixed0 (snd (elevationRange (decodeElevation (getImageData ctx)))) @ ''m''"
  let ?t = "createTerrain env (?s0 \<lparr> heightmapTexture := Some (storedHeightmap env b (rng b) ctx),
                                       colorTexture := None \<rparr>)"
  have "snd (fetchDEM_on rng pg env s) = (setStatus ?lbl ''success'' (hideLoading ?t)) \<lparr> coord_alt := ?alt \<rparr>"
    using assms(1) fetchDEM_stages_success [OF assms(2-4) None]
    by (simp add: fetchDEM_on_def Let_def)
  also have "\<dots> = (setStatus ?lbl ''success'' (hideLoading (setStatus ?lbl ''success'' (hideLoading ?t))))
                     \<lparr> coord_alt := ?alt \<rparr>"
    by (simp add: setStatus_def hideLoading_def)
  finally show ?thesis using None by blast
next
  case (Some err)
  let ?s0 = "setStatus ''Fetching DEM...'' ''loading'' (showLoading ''Fetching elevation tiles...'' s)"
  let ?lbl = "''Loaded: '' @ toFixed0 (fst (elevationRange (decodeElevation (getImageData ctx))))
                @ ''m - '' @ toFixed0 (snd (elevationRange (decodeElevation (getImageData ctx))))
                @ ''m elevation''"
  let ?t = "createTerrain env (?s0 \<lparr> heightmapTexture := Some (storedHeightmap env b (rng b) ctx),
                                       colorTexture := None \<rparr>)"
  let ?f = "setStatus (''DEM Error: '' @ message err) ''error''
              (hideLoading (setStatus ?lbl ''success'' (hideLoading ?t)))"
  have "snd (fetchDEM_on rng pg env s) = ?f"
    using assms(1) fetchDEM_stages_coord_alt_error [OF assms(2-4) Some]
    by (simp add: fetchDEM_on_def Let_def)
  also have "\<dots> = ?f \<lparr> coord_alt := coord_alt ?f \<rparr>" by simp
  finally show ?thesis using Some by blast
qed

lemma storedHeightmap_width:
  "\<exists>c. storedHeightmap env b r ctx = CanvasTexture c \<and> cwidth c = 512 \<and> cheight c = 512"
  by (simp add: storedHeightmap_def drawImageScaled_size createCanvas_def)

section \<open>Failure of the elevation load\<close>

text \<open>
  Claim C8 says that every failing run of the elevation load leaves the stored heightmap
  texture, the stored colour texture and the mesh as they were, the new heightmap being
  stored only after every stage has succeeded. The stores of lines 1226-1227 come before
  \<^verbatim>\<open>createTerrain()\<close>, inside the same \<^verbatim>\<open>try\<close>: on a page without the exaggeration slider,
  with every tile served, the run ends in the error status and has replaced the heightmap
  texture and cleared the colour texture.
\<close>

theorem fetchDEM_atomicity_counterexample:
  "status_class (snd (fetchDEM_on demTileRange no_exag_page ex_env loaded_state)) = ''error''
   \<and> heightmapTexture (snd (fetchDEM_on demTileRange no_exag_page ex_env loaded_state))
       \<noteq> heightmapTexture loaded_state
   \<and> colorTexture loaded_state = Some (ImageTexture ex_tile)
   \<and> colorTexture (snd (fetchDEM_on demTileRange no_exag_page ex_env loaded_state)) = None"
proof -
  let ?f = "snd (fetchDEM_on demTileRange no_exag_page ex_env loaded_state)"
  have b: "bounds loaded_state = Some everest" by (simp add: loaded_state_def)
  obtain ctx where m: "fetchMosaicDEM (env_loadImage ex_env) (demTileRange everest) = Inr ctx"
    using fetchMosaicDEM_ok_loader [of everest]
    by (cases "fetchMosaicDEM ok_loader (tileRange everest 11)")
       (simp_all add: ex_env_def demTileRange_def)
  have p: "canvas_error no_exag_page = None" "exag_error no_exag_page \<noteq> None"
    by (simp_all add: no_exag_page_def intact_page_def)
  obtain msg where f: "?f = setStatus msg ''error'' (hideLoading
               ((setStatus ''Fetching DEM...'' ''loading''
                   (showLoading ''Fetching elevation tiles...'' loaded_state))
                \<lparr> heightmapTexture := Some (storedHeightmap ex_env everest (demTileRange everest) ctx),
                  colorTexture := None \<rparr>))"
    using fetchDEM_on_exag_error [where rng = demTileRange, OF b m p] by blast
  obtain c where c: "storedHeightmap ex_env everest (demTileRange everest) ctx = CanvasTexture c"
    "cwidth c = 512"
    using storedHeightmap_width by blast
  have h: "heightmapTexture ?f = Some (CanvasTexture c)"
    unfolding f c(1) by (simp add: setStatus_def hideLoading_def)
  have "c \<noteq> ex_heightmap" using c(2) by (auto simp: ex_heightmap_def)
  then have "heightmapTexture ?f \<noteq> heightmapTexture loaded_state"
    unfolding h by (simp add: loaded_state_def init_state_def)
  moreover have "status_class ?f = ''error''" "colorTexture ?f = None"
    unfolding f by (simp_all add: setStatus_def hideLoading_def)
  moreover have "colorTexture loaded_state = Some (ImageTexture ex_tile)"
    by (simp add: loaded_state_def init_state_def)
  ultimately show ?thesis by simp
qed

text \<open>
  Claim C8, as amended. Whatever tile rectangle \<open>rng\<close> the run computes for its bounds: a
  run of the elevation load that fails before the stores of lines 1226-1227, because the
  bounds are missing, because no tile loads or because a canvas call throws, ends in the
  error status and leaves the stored heightmap texture, the stored colour texture and
  the mesh as they were. The stores come after the fetch, decode, normalise and crop
  stages but before the mesh is rebuilt: a run in which \<^verbatim>\<open>createTerrain\<close> throws ends in
  the error status with the new heightmap stored and the colour texture cleared (nothing
  is said of the mesh, which \<^verbatim>\<open>createTerrain\<close> has by then taken out of the scene); a run
  in which \<^verbatim>\<open>createTerrain\<close> succeeds has stored the new heightmap, cleared the colour
  texture and rebuilt the mesh from the new heightmap, and ends in the error status
  exactly when the \<^verbatim>\<open>coord-alt\<close> update throws. So on a page that has the slider and the
  \<^verbatim>\<open>coord-alt\<close> element every failing run leaves the three as they were.
\<close>

theorem fetchDEM_failure_states:
  fixes rng :: "bbox \<Rightarrow> int \<times> int \<times> int \<times> int" and pg :: page and env :: env and s :: state
  defines "final \<equiv> snd (fetchDEM_on rng pg env s)"
  shows "(bounds s = None \<longrightarrow>
            status_class final = ''error''
          \<and> heightmapTexture final = heightmapTexture s
          \<and> colorTexture final = colorTexture s
          \<and> terrain final = terrain s)
       \<and> (bounds s = Some b
            \<and> (isl (fetchMosaicDEM (env_loadImage env) (rng b)) \<or> canvas_error pg \<noteq> None) \<longrightarrow>
            status_class final = ''error''
          \<and> heightmapTexture final = heightmapTexture s
          \<and> colorTexture final = colorTexture s
          \<and> terrain final = terrain s)
       \<and> (bounds s = Some b \<and> fetchMosaicDEM (env_loadImage env) (rng b) = Inr ctx
            \<and> canvas_error pg = None \<and> exag_error pg \<noteq> None \<longrightarrow>
            status_class final = ''error''
          \<and> heightmapTexture final = Some (storedHeightmap env b (rng b) ctx)
          \<and> colorTexture final = None)
       \<and> (bounds s = Some b \<and> fetchMosaicDEM (env_loadImage env) (rng b) = Inr ctx
            \<and> canvas_error pg = None \<and> exag_error pg = None \<longrightarrow>
            (status_class final = ''error'' \<longleftrightarrow> coord_alt_error pg \<noteq> None)
          \<and> heightmapTexture final = Some (storedHeightmap env b (rng b) ctx)
          \<and> colorTexture final = None
          \<and> (\<exists>m. terrain final = Some m
                \<and> positions m
                   = applyHeightmapToGeometry 256 (storedHeightmap env b (rng b) ctx) (env_exag env)))
       \<and> (exag_error pg = None \<and> coord_alt_error pg = None \<and> status_class final = ''error'' \<longrightarrow>
            heightmapTexture final = heightmapTexture s
          \<and> colorTexture final = colorTexture s
          \<and> terrain final = terrain s)"
proof -
  let ?s0 = "setStatus ''Fetching DEM...'' ''loading'' (showLoading ''Fetching elevation tiles...'' s)"
  have nb: "status_class final = ''error''
          \<and> heightmapTexture final = heightmapTexture s
          \<and> colorTexture final = colorTexture s
          \<and> terrain final = terrain s" if "bounds s = None"
    unfolding final_def fetchDEM_on_no_bounds [OF that] by (simp add: setStatus_def)
  have early: "status_class final = ''error''
          \<and> heightmapTexture final = heightmapTexture s
          \<and> colorTexture final = colorTexture s
          \<and> terrain final = terrain s"
    if a: "bounds s = Some b'"
      "isl (fetchMosaicDEM (env_loadImage env) (rng b')) \<or> canvas_error pg \<noteq> None" for b'
  proof -
    obtain msg where "final = setStatus msg ''error'' (hideLoading ?s0)"
      unfolding final_def using fetchDEM_on_early [where rng = rng, OF a] by blast
    then show ?thesis by (simp add: setStatus_def hideLoading_def showLoading_def)
  qed
  have exag: "status_class final = ''error''
          \<and> heightmapTexture final = Some (storedHeightmap env b' (rng b') ctx')
          \<and> colorTexture final = None"
    if a: "bounds s = Some b'" "fetchMosaicDEM (env_loadImage env) (rng b') = Inr ctx'"
      "canvas_error pg = None" "exag_error pg \<noteq> None" for b' ctx'
  proof -
    obtain msg where "final = setStatus msg ''error'' (hideLoading
               (?s0 \<lparr> heightmapTexture := Some (storedHeightmap env b' (rng b') ctx'),
                      colorTexture := None \<rparr>))"
      unfolding final_def using fetchDEM_on_exag_error [where rng = rng, OF a] by blast
    then show ?thesis by (simp add: setStatus_def hideLoading_def showLoading_def)
  qed
  have late: "(status_class final = ''error'' \<longleftrightarrow> coord_alt_error pg \<noteq> None)
          \<and> heightmapTexture final = Some (storedHeightmap env b' (rng b') ctx')
          \<and> colorTexture final = None
          \<and> (\<exists>m. terrain final = Some m
                \<and> positions m
                   = applyHeightmapToGeometry 256 (storedHeightmap env b' (rng b') ctx') (env_exag env))"
    if a: "bounds s = Some b'" "fetchMosaicDEM (env_loadImage env) (rng b') = Inr ctx'"
      "canvas_error pg = None" "exag_error pg = None" for b' ctx'
  proof -
    let ?s2 = "?s0 \<lparr> heightmapTexture := Some (storedHeightmap env b' (rng b') ctx'),
                     colorTexture := None \<rparr>"
    obtain msg ty alt lbl where f: "final
           = (setStatus msg ty (hideLoading (setStatus lbl ''success'' (hideLoading
               (createTerrain env ?s2))))) \<lparr> coord_alt := alt \<rparr>"
      and ty: "ty = ''error'' \<longleftrightarrow> coord_alt_error pg \<noteq> None"
      unfolding final_def using fetchDEM_on_late [where rng = rng, OF a] by blast
    have h2: "heightmapTexture ?s2 = Some (storedHeightmap env b' (rng b') ctx')" by simp
    have "status_class final = ty" unfolding f by (simp add: setStatus_def)
    moreover have "heightmapTexture final = Some (storedHeightmap env b' (rng b') ctx')"
      "colorTexture final = None"
      unfolding f by (simp_all add: setStatus_def hideLoading_def createTerrain_frame)
    moreover have "\<exists>m. terrain final = Some m
                \<and> positions m
                   = applyHeightmapToGeometry 256 (storedHeightmap env b' (rng b') ctx') (env_exag env)"
      unfolding f using createTerrain_positions [OF h2, of env]
      by (simp add: setStatus_def hideLoading_def)
    ultimately show ?thesis using ty by simp
  qed
  have intact: "heightmapTexture final = heightmapTexture s
          \<and> colorTexture final = colorTexture s
          \<and> terrain final = terrain s"
    if p: "exag_error pg = None" "coord_alt_error pg = None" and e: "status_class final = ''error''"
  proof (cases "bounds s")
    case None
    then show ?thesis using nb by simp
  next
    case (Some b')
    show ?thesis
    proof (cases "isl (fetchMosaicDEM (env_loadImage env) (rng b')) \<or> canvas_error pg \<noteq> None")
      case True
      then show ?thesis using early [OF Some] by simp
    next
      case False
      then obtain ctx' where "fetchMosaicDEM (env_loadImage env) (rng b') = Inr ctx'"
        and "canvas_error pg = None"
        by (cases "fetchMosaicDEM (env_loadImage env) (rng b')") auto
      then show ?thesis using late [OF Some _ _ p(1)] p(2) e by blast
    qed
  qed
  show ?thesis using nb early exag late intact by blast
qed

theorem fetchDEM_failure_states_witness:
  "status_class (snd (fetchDEM_on demTileRange intact_page fail_env loaded_state)) = ''error''
   \<and> heightmapTexture (snd (fetchDEM_on demTileRange intact_page fail_env loaded_state))
       = Some (CanvasTexture ex_heightmap)
   \<and> colorTexture (snd (fetchDEM_on demTileRange intact_page fail_env loaded_state))
       = Some (ImageTexture ex_tile)
   \<and> terrain (snd (fetchDEM_on demTileRange intact_page fail_env loaded_state))
       = terrain loaded_state"
proof -
  have b: "bounds loaded_state = Some everest" by (simp add: loaded_state_def)
  have f: "isl (fetchMosaicDEM (env_loadImage fail_env) (demTileRange everest))"
    using fetchMosaicDEM_fail_loader [of everest] by (simp add: fail_env_def demTileRange_def)
  have h: "heightmapTexture loaded_state = Some (CanvasTexture ex_heightmap)"
    "colorTexture loaded_state = Some (ImageTexture ex_tile)"
    by (simp_all add: loaded_state_def init_state_def)
  show ?thesis
    using fetchDEM_failure_states [of loaded_state demTileRange intact_page fail_env everest]
      b f h by simp
qed

section \<open>What the operations leave unchanged\<close>

lemma fetchDEM_frame:
  "elevationMin (snd (fetchDEM env s)) = elevationMin s"
  "elevationMax (snd (fetchDEM env s)) = elevationMax s"
  "bounds (snd (fetchDEM env s)) = bounds s"
proof -
  have "elevationMin (snd (fetchDEM env s)) = elevationMin s
      \<and> elevationMax (snd (fetchDEM env s)) = elevationMax s
      \<and> bounds (snd (fetchDEM env s)) = bounds s"
  proof (cases "bounds s")
    case None
    then show ?thesis using fetchDEM_failure_state(5-7) [of s env] by simp
  next
    case (Some b)
    show ?thesis
    proof (cases "fetchMosaicDEM (env_loadImage env) (tileRange b 11)")
      case (Inl e)
      then have "bounds s = None \<or> (\<exists>b. bounds s = Some b
             \<and> isl (fetchMosaicDEM (env_loadImage env) (tileRange b 11)))"
        using Some by simp
      then show ?thesis using fetchDEM_failure_state(5-7) [of s env] by simp
    next
      case (Inr ctx)
      show ?thesis using fetchDEM_success_state(7-9) [OF Some Inr] by simp
    qed
  qed
  then show "elevationMin (snd (fetchDEM env s)) = elevationMin s"
    "elevationMax (snd (fetchDEM env s)) = elevationMax s"
    "bounds (snd (fetchDEM env s)) = bounds s"
    by simp_all
qed

lemma loadSatelliteTexture_frame:
  "elevationMin (loadSatelliteTexture env s) = elevationMin s"
  "elevationMax (loadSatelliteTexture env s) = elevationMax s"
  "bounds (loadSatelliteTexture env s) = bounds s"
  "heightmapTexture (loadSatelliteTexture env s) = heightmapTexture s"
  by (simp_all add: loadSatelliteTexture_def Let_def createTerrain_frame split: option.splits)

lemma setStatus_frame:
  "elevationMin (setStatus msg ty s) = elevationMin s"
  "elevationMax (setStatus msg ty s) = elevationMax s"
  "bounds (setStatus msg ty s) = bounds s"
  "waterLevel (setStatus msg ty s) = waterLevel s"
  by (simp_all add: setStatus_def)

lemma toggleSatelliteMode_frame:
  "elevationMin (toggleSatelliteMode env s) = elevationMin s"
  "elevationMax (toggleSatelliteMode env s) = elevationMax s"
  by (simp_all add: toggleSatelliteMode_def Let_def setStatus_frame loadSatelliteTexture_frame
      createTerrain_frame)

lemma updateWaterPlane_frame:
  "elevationMin (updateWaterPlane s) = elevationMin s"
  "elevationMax (updateWaterPlane s) = elevationMax s"
  "waterLevel (updateWaterPlane s) = waterLevel s"
  "bounds (updateWaterPlane s) = bounds s"
  by (simp_all add: updateWaterPlane_def)

lemma water_frame:
  "elevationMin (animateFlood s) = elevationMin s"
  "elevationMax (animateFlood s) = elevationMax s"
  "elevationMin (toggleWaterAnimation s) = elevationMin s"
  "elevationMax (toggleWaterAnimation s) = elevationMax s"
  "elevationMin (resetWater s) = elevationMin s"
  "elevationMax (resetWater s) = elevationMax s"
  by (simp_all add: animateFlood_def toggleWaterAnimation_def resetWater_def Let_def
      updateWaterPlane_frame setStatus_frame)

lemma loadLocationTerrain_frame:
  "elevationMin (loadLocationTerrain env name lat lon s) = elevationMin s"
  "elevationMax (loadLocationTerrain env name lat lon s) = elevationMax s"
  "bounds (loadLocationTerrain env name lat lon s) = Some (locationBounds lat lon)"
  by (simp_all add: loadLocationTerrain_def Let_def setStatus_frame hideLoading_def
      showLoading_def updateWaterPlane_frame loadSatelliteTexture_frame fetchDEM_frame)

lemma step_frame:
  "elevationMin (step env a s) = elevationMin s \<and> elevationMax (step env a s) = elevationMax s"
  by (cases a)
     (simp_all add: fetchDEM_frame loadSatelliteTexture_frame toggleSatelliteMode_frame
        loadLocationTerrain_frame updateWaterPlane_frame createTerrain_frame water_frame)

lemma run_frame:
  "elevationMin (run acts s) = elevationMin s \<and> elevationMax (run acts s) = elevationMax s"
proof (induction acts arbitrary: s)
  case Nil
  then show ?case by simp
next
  case (Cons p acts)
  obtain env a where p: "p = (env, a)" by (cases p)
  show ?case unfolding p using Cons [of "step env a s"] step_frame [of env a s] by simp
qed

section \<open>The stored elevation statistics\<close>

text \<open>
  Claim C9. From the initial state, whatever operations run and whatever the network
  gives them, \<open>state.elevationMin\<close> stays 0 and \<open>state.elevationMax\<close> stays 1000: no
  operation writes them (\<open>fetchDEM\<close> keeps its minimum and maximum in local variables).
  So the altitude readout of the flood simulation is the rounding of
  \<open>waterLevel / 100 * 1000\<close>, and the two labels of the elevation profile are
  \<open>minElev * 50\<close> and \<open>maxElev * 50\<close> rounded, whatever terrain was loaded last.
\<close>

theorem elevation_stats_never_written:
  "elevationMin (step env a s) = elevationMin s
   \<and> elevationMax (step env a s) = elevationMax s
   \<and> elevationMin (run acts init_state) = 0
   \<and> elevationMax (run acts init_state) = 1000
   \<and> realAltitude (run acts init_state)
       = math_round ((waterLevel (run acts init_state) / 100) * 1000)
   \<and> profileLabels (run acts init_state) minElev maxElev
       = (''Min: '' @ show_int (math_round (minElev * 50)) @ ''m'',
          ''Max: '' @ show_int (math_round (maxElev * 50)) @ ''m'')"
proof -
  have i: "elevationMin (run acts init_state) = 0" "elevationMax (run acts init_state) = 1000"
    using run_frame [of acts init_state] by (simp_all add: init_state_def)
  have "realAltitude (run acts init_state)
       = math_round ((waterLevel (run acts init_state) / 100) * 1000)"
    unfolding realAltitude_def i by simp
  moreover have "profileLabels (run acts init_state) minElev maxElev
       = (''Min: '' @ show_int (math_round (minElev * 50)) @ ''m'',
          ''Max: '' @ show_int (math_round (maxElev * 50)) @ ''m'')"
    unfolding profileLabels_def Let_def i by simp
  ultimately show ?thesis using i step_frame [of env a s] by simp
qed

theorem elevation_stats_never_written_witness:
  "realAltitude (run [(ex_env, LoadLocationTerrain ''Everest'' 27.9881 86.925),
                      (ex_env, WaterInput 50)] init_state) = 500
   \<and> elevationMax (run [(ex_env, LoadLocationTerrain ''Everest'' 27.9881 86.925),
                        (ex_env, WaterInput 50)] init_state) = 1000"
proof -
  let ?acts = "[(ex_env, LoadLocationTerrain ''Everest'' 27.9881 86.925), (ex_env, WaterInput 50)]"
  have w: "waterLevel (run ?acts init_state) = 50"
    by (simp add: updateWaterPlane_frame)
  have r: "math_round 500 = 500" by (simp add: math_round_def)
  show ?thesis
    using elevation_stats_never_written [of ex_env FetchDEM init_state ?acts 0 0]
    unfolding w by (simp add: r)
qed

section \<open>The tile footprint in exact arithmetic\<close>

text \<open>
  Over the real numbers the two denominators of the crop formulas are positive for every
  tile range with \<open>xMin \<le> xMax\<close> and \<open>yMin \<le> yMax\<close>.
\<close>

lemma tileToLatLon_lat_decreasing:
  assumes "y < y'"
  shows "fst (tileToLatLon x' y' z) < fst (tileToLatLon x y z)"
proof -
  have p: "(0 :: real) < 2 ^ z" by simp
  have "real_of_int y < real_of_int y'" using assms by simp
  then have "2 * pi * real_of_int y < 2 * pi * real_of_int y'"
    using pi_gt_zero by simp
  then have "(2 * pi * real_of_int y) / 2 ^ z < (2 * pi * real_of_int y') / 2 ^ z"
    using p by (simp only: divide_strict_right_mono)
  then have "pi - (2 * pi * real_of_int y') / 2 ^ z < pi - (2 * pi * real_of_int y) / 2 ^ z"
    by simp
  then have "arctan (sinh (pi - (2 * pi * real_of_int y') / 2 ^ z))
           < arctan (sinh (pi - (2 * pi * real_of_int y) / 2 ^ z))"
    by (simp only: arctan_less_iff sinh_real_less_iff)
  moreover have "0 < 180 / pi" by simp
  ultimately show ?thesis
    unfolding tileToLatLon_fst by (simp only: mult_less_cancel_left_pos)
qed

lemma tileToLatLon_lon_increasing:
  assumes "x < x'"
  shows "snd (tileToLatLon x y z) < snd (tileToLatLon x' y' z)"
proof -
  have p: "(0 :: real) < 2 ^ z" by simp
  have "real_of_int x < real_of_int x'" using assms by simp
  then have "real_of_int x / 2 ^ z < real_of_int x' / 2 ^ z"
    using p by (simp only: divide_strict_right_mono)
  then have "(real_of_int x / 2 ^ z) * 360 < (real_of_int x' / 2 ^ z) * 360"
    by (simp only: mult_less_cancel_right_pos zero_less_numeral)
  then show ?thesis unfolding tileToLatLon_snd by (simp only: diff_strict_right_mono)
qed

lemma crop_denominators_positive:
  assumes "xMin \<le> xMax" and "yMin \<le> yMax"
  shows "0 < snd (tileToLatLon (xMax + 1) (yMax + 1) zoom) - snd (tileToLatLon xMin yMin zoom)"
    and "0 < fst (tileToLatLon xMin yMin zoom) - fst (tileToLatLon (xMax + 1) (yMax + 1) zoom)"
proof -
  have "xMin < xMax + 1" "yMin < yMax + 1" using assms by simp_all
  then show "0 < snd (tileToLatLon (xMax + 1) (yMax + 1) zoom) - snd (tileToLatLon xMin yMin zoom)"
    and "0 < fst (tileToLatLon xMin yMin zoom) - fst (tileToLatLon (xMax + 1) (yMax + 1) zoom)"
    using tileToLatLon_lon_increasing [of xMin "xMax + 1" yMin zoom "yMax + 1"]
      tileToLatLon_lat_decreasing [of yMin "yMax + 1" "xMax + 1" zoom xMin]
    by simp_all
qed

section \<open>Facts about the bounds of a location\<close>






section \<open>Bounds of a chosen location\<close>




end
